theory Spec2Isabelle
  imports Main
begin

section \<open>Python values, exceptions and dictionaries\<close>

text \<open>
  The module \<^verbatim>\<open>discord/ext/slash/__init__.py\<close> exchanges JSON with the platform: command
  definitions, option definitions and invocation events. A JSON value is modelled by the
  datatype below; a Python \<^verbatim>\<open>dict\<close> with string keys is an association list whose keys are
  distinct and kept in insertion order. JSON numbers with a fractional part do not occur
  in command definitions and are not represented.
\<close>

datatype json =
    JNull
  | JBool bool
  | JInt int
  | JStr string
  | JList "json list"
  | JObj "(string \<times> json) list"

text \<open>The exceptions the module raises or lets through, with their message where one is built.\<close>

datatype exn =
    ValueError string
  | TypeError string
  | KeyError string
  | NameError string
  | AttributeError
  | HTTPException
  | CommandInvokeError string
  | CommandInvokeErrorOf exn
  | CancelledError
  | CommandNotFound string
  | CheckFailure string
  | RuntimeError string

type_synonym ('k, 'v) dict = "('k \<times> 'v) list"

definition dict_get :: "('k, 'v) dict \<Rightarrow> 'k \<Rightarrow> 'v option" where
  "dict_get d k = map_of d k"

text \<open>\<^verbatim>\<open>d[k] = v\<close>: an existing key keeps its position, a new key goes last.\<close>

fun dict_set :: "('k, 'v) dict \<Rightarrow> 'k \<Rightarrow> 'v \<Rightarrow> ('k, 'v) dict" where
  "dict_set [] k v = [(k, v)]"
| "dict_set ((k', v') # d) k v =
     (if k' = k then (k, v) # d else (k', v') # dict_set d k v)"

definition dict_keys :: "('k, 'v) dict \<Rightarrow> 'k list" where
  "dict_keys d = map fst d"

text \<open>\<^verbatim>\<open>d.pop(k, None)\<close> seen as the dictionary that is left.\<close>

definition dict_del :: "('k, 'v) dict \<Rightarrow> 'k \<Rightarrow> ('k, 'v) dict" where
  "dict_del d k = filter (\<lambda>kv. fst kv \<noteq> k) d"

text \<open>\<^verbatim>\<open>d.setdefault(g, {})[k] = v\<close> on a dictionary of dictionaries.\<close>

definition dict_set2 ::
  "('g, ('k, 'v) dict) dict \<Rightarrow> 'g \<Rightarrow> 'k \<Rightarrow> 'v \<Rightarrow> ('g, ('k, 'v) dict) dict" where
  "dict_set2 d g k v =
     (case dict_get d g of
        None \<Rightarrow> dict_set d g [(k, v)]
      | Some inner \<Rightarrow> dict_set d g (dict_set inner k v))"

text \<open>Reading the queued state: \<^verbatim>\<open>state[method].get(guild_id, {}).get(name)\<close>.\<close>

definition lookup2 :: "('g, ('k, 'v) dict) dict \<Rightarrow> 'g \<Rightarrow> 'k \<Rightarrow> 'v option" where
  "lookup2 d g k = (case dict_get d g of None \<Rightarrow> None | Some inner \<Rightarrow> dict_get inner k)"

text \<open>
  Python's \<^verbatim>\<open>==\<close> on JSON values: \<^verbatim>\<open>bool\<close> is a subclass of \<^verbatim>\<open>int\<close>
  (\<^verbatim>\<open>True == 1\<close>), lists are compared element by element in order, dictionaries by
  key set and value per key, whatever the insertion order.
\<close>

fun py_eq :: "json \<Rightarrow> json \<Rightarrow> bool"
  and py_eq_list :: "json list \<Rightarrow> json list \<Rightarrow> bool"
  and py_eq_items :: "(string \<times> json) list \<Rightarrow> (string \<times> json) list \<Rightarrow> bool" where
  "py_eq JNull b = (b = JNull)"
| "py_eq (JBool x) b =
     (case b of JBool y \<Rightarrow> x = y | JInt j \<Rightarrow> (if x then 1 else 0) = j | _ \<Rightarrow> False)"
| "py_eq (JInt i) b =
     (case b of JBool y \<Rightarrow> i = (if y then 1 else 0) | JInt j \<Rightarrow> i = j | _ \<Rightarrow> False)"
| "py_eq (JStr s) b = (case b of JStr t \<Rightarrow> s = t | _ \<Rightarrow> False)"
| "py_eq (JList xs) b = (case b of JList ys \<Rightarrow> py_eq_list xs ys | _ \<Rightarrow> False)"
| "py_eq (JObj d) b =
     (case b of JObj e \<Rightarrow> length d = length e \<and> py_eq_items d e | _ \<Rightarrow> False)"
| "py_eq_list [] ys = (ys = [])"
| "py_eq_list (x # xs) ys =
     (case ys of [] \<Rightarrow> False | y # ys' \<Rightarrow> py_eq x y \<and> py_eq_list xs ys')"
| "py_eq_items [] e = True"
| "py_eq_items (kv # d) e =
     (case map_of e (fst kv) of
        None \<Rightarrow> False
      | Some w \<Rightarrow> py_eq (snd kv) w \<and> py_eq_items d e)"

text \<open>\<^verbatim>\<open>a.get(k, ...) == b.get(k, ...)\<close>: the default \<^verbatim>\<open>Ellipsis\<close> equals only itself.\<close>

definition get_eq :: "(string, json) dict \<Rightarrow> (string, json) dict \<Rightarrow> string \<Rightarrow> bool" where
  "get_eq a b k =
     (case (dict_get a k, dict_get b k) of
        (None, None) \<Rightarrow> True
      | (Some x, Some y) \<Rightarrow> py_eq x y
      | _ \<Rightarrow> False)"

text \<open>
  A Python dictionary has each key once. The association lists inside a JSON value do not
  force that, so the property is stated: a JSON value is proper when the keys of every
  dictionary in it are distinct.
\<close>

fun wf_json :: "json \<Rightarrow> bool"
  and wf_json_list :: "json list \<Rightarrow> bool"
  and wf_json_items :: "(string \<times> json) list \<Rightarrow> bool" where
  "wf_json (JList xs) = wf_json_list xs"
| "wf_json (JObj d) = (distinct (map fst d) \<and> wf_json_items d)"
| "wf_json v = True"
| "wf_json_list [] = True"
| "wf_json_list (x # xs) = (wf_json x \<and> wf_json_list xs)"
| "wf_json_items [] = True"
| "wf_json_items (kv # d) = (wf_json (snd kv) \<and> wf_json_items d)"

text \<open>Truth value of a JSON value, as \<^verbatim>\<open>if x:\<close> tests it.\<close>

fun py_truthy :: "json \<Rightarrow> bool" where
  "py_truthy JNull = False"
| "py_truthy (JBool b) = b"
| "py_truthy (JInt i) = (i \<noteq> 0)"
| "py_truthy (JStr s) = (s \<noteq> [])"
| "py_truthy (JList xs) = (xs \<noteq> [])"
| "py_truthy (JObj d) = (d \<noteq> [])"

text \<open>What a \<^verbatim>\<open>for\<close> loop or a comprehension sees when it iterates over a JSON value.\<close>

fun py_iter :: "json \<Rightarrow> exn + json list" where
  "py_iter (JList xs) = Inr xs"
| "py_iter (JStr s) = Inr (map (\<lambda>c. JStr [c]) s)"
| "py_iter (JObj d) = Inr (map (\<lambda>kv. JStr (fst kv)) d)"
| "py_iter v = Inl (TypeError ''object is not iterable'')"

text \<open>A list comprehension whose element expression may raise: the first exception wins.\<close>

fun collect :: "(exn + 'a) list \<Rightarrow> exn + 'a list" where
  "collect [] = Inr []"
| "collect (r # rs) =
     (case r of
        Inl e \<Rightarrow> Inl e
      | Inr x \<Rightarrow> (case collect rs of Inl e \<Rightarrow> Inl e | Inr xs \<Rightarrow> Inr (x # xs)))"

section \<open>Option and Choice\<close>

text \<open>
  \<^verbatim>\<open>ApplicationCommandOptionType\<close> is an \<^verbatim>\<open>IntEnum\<close>: its members are the integers 1 to 8,
  and an option's \<^verbatim>\<open>type\<close> is kept as that integer.
\<close>

definition SUB_COMMAND :: int where "SUB_COMMAND = 1"
definition SUB_COMMAND_GROUP :: int where "SUB_COMMAND_GROUP = 2"
definition STRING :: int where "STRING = 3"
definition INTEGER :: int where "INTEGER = 4"
definition BOOLEAN :: int where "BOOLEAN = 5"
definition USER :: int where "USER = 6"
definition CHANNEL :: int where "CHANNEL = 7"
definition ROLE :: int where "ROLE = 8"

record choice =
  c_name :: json
  c_value :: json

record slash_option =
  o_name :: json
  o_type :: int
  o_description :: json
  o_required :: json
  o_choices :: "choice list option"

definition Choice_to_dict :: "choice \<Rightarrow> (string, json) dict" where
  "Choice_to_dict c = [(''name'', c_name c), (''value'', c_value c)]"

text \<open>
  \<^verbatim>\<open>Choice.from_data\<close>: a \<^verbatim>\<open>Choice\<close> is returned as it is, a string names and values
  itself, anything else is unpacked as keyword arguments of \<^verbatim>\<open>Choice(name, value)\<close>.
\<close>

datatype choice_data = IsChoice choice | IsData json

fun Choice_from_data :: "choice_data \<Rightarrow> exn + choice" where
  "Choice_from_data (IsChoice c) = Inr c"
| "Choice_from_data (IsData (JStr s)) = Inr \<lparr>c_name = JStr s, c_value = JStr s\<rparr>"
| "Choice_from_data (IsData (JObj d)) =
     (case (dict_get d ''name'', dict_get d ''value'') of
        (Some n, Some v) \<Rightarrow>
          (if list_all (\<lambda>k. k = ''name'' \<or> k = ''value'') (dict_keys d)
           then Inr \<lparr>c_name = n, c_value = v\<rparr>
           else Inl (TypeError ''unexpected keyword argument''))
      | _ \<Rightarrow> Inl (TypeError ''missing required argument''))"
| "Choice_from_data (IsData v) = Inl (TypeError ''argument after ** must be a mapping'')"

text \<open>
  \<^verbatim>\<open>Option.__init__(self, description, type=STRING, **kwargs)\<close>, with the keyword
  arguments given as JSON values (as \<^verbatim>\<open>clone\<close> passes them).
\<close>

definition Option_init :: "json \<Rightarrow> int \<Rightarrow> (string, json) dict \<Rightarrow> exn + slash_option" where
  "Option_init description type kwargs =
     (let name = (case dict_get kwargs ''name'' of None \<Rightarrow> JNull | Some n \<Rightarrow> n);
          required = (case dict_get kwargs ''required'' of None \<Rightarrow> JBool False | Some r \<Rightarrow> r);
          choices = (case dict_get kwargs ''choices'' of None \<Rightarrow> JNull | Some c \<Rightarrow> c)
      in if choices \<noteq> JNull then
           (case py_iter choices of
              Inl e \<Rightarrow> Inl e
            | Inr cs \<Rightarrow>
                (case collect (map (\<lambda>c. Choice_from_data (IsData c)) cs) of
                   Inl e \<Rightarrow> Inl e
                 | Inr chs \<Rightarrow>
                     Inr \<lparr>o_name = name, o_type = type, o_description = description,
                          o_required = required, o_choices = Some chs\<rparr>))
         else
           Inr \<lparr>o_name = name, o_type = type, o_description = description,
                o_required = required, o_choices = None\<rparr>)"

text \<open>
  The call \<^verbatim>\<open>Option(**d)\<close>: \<^verbatim>\<open>description\<close> is a required parameter, \<^verbatim>\<open>type\<close> defaults
  to \<^verbatim>\<open>STRING\<close>, the other keys are the \<^verbatim>\<open>kwargs\<close>. The field \<^verbatim>\<open>type\<close> is an integer
  in this model, so a \<^verbatim>\<open>type\<close> that is not one is refused here (Python would keep it and
  fail in \<^verbatim>\<open>to_dict\<close>, at \<^verbatim>\<open>int(self.type)\<close>).
\<close>

definition Option_call :: "(string, json) dict \<Rightarrow> exn + slash_option" where
  "Option_call d =
     (case dict_get d ''description'' of
        None \<Rightarrow> Inl (TypeError ''missing required argument: description'')
      | Some description \<Rightarrow>
          (case dict_get d ''type'' of
             None \<Rightarrow> Option_init description STRING (dict_del d ''description'')
           | Some (JInt t) \<Rightarrow>
               Option_init description t (dict_del (dict_del d ''description'') ''type'')
           | Some (JBool b) \<Rightarrow>
               Option_init description (if b then 1 else 0)
                 (dict_del (dict_del d ''description'') ''type'')
           | Some _ \<Rightarrow> Inl (TypeError ''type is not an integer'')))"

definition Option_to_dict :: "slash_option \<Rightarrow> (string, json) dict" where
  "Option_to_dict self =
     (let data = [(''type'', JInt (o_type self)),
                  (''name'', o_name self),
                  (''description'', o_description self)];
          data = (if py_truthy (o_required self)
                  then dict_set data ''required'' (o_required self) else data);
          data = (case o_choices self of
                    None \<Rightarrow> data
                  | Some cs \<Rightarrow>
                      dict_set data ''choices'' (JList (map (\<lambda>c. JObj (Choice_to_dict c)) cs)))
      in data)"

definition Option_clone :: "slash_option \<Rightarrow> exn + slash_option" where
  "Option_clone self = Option_call (Option_to_dict self)"

section \<open>Command and Group\<close>

text \<open>
  A callback is known by its name, its docstring and its parameters. The annotation of a
  parameter, once evaluated, is an \<^verbatim>\<open>Option\<close> instance, a subclass of \<^verbatim>\<open>Context\<close>,
  another class (\<^verbatim>\<open>inspect.Parameter.empty\<close> is one) or a value that is not a class.
\<close>

datatype annotation =
    AnnOption slash_option
  | AnnContext
  | AnnClass
  | AnnValue

record param =
  p_name :: string
  p_annotation :: annotation
  p_has_default :: bool

record coroutine =
  co_name :: string
  co_doc :: "string option"
  co_params :: "param list"

text \<open>
  A check is the default one of \<^verbatim>\<open>Command.__init__\<close> (its body is \<^verbatim>\<open>pass\<close>) or a function
  of the application. A cog is an object that may or may not have a \<^verbatim>\<open>cog_check\<close>.
\<close>

datatype check_fn = DefaultCheck | CheckFn string

record cog =
  cog_id :: nat
  cog_has_check :: bool

text \<open>
  \<^verbatim>\<open>Command\<close> and its subclass \<^verbatim>\<open>Group\<close>: a node is a \<^verbatim>\<open>Group\<close> when it has the
  dictionary \<^verbatim>\<open>slash\<close> of its subcommands. \<^verbatim>\<open>parent\<close> is the back reference the
  constructor receives; the checks and hooks of the ancestors are read through it.
  The attribute \<^verbatim>\<open>default\<close> is read only under \<^verbatim>\<open>if self.parent is not None and False\<close>
  and is left out.
\<close>

datatype command = Command
  (cmd_id: "int option")
  (cmd_name: string)
  (cmd_description: string)
  (cmd_guild_id: "int option")
  (cmd_parent: "command option")
  (cmd_ctx_arg: string)
  (cmd_options: "(string \<times> slash_option) list")
  (cmd_coro: coroutine)
  (cmd_check: check_fn)
  (cmd_cog: "cog option")
  (cmd_slash: "(string \<times> command) list option")

definition set_id :: "command \<Rightarrow> int option \<Rightarrow> command" where
  "set_id c i =
     Command i (cmd_name c) (cmd_description c) (cmd_guild_id c) (cmd_parent c) (cmd_ctx_arg c)
       (cmd_options c) (cmd_coro c) (cmd_check c) (cmd_cog c) (cmd_slash c)"

text \<open>
  \<^verbatim>\<open>Command.to_dict\<close> and \<^verbatim>\<open>Group.to_dict\<close>. A group serialises its subcommands, each
  tagged \<^verbatim>\<open>SUB_COMMAND_GROUP\<close> or \<^verbatim>\<open>SUB_COMMAND\<close>, and not its own options.
\<close>

fun to_dict :: "command \<Rightarrow> (string, json) dict"
  and subs_to_dicts :: "(string \<times> command) list \<Rightarrow> json list" where
  "to_dict (Command i name description g p c opts co ch cg sl) =
     (let data = [(''name'', JStr name), (''description'', JStr description)]
      in case sl of
           None \<Rightarrow>
             (if opts \<noteq> []
              then dict_set data ''options''
                     (JList (map (\<lambda>kv. JObj (Option_to_dict (snd kv))) opts))
              else data)
         | Some subs \<Rightarrow>
             (if subs \<noteq> []
              then dict_set data ''options'' (JList (subs_to_dicts subs))
              else data))"
| "subs_to_dicts [] = []"
| "subs_to_dicts (kv # subs) =
     JObj (dict_set (to_dict (snd kv)) ''type''
             (JInt (if cmd_slash (snd kv) \<noteq> None then SUB_COMMAND_GROUP else SUB_COMMAND)))
       # subs_to_dicts subs"

text \<open>
  A command is proper when the JSON values kept in its options and choices, and in those
  of its subcommands, are proper; its serialised form is then a proper JSON value.
\<close>

definition proper_option :: "slash_option \<Rightarrow> bool" where
  "proper_option opt =
     (wf_json (o_name opt) \<and> wf_json (o_description opt) \<and> wf_json (o_required opt)
      \<and> (case o_choices opt of
            None \<Rightarrow> True
          | Some cs \<Rightarrow> list_all (\<lambda>c. wf_json (c_name c) \<and> wf_json (c_value c)) cs))"

fun proper_command :: "command \<Rightarrow> bool"
  and proper_subs :: "(string \<times> command) list \<Rightarrow> bool" where
  "proper_command (Command i name description g p c opts co ch cg sl) =
     (list_all (\<lambda>kv. proper_option (snd kv)) opts
      \<and> (case sl of None \<Rightarrow> True | Some subs \<Rightarrow> proper_subs subs))"
| "proper_subs [] = True"
| "proper_subs (kv # subs) = (proper_command (snd kv) \<and> proper_subs subs)"

section \<open>The reconciler: sync_cmds, register_commands, process_command\<close>

text \<open>Sequencing of steps that may raise, and a \<^verbatim>\<open>for\<close> loop whose body may raise.\<close>

definition bind_exn :: "exn + 'a \<Rightarrow> ('a \<Rightarrow> exn + 'b) \<Rightarrow> exn + 'b" where
  "bind_exn m f = (case m of Inl e \<Rightarrow> Inl e | Inr x \<Rightarrow> f x)"

fun for_each :: "('s \<Rightarrow> 'a \<Rightarrow> exn + 's) \<Rightarrow> 's \<Rightarrow> 'a list \<Rightarrow> exn + 's" where
  "for_each body s [] = Inr s"
| "for_each body s (x # xs) =
     (case body s x of Inl e \<Rightarrow> Inl e | Inr s' \<Rightarrow> for_each body s' xs)"

text \<open>
  The keyword arguments queued for one HTTP operation: \<^verbatim>\<open>json\<close>, \<^verbatim>\<open>id\<close> and \<^verbatim>\<open>cmd\<close>, each
  present or not. \<^verbatim>\<open>cmd\<close> is a reference to the \<^verbatim>\<open>Command\<close> object \<^verbatim>\<open>todo[name]\<close> of a
  scope; the reference is the address (scope, name) of that object.
\<close>

record op_kwargs =
  kw_json :: "(string, json) dict option"
  kw_id :: "int option"
  kw_cmd :: "(int option \<times> string) option"

text \<open>\<^verbatim>\<open>state = {'POST': {}, 'PATCH': {}, 'DELETE': {}}\<close>, each keyed by scope, then by name.\<close>

record state =
  POST :: "(int option, (string, op_kwargs) dict) dict"
  PATCH :: "(int option, (string, op_kwargs) dict) dict"
  DELETE :: "(int option, (string, op_kwargs) dict) dict"

definition init_state :: state where
  "init_state = \<lparr>POST = [], PATCH = [], DELETE = []\<rparr>"

text \<open>
  \<^verbatim>\<open>done = {data['name']: data for data in done}\<close>. The platform's answer is a JSON list of
  command objects; the name of a command is a string in the wire schema, and a name of
  another JSON type is refused by the model.
\<close>

fun index_by_name ::
  "(string, (string, json) dict) dict \<Rightarrow> json list \<Rightarrow> exn + (string, (string, json) dict) dict" where
  "index_by_name acc [] = Inr acc"
| "index_by_name acc (data # rest) =
     (case data of
        JObj d \<Rightarrow>
          (case dict_get d ''name'' of
             None \<Rightarrow> Inl (KeyError ''name'')
           | Some (JStr n) \<Rightarrow> index_by_name (dict_set acc n d) rest
           | Some _ \<Rightarrow> Inl (TypeError ''command name is not a string''))
      | _ \<Rightarrow> Inl (TypeError ''indices must be integers''))"

text \<open>
  The three name sets of \<^verbatim>\<open>sync_cmds\<close>. Python builds them as sets and iterates over them
  in an unspecified order; here each is the list of its members in dictionary order.
\<close>

definition to_delete :: "string list \<Rightarrow> string list \<Rightarrow> string list" where
  "to_delete done_keys todo_keys = filter (\<lambda>n. n \<notin> set todo_keys) done_keys"

definition to_update :: "string list \<Rightarrow> string list \<Rightarrow> string list" where
  "to_update done_keys todo_keys = filter (\<lambda>n. n \<in> set todo_keys) done_keys"

definition to_create :: "string list \<Rightarrow> string list \<Rightarrow> string list" where
  "to_create done_keys todo_keys = filter (\<lambda>n. n \<notin> set done_keys) todo_keys"

text \<open>\<^verbatim>\<open>int(done[name]['id'])\<close>, the conversion \<^verbatim>\<open>int\<close> being a parameter.\<close>

definition remote_id :: "(json \<Rightarrow> exn + int) \<Rightarrow> (string, json) dict \<Rightarrow> exn + int" where
  "remote_id to_int remote =
     (case dict_get remote ''id'' of None \<Rightarrow> Inl (KeyError ''id'') | Some v \<Rightarrow> to_int v)"

definition up_to_date :: "(string, json) dict \<Rightarrow> (string, json) dict \<Rightarrow> bool" where
  "up_to_date remote cmd_dict =
     list_all (get_eq remote cmd_dict) [''name'', ''description'', ''options'']"

definition create_one ::
  "int option \<Rightarrow> state \<times> (string, command) dict \<Rightarrow> string
     \<Rightarrow> exn + state \<times> (string, command) dict" where
  "create_one guild_id s name =
     (case dict_get (snd s) name of
        None \<Rightarrow> Inl (KeyError name)
      | Some c \<Rightarrow>
          Inr ((fst s)\<lparr>POST := dict_set2 (POST (fst s)) guild_id name
                   \<lparr>kw_json = Some (to_dict c), kw_id = None, kw_cmd = Some (guild_id, name)\<rparr>\<rparr>,
               snd s))"

definition update_one ::
  "(json \<Rightarrow> exn + int) \<Rightarrow> int option \<Rightarrow> (string, (string, json) dict) dict
     \<Rightarrow> state \<times> (string, command) dict \<Rightarrow> string \<Rightarrow> exn + state \<times> (string, command) dict" where
  "update_one to_int guild_id done s name =
     (case dict_get (snd s) name of
        None \<Rightarrow> Inl (KeyError name)
      | Some c \<Rightarrow>
          (case dict_get done name of
             None \<Rightarrow> Inl (KeyError name)
           | Some remote \<Rightarrow>
               (let cmd_dict = to_dict c in
                if up_to_date remote cmd_dict then
                  (case remote_id to_int remote of
                     Inl e \<Rightarrow> Inl e
                   | Inr i \<Rightarrow> Inr (fst s, dict_set (snd s) name (set_id c (Some i))))
                else
                  (case remote_id to_int remote of
                     Inl e \<Rightarrow> Inl e
                   | Inr i \<Rightarrow>
                       Inr ((fst s)\<lparr>PATCH := dict_set2 (PATCH (fst s)) guild_id name
                                \<lparr>kw_json = Some (dict_del cmd_dict ''name''), kw_id = Some i,
                                 kw_cmd = Some (guild_id, name)\<rparr>\<rparr>,
                            snd s)))))"

definition delete_one ::
  "(json \<Rightarrow> exn + int) \<Rightarrow> int option \<Rightarrow> (string, (string, json) dict) dict
     \<Rightarrow> state \<times> (string, command) dict \<Rightarrow> string \<Rightarrow> exn + state \<times> (string, command) dict" where
  "delete_one to_int guild_id done s name =
     (case dict_get done name of
        None \<Rightarrow> Inl (KeyError name)
      | Some remote \<Rightarrow>
          (case remote_id to_int remote of
             Inl e \<Rightarrow> Inl e
           | Inr i \<Rightarrow>
               Inr ((fst s)\<lparr>DELETE := dict_set2 (DELETE (fst s)) guild_id name
                        \<lparr>kw_json = None, kw_id = Some i, kw_cmd = None\<rparr>\<rparr>,
                    snd s)))"

text \<open>
  \<^verbatim>\<open>sync_cmds(state, todo, done, guild_id)\<close>: \<^verbatim>\<open>todo\<close> are the commands registered in code,
  \<^verbatim>\<open>done\<close> the platform's list. It returns the state and \<^verbatim>\<open>todo\<close>, both mutated in place
  by the source.
\<close>

definition sync_cmds ::
  "(json \<Rightarrow> exn + int) \<Rightarrow> state \<Rightarrow> (string, command) dict \<Rightarrow> json \<Rightarrow> int option
     \<Rightarrow> exn + state \<times> (string, command) dict" where
  "sync_cmds to_int st todo done_json guild_id =
     bind_exn (py_iter done_json) (\<lambda>done_list.
     bind_exn (index_by_name [] done_list) (\<lambda>done.
     bind_exn (for_each (create_one guild_id) (st, todo)
                 (to_create (dict_keys done) (dict_keys todo))) (\<lambda>s1.
     bind_exn (for_each (update_one to_int guild_id done) s1
                 (to_update (dict_keys done) (dict_keys todo))) (\<lambda>s2.
     for_each (delete_one to_int guild_id done) s2
       (to_delete (dict_keys done) (dict_keys todo))))))"

subsection \<open>Applying the queued operations\<close>

text \<open>
  A route is a method and a path; the path is the commands path of the global scope or of
  a guild, followed by the command id when the operation has one.
\<close>

record route =
  r_method :: string
  r_guild :: "int option"
  r_id :: "int option"

datatype log_entry =
    LogException string
  | LogDebug string string "int option"

text \<open>
  The objects that the reconciler mutates are the top-level commands, held per scope and
  name (the dictionary \<^verbatim>\<open>guilds\<close> of \<^verbatim>\<open>register_commands\<close>); the log is what \<^verbatim>\<open>logger\<close>
  has been given.
\<close>

record world =
  w_guilds :: "(int option, (string, command) dict) dict"
  w_log :: "log_entry list"

definition set_guild_id :: "command \<Rightarrow> int option \<Rightarrow> command" where
  "set_guild_id c g =
     Command (cmd_id c) (cmd_name c) (cmd_description c) g (cmd_parent c) (cmd_ctx_arg c)
       (cmd_options c) (cmd_coro c) (cmd_check c) (cmd_cog c) (cmd_slash c)"

text \<open>\<^verbatim>\<open>cmd.id = i\<close> through the reference \<^verbatim>\<open>cmd\<close>.\<close>

definition write_id ::
  "(int option, (string, command) dict) dict \<Rightarrow> int option \<times> string \<Rightarrow> int
     \<Rightarrow> (int option, (string, command) dict) dict" where
  "write_id guilds ref i =
     (case lookup2 guilds (fst ref) (snd ref) of
        None \<Rightarrow> guilds
      | Some c \<Rightarrow> dict_set2 guilds (fst ref) (snd ref) (set_id c (Some i)))"

text \<open>\<^verbatim>\<open>data['id']\<close> on the JSON answer of a request.\<close>

definition subscript :: "json \<Rightarrow> string \<Rightarrow> exn + json" where
  "subscript data k =
     (case data of
        JObj d \<Rightarrow> (case dict_get d k of None \<Rightarrow> Inl (KeyError k) | Some v \<Rightarrow> Inr v)
      | JNull \<Rightarrow> Inl (TypeError ''NoneType object is not subscriptable'')
      | _ \<Rightarrow> Inl (TypeError ''indices must be integers''))"

text \<open>
  \<^verbatim>\<open>process_command(name, guild_id, route, kwargs)\<close>. The request \<^verbatim>\<open>self.http.request\<close> is a
  parameter: it answers a route and keyword arguments with JSON or raises. The result is
  the exception the coroutine ends with, if any, and the world it leaves. The \<^verbatim>\<open>finally\<close>
  clause logs in every case.
\<close>

definition process_command ::
  "(route \<Rightarrow> op_kwargs \<Rightarrow> exn + json) \<Rightarrow> (json \<Rightarrow> exn + int)
     \<Rightarrow> string \<Rightarrow> int option \<Rightarrow> route \<Rightarrow> op_kwargs \<Rightarrow> world \<Rightarrow> exn option \<times> world" where
  "process_command request to_int name guild_id rt kwargs w =
     (let cmd = kw_cmd kwargs;
          kwargs = kwargs\<lparr>kw_cmd := None\<rparr>;
          debug = LogDebug (r_method rt) name guild_id
      in case request rt kwargs of
           Inl e \<Rightarrow>
             (if e = HTTPException
              then (None, w\<lparr>w_log := w_log w @ [LogException name, debug]\<rparr>)
              else (Some e, w\<lparr>w_log := w_log w @ [debug]\<rparr>))
         | Inr data \<Rightarrow>
             (let w = w\<lparr>w_log := w_log w @ [debug]\<rparr>
              in case cmd of
                   None \<Rightarrow> (None, w)
                 | Some ref \<Rightarrow>
                     (case bind_exn (subscript data ''id'') to_int of
                        Inl e \<Rightarrow> (Some e, w)
                      | Inr i \<Rightarrow> (None, w\<lparr>w_guilds := write_id (w_guilds w) ref i\<rparr>))))"

text \<open>
  The last loop of \<^verbatim>\<open>register_commands\<close> makes one task per queued operation, in the
  order of \<^verbatim>\<open>state.items()\<close>; an \<^verbatim>\<open>id\<close> among the keyword arguments moves into the path.
\<close>

record task =
  t_name :: string
  t_guild :: "int option"
  t_route :: route
  t_kwargs :: op_kwargs

definition make_task :: "string \<Rightarrow> int option \<Rightarrow> string \<times> op_kwargs \<Rightarrow> task" where
  "make_task method guild_id item =
     \<lparr>t_name = fst item, t_guild = guild_id,
      t_route = \<lparr>r_method = method, r_guild = guild_id, r_id = kw_id (snd item)\<rparr>,
      t_kwargs = (snd item)\<lparr>kw_id := None\<rparr>\<rparr>"

definition tasks_of ::
  "string \<Rightarrow> (int option, (string, op_kwargs) dict) dict \<Rightarrow> task list" where
  "tasks_of method guilds =
     concat (map (\<lambda>g. map (make_task method (fst g)) (snd g)) guilds)"

definition all_tasks :: "state \<Rightarrow> task list" where
  "all_tasks st =
     tasks_of ''POST'' (POST st) @ tasks_of ''PATCH'' (PATCH st) @ tasks_of ''DELETE'' (DELETE st)"

text \<open>
  \<^verbatim>\<open>asyncio.create_task\<close> starts each \<^verbatim>\<open>process_command\<close> as a task of its own: an exception
  that leaves the coroutine ends that task and is kept in it; nothing is awaited, so no
  other task sees it. Each task has one suspension point, the request, and after it only
  writes the id of its own command and the log; the tasks are run here one after the
  other, each to its end, and the outcome of each is collected.
\<close>

fun run_tasks ::
  "(route \<Rightarrow> op_kwargs \<Rightarrow> exn + json) \<Rightarrow> (json \<Rightarrow> exn + int) \<Rightarrow> task list \<Rightarrow> world
     \<Rightarrow> exn option list \<times> world" where
  "run_tasks request to_int [] w = ([], w)"
| "run_tasks request to_int (t # ts) w =
     (let r = process_command request to_int (t_name t) (t_guild t) (t_route t) (t_kwargs t) w;
          rest = run_tasks request to_int ts (snd r)
      in (fst r # fst rest, snd rest))"

text \<open>
  \<^verbatim>\<open>register_commands\<close>. \<^verbatim>\<open>self.slash\<close> is a set; it is given as the list of its members in
  the order of iteration. \<^verbatim>\<open>application_info\<close> only provides the prefix of the paths, and
  is a parameter that may raise. \<open>sync_scopes\<close> is the part from the grouping of the commands
  by scope to the last call of \<^verbatim>\<open>sync_cmds\<close>: it gives the state with the queued operations
  and the commands of each scope; the rest makes the tasks of that state and starts them.
\<close>

definition group_by_guild ::
  "int option \<Rightarrow> command list \<Rightarrow> (int option, (string, command) dict) dict" where
  "group_by_guild debug_guild slash =
     foldl (\<lambda>guilds c.
              (let g = (if cmd_guild_id c = None \<or> cmd_guild_id c = Some 0
                        then debug_guild else cmd_guild_id c)
               in dict_set2 guilds g (cmd_name c) (set_guild_id c g)))
       [] slash"

definition get_route :: "int option \<Rightarrow> route" where
  "get_route guild_id = \<lparr>r_method = ''GET'', r_guild = guild_id, r_id = None\<rparr>"

definition no_kwargs :: op_kwargs where
  "no_kwargs = \<lparr>kw_json = None, kw_id = None, kw_cmd = None\<rparr>"

definition sync_guild ::
  "(route \<Rightarrow> op_kwargs \<Rightarrow> exn + json) \<Rightarrow> (json \<Rightarrow> exn + int)
     \<Rightarrow> state \<times> (int option, (string, command) dict) dict \<Rightarrow> int option
     \<Rightarrow> exn + state \<times> (int option, (string, command) dict) dict" where
  "sync_guild request to_int s guild_id =
     (case dict_get (snd s) guild_id of
        None \<Rightarrow> Inl (KeyError ''guild'')
      | Some todo \<Rightarrow>
          bind_exn (request (get_route guild_id) no_kwargs) (\<lambda>cmds.
          bind_exn (sync_cmds to_int (fst s) todo cmds guild_id) (\<lambda>r.
          Inr (fst r, dict_set (snd s) guild_id (snd r)))))"

definition sync_scopes ::
  "(route \<Rightarrow> op_kwargs \<Rightarrow> exn + json) \<Rightarrow> (json \<Rightarrow> exn + int)
     \<Rightarrow> int option \<Rightarrow> command list
     \<Rightarrow> exn + state \<times> (int option, (string, command) dict) dict" where
  "sync_scopes request to_int debug_guild slash =
     (let guilds = group_by_guild debug_guild slash
      in bind_exn (if None \<in> set (dict_keys guilds)
                   then sync_guild request to_int (init_state, guilds) None
                   else Inr (init_state, guilds)) (\<lambda>s0.
         for_each (sync_guild request to_int) s0
           (filter (\<lambda>g. g \<noteq> None) (dict_keys guilds))))"

definition register_commands ::
  "(exn + nat) \<Rightarrow> (route \<Rightarrow> op_kwargs \<Rightarrow> exn + json) \<Rightarrow> (json \<Rightarrow> exn + int)
     \<Rightarrow> int option \<Rightarrow> command list \<Rightarrow> exn + exn option list \<times> world" where
  "register_commands application_info request to_int debug_guild slash =
     bind_exn application_info (\<lambda>app_info.
     bind_exn (sync_scopes request to_int debug_guild slash) (\<lambda>s.
     Inr (run_tasks request to_int (all_tasks (fst s))
            \<lparr>w_guilds = snd s, w_log = []\<rparr>)))"

section \<open>Command.__init__\<close>

text \<open>
  The keyword arguments of \<^verbatim>\<open>Command(coro, **kwargs)\<close>. A key that is absent is \<open>None\<close>;
  \<^verbatim>\<open>description\<close> may also be passed as \<^verbatim>\<open>None\<close>, which is \<open>Some None\<close>. \<^verbatim>\<open>guild\<close> is
  given as the integer that \<^verbatim>\<open>int(self.guild_id)\<close> makes of it.
\<close>

record cmd_kwargs =
  k_name :: "string option"
  k_description :: "string option option"
  k_guild :: "int option"
  k_parent :: "command option"
  k_check :: "check_fn option"

text \<open>\<^verbatim>\<open>repr\<close> of a string, without the escapes.\<close>

definition py_repr :: "string \<Rightarrow> string" where
  "py_repr s = [CHR 0x27] @ s @ [CHR 0x27]"

definition is_ctx :: "param \<Rightarrow> bool" where
  "is_ctx p = (p_annotation p = AnnContext)"

text \<open>
  The body of the loop over \<^verbatim>\<open>signature(coro).parameters.values()\<close>, on the pair of
  \<^verbatim>\<open>self._ctx_arg\<close> and \<^verbatim>\<open>self.options\<close>. \<^verbatim>\<open>issubclass(typ, Context)\<close> raises \<^verbatim>\<open>TypeError\<close>,
  which the source passes over, when \<^verbatim>\<open>typ\<close> is not a class.
\<close>

definition init_param ::
  "string \<Rightarrow> string option \<times> (string, slash_option) dict \<Rightarrow> param
     \<Rightarrow> exn + string option \<times> (string, slash_option) dict" where
  "init_param name s p =
     (case p_annotation p of
        AnnContext \<Rightarrow> Inr (Some (p_name p), snd s)
      | AnnOption typ \<Rightarrow>
          (case Option_clone typ of
             Inl e \<Rightarrow> Inl e
           | Inr typ \<Rightarrow>
               (let typ = (if p_has_default p then typ else typ\<lparr>o_required := JBool True\<rparr>);
                    typ = (if o_name typ = JNull then typ\<lparr>o_name := JStr (p_name p)\<rparr> else typ)
                in Inr (fst s, dict_set (snd s) (p_name p) typ)))
      | _ \<Rightarrow>
          (if p_has_default p then Inr s
           else Inl (TypeError (''Command '' @ py_repr name @
                  '' cannot have a required argument with no valid annotation''))))"

definition Command_init :: "coroutine \<Rightarrow> cmd_kwargs \<Rightarrow> exn + command" where
  "Command_init coro kwargs =
     (let name = (case k_name kwargs of None \<Rightarrow> co_name coro | Some n \<Rightarrow> n);
          description = (case k_description kwargs of None \<Rightarrow> co_doc coro | Some d \<Rightarrow> d)
      in case description of
           None \<Rightarrow> Inl (ValueError (''Please specify a description for '' @ py_repr name))
         | Some description \<Rightarrow>
             (if description = []
              then Inl (ValueError (''Please specify a description for '' @ py_repr name))
              else
                (case for_each (init_param name) (None, []) (co_params coro) of
                   Inl e \<Rightarrow> Inl e
                 | Inr s \<Rightarrow>
                     (case fst s of
                        None \<Rightarrow> Inl (ValueError ''One argument must be type-hinted slash.Context'')
                      | Some ctx_arg \<Rightarrow>
                          Inr (Command None name description (k_guild kwargs) (k_parent kwargs)
                                 ctx_arg (snd s) coro
                                 (case k_check kwargs of None \<Rightarrow> DefaultCheck | Some c \<Rightarrow> c)
                                 None None)))))"

text \<open>\<^verbatim>\<open>Group.__init__\<close>: the same, then \<^verbatim>\<open>self.slash = {}\<close>.\<close>

definition Group_init :: "coroutine \<Rightarrow> cmd_kwargs \<Rightarrow> exn + command" where
  "Group_init coro kwargs =
     (case Command_init coro kwargs of
        Inl e \<Rightarrow> Inl e
      | Inr c \<Rightarrow>
          Inr (Command (cmd_id c) (cmd_name c) (cmd_description c) (cmd_guild_id c) (cmd_parent c)
                 (cmd_ctx_arg c) (cmd_options c) (cmd_coro c) (cmd_check c) (cmd_cog c) (Some [])))"

definition no_cmd_kwargs :: cmd_kwargs where
  "no_cmd_kwargs = \<lparr>k_name = None, k_description = None, k_guild = None, k_parent = None,
                    k_check = None\<rparr>"

section \<open>Entity resolution: Context._try_get\<close>

text \<open>
  The objects that resolution handles: a bare \<^verbatim>\<open>discord.Object\<close> that only has an id, an
  entity of the library obtained from the cache or by a fetch (known by its class and id),
  and a partial entity built from a fragment of the invocation's \<^verbatim>\<open>resolved\<close> snapshot.
\<close>

datatype pyobj =
    Object int
  | Entity string int
  | Partial string int json

fun obj_id :: "pyobj \<Rightarrow> int" where
  "obj_id (Object i) = i"
| "obj_id (Entity cls i) = i"
| "obj_id (Partial cls i data) = i"

text \<open>The steps of one resolution that reach outside: the cache, the network, the snapshot.\<close>

datatype tier = TierGet | TierFetch | TierSnapshot

text \<open>The handlers of \<^verbatim>\<open>_try_get\<close> catch \<^verbatim>\<open>discord.HTTPException\<close>, \<^verbatim>\<open>AttributeError\<close> and \<^verbatim>\<open>ValueError\<close>.\<close>

fun caught :: "exn \<Rightarrow> bool" where
  "caught HTTPException = True"
| "caught AttributeError = True"
| "caught (ValueError m) = True"
| "caught e = False"

text \<open>
  The last part of \<^verbatim>\<open>_try_get\<close>, from \<^verbatim>\<open>if resolved is None\<close> on: the snapshot fragment of
  the id, made into a partial entity by \<^verbatim>\<open>resolve_method\<close>, or else the default. \<open>key\<close> is
  \<^verbatim>\<open>str(default.id)\<close>.
\<close>

definition from_snapshot ::
  "pyobj \<Rightarrow> string \<Rightarrow> string \<Rightarrow> (json \<Rightarrow> exn + pyobj) option
     \<Rightarrow> (string, (string, json) dict) dict option \<Rightarrow> tier list \<times> (exn + pyobj)" where
  "from_snapshot dflt key typename resolve_method resolved =
     (case resolved of
        None \<Rightarrow> ([], Inr dflt)
      | Some r \<Rightarrow>
          (case dict_get r (typename @ ''s'') of
             None \<Rightarrow> ([TierSnapshot], Inl (KeyError (typename @ ''s'')))
           | Some fragment \<Rightarrow>
               (case dict_get fragment key of
                  None \<Rightarrow> ([TierSnapshot], Inr dflt)
                | Some obj \<Rightarrow>
                    (if obj = JNull then ([TierSnapshot], Inr dflt)
                     else case resolve_method of
                            None \<Rightarrow> ([TierSnapshot], Inl (TypeError ''NoneType object is not callable''))
                          | Some resolve \<Rightarrow> ([TierSnapshot], resolve obj)))))"

text \<open>
  \<^verbatim>\<open>_try_get(default, get_method, fetch_method, typename, *, resolve_method, resolved, fng,
  fq)\<close>. \<open>rnf\<close> and \<open>fing\<close> are the client's \<^verbatim>\<open>resolve_not_fetch\<close> and \<^verbatim>\<open>fetch_if_not_get\<close>;
  \<open>to_str\<close> is \<^verbatim>\<open>str\<close> on integers. A method that is \<^verbatim>\<open>None\<close> raises \<^verbatim>\<open>TypeError\<close> when
  called; a cache lookup answers an object or \<^verbatim>\<open>None\<close>, or raises (\<^verbatim>\<open>AttributeError\<close> when
  the guild it is asked of is not a guild). The result comes with the tiers that were
  reached, in order.
\<close>

definition try_get ::
  "bool \<Rightarrow> bool \<Rightarrow> (int \<Rightarrow> string) \<Rightarrow> pyobj
     \<Rightarrow> (int \<Rightarrow> exn + pyobj option) option \<Rightarrow> (int \<Rightarrow> exn + pyobj) option \<Rightarrow> string
     \<Rightarrow> (json \<Rightarrow> exn + pyobj) option \<Rightarrow> (string, (string, json) dict) dict option
     \<Rightarrow> bool option \<Rightarrow> bool option \<Rightarrow> tier list \<times> (exn + pyobj)" where
  "try_get rnf fing to_str dflt get_method fetch_method typename resolve_method resolved fng fq =
     (let fq = (case fq of None \<Rightarrow> \<not> rnf | Some b \<Rightarrow> b);
          fng = (case fng of None \<Rightarrow> fing | Some b \<Rightarrow> b);
          key = to_str (obj_id dflt);
          fall = from_snapshot dflt key typename resolve_method resolved;
          after = (\<lambda>ts. (ts @ fst fall, snd fall));
          attempt =
            (case get_method of
               None \<Rightarrow> ([], Inl (TypeError ''NoneType object is not callable''))
             | Some get \<Rightarrow>
                 (case get (obj_id dflt) of
                    Inl e \<Rightarrow> (if caught e then after [TierGet] else ([TierGet], Inl e))
                  | Inr obj \<Rightarrow>
                      (if obj = None \<and> fng then
                         (case fetch_method of
                            None \<Rightarrow> ([TierGet], Inl (TypeError ''NoneType object is not callable''))
                          | Some fetch \<Rightarrow>
                              (case fetch (obj_id dflt) of
                                 Inl e \<Rightarrow>
                                   (if caught e then after [TierGet, TierFetch]
                                    else ([TierGet, TierFetch], Inl e))
                               | Inr fetched \<Rightarrow> ([TierGet, TierFetch], Inr fetched)))
                       else if \<not> fng then after [TierGet]
                       else (case obj of
                               None \<Rightarrow> after [TierGet]
                             | Some cached \<Rightarrow> ([TierGet], Inr cached)))))
      in if fq then attempt
         else case resolved of
                None \<Rightarrow> attempt
              | Some r \<Rightarrow>
                  (case dict_get r (typename @ ''s'') of
                     None \<Rightarrow> ([], Inl (KeyError (typename @ ''s'')))
                   | Some fragment \<Rightarrow>
                       (if key \<notin> set (dict_keys fragment) then attempt else after [])))"

section \<open>The context, the guard chain and invoke\<close>

text \<open>
  A value bound to a parameter of the callback: the raw value of the event, an object of
  the resolver, or the context itself.
\<close>

datatype bound = Raw json | Ent pyobj | Self

text \<open>The class \<^verbatim>\<open>Context\<close>, under its other name \<^verbatim>\<open>Interaction\<close>.\<close>

record interaction =
  ctx_id :: int
  ctx_command :: command
  ctx_guild :: "pyobj option"
  ctx_channel :: pyobj
  ctx_author :: "pyobj option"
  ctx_token :: json
  ctx_cog :: "cog option"
  ctx_options :: "(string, bound) dict"
  ctx_me :: pyobj

text \<open>
  What \<^verbatim>\<open>can_run\<close> calls: a check function, \<^verbatim>\<open>partial(check, cog)\<close>, or the bound method
  \<^verbatim>\<open>cog.cog_check\<close>. Two bound methods are equal when they are of the same cog.
\<close>

datatype check_call = Plain check_fn | Bound check_fn nat | CogCheck nat

text \<open>
  What an invocation runs, in order: checks, the callbacks of the ancestor groups, and
  the callback of the command with its keyword arguments (each with the cog it is given
  as first argument, if any).
\<close>

datatype event =
    EvCheck check_call
  | EvHook coroutine "nat option"
  | EvBody coroutine "nat option" "(string \<times> bound) list"

text \<open>
  A coroutine of the application returns or raises; of a returned value only \<^verbatim>\<open>is False\<close>
  matters. What it does is a parameter: a function of the events so far and of the call.
  The default check of \<^verbatim>\<open>Command.__init__\<close> has the body \<^verbatim>\<open>pass\<close> and returns \<^verbatim>\<open>None\<close>.
\<close>

datatype ret = RetFalse | RetOther | Raises exn

fun call_check :: "(event list \<Rightarrow> event \<Rightarrow> ret) \<Rightarrow> event list \<Rightarrow> check_call \<Rightarrow> ret" where
  "call_check behaviour h (Plain DefaultCheck) = RetOther"
| "call_check behaviour h (Bound DefaultCheck cg) = RetOther"
| "call_check behaviour h c = behaviour h (EvCheck c)"

text \<open>
  The \<^verbatim>\<open>while parent is not None\<close> loop of \<^verbatim>\<open>can_run\<close>, on the lists \<^verbatim>\<open>parents\<close> and \<^verbatim>\<open>cogs\<close>.
\<close>

fun collect_parents ::
  "command option \<Rightarrow> check_call list \<Rightarrow> check_call list \<Rightarrow> check_call list \<times> check_call list" where
  "collect_parents None parents cogs = (parents, cogs)"
| "collect_parents (Some (Command i n d g p c opts co ch cg sl)) parents cogs =
     (case cg of
        Some the_cog \<Rightarrow>
          collect_parents p (parents @ [Bound ch (cog_id the_cog)])
            (if cog_has_check the_cog \<and> CogCheck (cog_id the_cog) \<notin> set cogs
             then cogs @ [CogCheck (cog_id the_cog)] else cogs)
      | None \<Rightarrow> collect_parents p (parents @ [Plain ch]) cogs)"

text \<open>The list \<^verbatim>\<open>parents\<close> as \<^verbatim>\<open>can_run\<close> iterates over it; \<open>checks\<close> is \<^verbatim>\<open>ctx.client._checks\<close>.\<close>

definition guard_chain :: "command \<Rightarrow> check_fn list \<Rightarrow> check_call list" where
  "guard_chain self checks =
     (let pc = collect_parents (cmd_parent self) [] [];
          parents = fst pc @ snd pc;
          parents = parents @ map Plain checks;
          parents = rev parents
      in parents @ [Plain (cmd_check self)])"

fun run_checks ::
  "(event list \<Rightarrow> event \<Rightarrow> ret) \<Rightarrow> event list \<Rightarrow> check_call list \<Rightarrow> event list \<times> (exn + bool)" where
  "run_checks behaviour h [] = (h, Inr True)"
| "run_checks behaviour h (c # cs) =
     (case call_check behaviour h c of
        RetFalse \<Rightarrow> (h @ [EvCheck c], Inr False)
      | RetOther \<Rightarrow> run_checks behaviour (h @ [EvCheck c]) cs
      | Raises e \<Rightarrow> (h @ [EvCheck c], Inl e))"

definition can_run ::
  "(event list \<Rightarrow> event \<Rightarrow> ret) \<Rightarrow> event list \<Rightarrow> command \<Rightarrow> check_fn list
     \<Rightarrow> event list \<times> (exn + bool)" where
  "can_run behaviour h self checks = run_checks behaviour h (guard_chain self checks)"

text \<open>\<^verbatim>\<open>invoke_parents\<close>: the callbacks of the ancestors, the outermost first.\<close>

fun collect_hooks :: "command option \<Rightarrow> event list" where
  "collect_hooks None = []"
| "collect_hooks (Some (Command i n d g p c opts co ch cg sl)) =
     EvHook co (map_option cog_id cg) # collect_hooks p"

fun run_calls ::
  "(event list \<Rightarrow> event \<Rightarrow> ret) \<Rightarrow> event list \<Rightarrow> event list \<Rightarrow> event list \<times> (exn + unit)" where
  "run_calls behaviour h [] = (h, Inr ())"
| "run_calls behaviour h (c # cs) =
     (case behaviour h c of
        Raises e \<Rightarrow> (h @ [c], Inl e)
      | _ \<Rightarrow> run_calls behaviour (h @ [c]) cs)"

definition invoke_parents ::
  "(event list \<Rightarrow> event \<Rightarrow> ret) \<Rightarrow> event list \<Rightarrow> command \<Rightarrow> event list \<times> (exn + unit)" where
  "invoke_parents behaviour h self = run_calls behaviour h (rev (collect_hooks (cmd_parent self)))"

fun qualname :: "command \<Rightarrow> string" where
  "qualname (Command i n d g p c opts co ch cg sl) =
     (case p of None \<Rightarrow> n | Some parent \<Rightarrow> qualname parent @ '' '' @ n)"

text \<open>
  \<^verbatim>\<open>Command.invoke\<close>. The arguments of the \<^verbatim>\<open>logger.debug\<close> call are evaluated whatever the
  level: \<^verbatim>\<open>ctx.author.id\<close> and \<^verbatim>\<open>ctx.guild.id\<close> raise \<^verbatim>\<open>AttributeError\<close> on \<^verbatim>\<open>None\<close>.
\<close>

definition invoke ::
  "(event list \<Rightarrow> event \<Rightarrow> ret) \<Rightarrow> event list \<Rightarrow> check_fn list \<Rightarrow> command \<Rightarrow> interaction
     \<Rightarrow> event list \<times> (exn + unit)" where
  "invoke behaviour h checks self ctx =
     (case can_run behaviour h self checks of
        (h1, Inl e) \<Rightarrow> (h1, Inl e)
      | (h1, Inr False) \<Rightarrow>
          (h1, Inl (CheckFailure (''The check functions for '' @ qualname self @ '' failed.'')))
      | (h1, Inr True) \<Rightarrow>
          (if ctx_author ctx = None \<or> ctx_guild ctx = None then (h1, Inl AttributeError)
           else case invoke_parents behaviour h1 self of
                  (h2, Inl e) \<Rightarrow> (h2, Inl e)
                | (h2, Inr u) \<Rightarrow>
                    run_calls behaviour h2
                      [EvBody (cmd_coro self) (map_option cog_id (cmd_cog self)) (ctx_options ctx)]))"

text \<open>The ancestors of a command, the parent first and the outermost group last.\<close>

fun ancestors :: "command option \<Rightarrow> command list" where
  "ancestors None = []"
| "ancestors (Some (Command i n d g p c opts co ch cg sl)) =
     Command i n d g p c opts co ch cg sl # ancestors p"

definition parent_check :: "command \<Rightarrow> check_call" where
  "parent_check p =
     (case cmd_cog p of None \<Rightarrow> Plain (cmd_check p) | Some cg \<Rightarrow> Bound (cmd_check p) (cog_id cg))"

section \<open>Binding the options of an event: Context._kwargs_from_options\<close>

text \<open>
  An entry of the option tree of an event: a dictionary with a \<^verbatim>\<open>name\<close>, and with a
  \<^verbatim>\<open>value\<close>, with nested \<^verbatim>\<open>options\<close>, with both or with neither.
\<close>

datatype opt_node = OptNode (on_name: string) (on_value: "json option") (on_options: "opt_node list option")

text \<open>
  The client and what it reaches: the two resolution flags, the global checks, the set
  \<^verbatim>\<open>slash\<close> of top-level commands (as a list, in the order of iteration), the id of the
  bot user, the caches and fetches of the library (those of a guild take the guild's
  id first), the class that \<^verbatim>\<open>discord.channel._channel_factory\<close> gives for a channel
  type, the conversions \<^verbatim>\<open>int\<close> and \<^verbatim>\<open>str\<close>, and the behaviour of the application's
  coroutines.
\<close>

record client =
  resolve_not_fetch :: bool
  fetch_if_not_get :: bool
  client_checks :: "check_fn list"
  client_slash :: "command list"
  client_user_id :: int
  get_guild :: "int \<Rightarrow> pyobj option"
  fetch_guild :: "int \<Rightarrow> exn + pyobj"
  get_channel :: "int \<Rightarrow> pyobj option"
  fetch_channel :: "int \<Rightarrow> exn + pyobj"
  guild_get_member :: "int \<Rightarrow> int \<Rightarrow> pyobj option"
  guild_fetch_member :: "int \<Rightarrow> int \<Rightarrow> exn + pyobj"
  guild_get_channel :: "int \<Rightarrow> int \<Rightarrow> pyobj option"
  guild_get_role :: "int \<Rightarrow> int \<Rightarrow> pyobj option"
  channel_factory :: "json \<Rightarrow> string option"
  py_int :: "json \<Rightarrow> exn + int"
  py_str :: "int \<Rightarrow> string"
  app_behaviour :: "event list \<Rightarrow> event \<Rightarrow> ret"

text \<open>
  A method of \<^verbatim>\<open>self.guild\<close>: only a guild of the library has it; \<^verbatim>\<open>None\<close> and a bare
  \<^verbatim>\<open>discord.Object\<close> raise \<^verbatim>\<open>AttributeError\<close>.
\<close>

definition guild_call :: "pyobj option \<Rightarrow> (int \<Rightarrow> 'a) \<Rightarrow> exn + 'a" where
  "guild_call guild f =
     (case guild of
        Some (Entity cls gid) \<Rightarrow> (if cls = ''Guild'' then Inr (f gid) else Inl AttributeError)
      | _ \<Rightarrow> Inl AttributeError)"

definition get_member :: "client \<Rightarrow> pyobj option \<Rightarrow> int \<Rightarrow> exn + pyobj option" where
  "get_member cl guild mid = guild_call guild (\<lambda>g. guild_get_member cl g mid)"

definition fetch_member :: "client \<Rightarrow> pyobj option \<Rightarrow> int \<Rightarrow> exn + pyobj" where
  "fetch_member cl guild mid =
     (case guild_call guild (\<lambda>g. guild_fetch_member cl g mid) of Inl e \<Rightarrow> Inl e | Inr r \<Rightarrow> r)"

text \<open>
  \<^verbatim>\<open>discord.Object(id)\<close> converts the id with \<^verbatim>\<open>int\<close> and turns a \<^verbatim>\<open>ValueError\<close> into a
  \<^verbatim>\<open>TypeError\<close>. The entities that the library builds from a fragment of data take their
  id from it: a member from \<^verbatim>\<open>data['user']['id']\<close>, the others from \<^verbatim>\<open>data['id']\<close>.

  The constructors of users and members subscript the fragment and raise \<^verbatim>\<open>KeyError\<close> on
  a key that is missing. \<^verbatim>\<open>discord.User\<close> reads \<^verbatim>\<open>data['username']\<close>, \<^verbatim>\<open>int(data['id'])\<close>,
  \<^verbatim>\<open>data['discriminator']\<close> and \<^verbatim>\<open>data['avatar']\<close>, in this order. \<^verbatim>\<open>discord.Member\<close>, the
  base of \<^verbatim>\<open>PartialMember\<close>, hands \<^verbatim>\<open>data['user']\<close> to the connection state, which converts
  the user's id and builds the user (a user that it has not stored yet), and then
  converts every element of \<^verbatim>\<open>data['roles']\<close> with \<^verbatim>\<open>int\<close>.
\<close>

definition mk_Object :: "(json \<Rightarrow> exn + int) \<Rightarrow> json \<Rightarrow> exn + pyobj" where
  "mk_Object conv v =
     (case conv v of
        Inl (ValueError m) \<Rightarrow> Inl (TypeError ''id parameter must be convertable to int'')
      | Inl e \<Rightarrow> Inl e
      | Inr i \<Rightarrow> Inr (Object i))"

definition mk_partial :: "(json \<Rightarrow> exn + int) \<Rightarrow> string \<Rightarrow> json \<Rightarrow> exn + pyobj" where
  "mk_partial conv cls data =
     bind_exn (subscript data ''id'') (\<lambda>v.
     bind_exn (conv v) (\<lambda>i. Inr (Partial cls i data)))"

definition mk_user :: "(json \<Rightarrow> exn + int) \<Rightarrow> json \<Rightarrow> exn + pyobj" where
  "mk_user conv data =
     bind_exn (subscript data ''username'') (\<lambda>name.
     bind_exn (subscript data ''id'') (\<lambda>v.
     bind_exn (conv v) (\<lambda>i.
     bind_exn (subscript data ''discriminator'') (\<lambda>discriminator.
     bind_exn (subscript data ''avatar'') (\<lambda>avatar. Inr (Partial ''User'' i data))))))"

definition mk_member :: "(json \<Rightarrow> exn + int) \<Rightarrow> json \<Rightarrow> exn + pyobj" where
  "mk_member conv data =
     bind_exn (subscript data ''user'') (\<lambda>u.
     bind_exn (subscript u ''id'') (\<lambda>v.
     bind_exn (conv v) (\<lambda>i.
     bind_exn (mk_user conv u) (\<lambda>user.
     bind_exn (subscript data ''roles'') (\<lambda>rs.
     bind_exn (py_iter rs) (\<lambda>roles.
     bind_exn (collect (map conv roles)) (\<lambda>role_ids.
       Inr (Partial ''PartialMember'' i data))))))))"

text \<open>\<^verbatim>\<open>d[k] = v\<close> and \<^verbatim>\<open>d.setdefault(k, v)\<close> on a JSON value that should be a dictionary.\<close>

definition set_item :: "json \<Rightarrow> string \<Rightarrow> json \<Rightarrow> exn + json" where
  "set_item data k v =
     (case data of
        JObj d \<Rightarrow> Inr (JObj (dict_set d k v))
      | _ \<Rightarrow> Inl (TypeError ''object does not support item assignment''))"

definition set_default :: "json \<Rightarrow> string \<Rightarrow> json \<Rightarrow> exn + json" where
  "set_default data k v =
     (case data of
        JObj d \<Rightarrow> Inr (JObj (if k \<in> set (dict_keys d) then d else dict_set d k v))
      | _ \<Rightarrow> Inl AttributeError)"

text \<open>The four local functions \<^verbatim>\<open>resolve_member\<close>, \<^verbatim>\<open>resolve_user\<close>, \<^verbatim>\<open>resolve_channel\<close>, \<^verbatim>\<open>resolve_role\<close>.\<close>

definition resolve_member ::
  "client \<Rightarrow> (string, (string, json) dict) dict \<Rightarrow> int \<Rightarrow> json \<Rightarrow> exn + pyobj" where
  "resolve_member cl resolved value_id member =
     (case dict_get resolved ''users'' of
        None \<Rightarrow> Inl (KeyError ''users'')
      | Some users \<Rightarrow>
          (case dict_get users (py_str cl value_id) of
             None \<Rightarrow> Inl (KeyError (py_str cl value_id))
           | Some u \<Rightarrow> bind_exn (set_item member ''user'' u) (mk_member (py_int cl))))"

definition resolve_user :: "client \<Rightarrow> json \<Rightarrow> exn + pyobj" where
  "resolve_user cl user = mk_user (py_int cl) user"

definition partial_class :: "string \<Rightarrow> string" where
  "partial_class cls =
     (if cls = ''TextChannel'' then ''PartialTextChannel''
      else if cls = ''CategoryChannel'' then ''PartialCategoryChannel''
      else if cls = ''VoiceChannel'' then ''PartialVoiceChannel''
      else cls)"

definition resolve_channel :: "client \<Rightarrow> json \<Rightarrow> exn + pyobj" where
  "resolve_channel cl channel =
     bind_exn (set_default channel ''position'' (JInt (- 1))) (\<lambda>channel.
     bind_exn (subscript channel ''type'') (\<lambda>ctype.
       case channel_factory cl ctype of
         None \<Rightarrow> Inl (TypeError ''NoneType object is not callable'')
       | Some cls \<Rightarrow> mk_partial (py_int cl) (partial_class cls) channel))"

definition resolve_role :: "client \<Rightarrow> json \<Rightarrow> exn + pyobj" where
  "resolve_role cl role =
     bind_exn (subscript role ''permissions'') (\<lambda>p.
     bind_exn (set_item role ''permissions_new'' p) (mk_partial (py_int cl) ''PartialRole''))"

text \<open>
  The part of the loop body that turns the raw value of an entry into the value bound: the
  resolver for the types \<^verbatim>\<open>USER\<close>, \<^verbatim>\<open>CHANNEL\<close> and \<^verbatim>\<open>ROLE\<close>, nothing for the others.
\<close>

definition bind_value ::
  "client \<Rightarrow> pyobj option \<Rightarrow> (string, (string, json) dict) dict \<Rightarrow> int \<Rightarrow> json \<Rightarrow> exn + bound" where
  "bind_value cl guild resolved opttype v =
     (if opttype = USER \<or> opttype = CHANNEL \<or> opttype = ROLE then
        bind_exn (mk_Object (py_int cl) v) (\<lambda>obj.
          if opttype = USER then
            bind_exn (snd (try_get (resolve_not_fetch cl) (fetch_if_not_get cl) (py_str cl) obj
                             (Some (get_member cl guild)) (Some (fetch_member cl guild)) ''member''
                             (Some (resolve_member cl resolved (obj_id obj))) (Some resolved)
                             None None)) (\<lambda>m.
              case m of
                Object i \<Rightarrow>
                  bind_exn (snd (try_get (resolve_not_fetch cl) (fetch_if_not_get cl) (py_str cl) m
                                   None None ''user'' (Some (resolve_user cl)) (Some resolved)
                                   None (Some False))) (\<lambda>u. Inr (Ent u))
              | _ \<Rightarrow> Inr (Ent m))
          else if opttype = CHANNEL then
            bind_exn (snd (try_get (resolve_not_fetch cl) (fetch_if_not_get cl) (py_str cl) obj
                             (Some (\<lambda>oid. guild_call guild (\<lambda>g. guild_get_channel cl g oid)))
                             (Some (fetch_channel cl)) ''channel''
                             (Some (resolve_channel cl)) (Some resolved) None None))
              (\<lambda>c. Inr (Ent c))
          else
            bind_exn (snd (try_get (resolve_not_fetch cl) (fetch_if_not_get cl) (py_str cl) obj
                             (Some (\<lambda>oid. guild_call guild (\<lambda>g. guild_get_role cl g oid)))
                             None ''role''
                             (Some (resolve_role cl)) (Some resolved) (Some False) None))
              (\<lambda>r. Inr (Ent r)))
      else Inr (Raw v))"

text \<open>
  The inner loop \<^verbatim>\<open>for k, v in self.command.options.items()\<close>: the key of the first
  declared option whose \<^verbatim>\<open>name\<close> equals the name of the entry.
\<close>

fun find_option :: "(string \<times> slash_option) list \<Rightarrow> string \<Rightarrow> string option" where
  "find_option [] n = None"
| "find_option (kv # rest) n =
     (if py_eq (o_name (snd kv)) (JStr n) then Some (fst kv) else find_option rest n)"

text \<open>\<^verbatim>\<open>self.command.slash[name]\<close>: only a \<^verbatim>\<open>Group\<close> has the attribute \<^verbatim>\<open>slash\<close>.\<close>

definition descend :: "command \<Rightarrow> string \<Rightarrow> exn + command" where
  "descend c name =
     (case cmd_slash c of
        None \<Rightarrow> Inl AttributeError
      | Some subs \<Rightarrow>
          (case dict_get subs name of None \<Rightarrow> Inl (KeyError name) | Some s \<Rightarrow> Inr s))"

text \<open>
  \<^verbatim>\<open>_kwargs_from_options(options, resolved)\<close>, from the loop on: \<open>kwargs\<close> is the dictionary
  being built, \<open>opts\<close> the entries still to visit and \<open>prev\<close> what the code after the loop
  reads of the loop variable \<^verbatim>\<open>opt\<close> (its name, which the loop body may have replaced by
  the parameter name, and its \<^verbatim>\<open>options\<close>, \<^verbatim>\<open>[]\<close> when it has none); \<open>prev\<close> is \<open>None\<close> when
  the loop has not run. A recursive call of the source starts with empty \<open>kwargs\<close> and sets
  \<^verbatim>\<open>self.cog\<close>.
\<close>

function kwargs_loop ::
  "client \<Rightarrow> (string, (string, json) dict) dict \<Rightarrow> interaction \<Rightarrow> (string, bound) dict
     \<Rightarrow> opt_node list \<Rightarrow> (string \<times> opt_node list) option \<Rightarrow> exn + interaction" where
  "kwargs_loop cl resolved ctx kwargs [] prev =
     (if cmd_slash (ctx_command ctx) \<noteq> None then
        (case prev of
           None \<Rightarrow> Inl (NameError ''opt'')
         | Some l \<Rightarrow>
             (case descend (ctx_command ctx) (fst l) of
                Inl e \<Rightarrow> Inl e
              | Inr c \<Rightarrow>
                  kwargs_loop cl resolved (ctx\<lparr>ctx_command := c, ctx_cog := cmd_cog c\<rparr>) []
                    (snd l) None))
      else Inr (ctx\<lparr>ctx_options := dict_set kwargs (cmd_ctx_arg (ctx_command ctx)) Self\<rparr>))"
| "kwargs_loop cl resolved ctx kwargs (OptNode name value options # rest) prev =
     (case value of
        Some v \<Rightarrow>
          (case find_option (cmd_options (ctx_command ctx)) name of
             None \<Rightarrow> Inl (CommandInvokeError (''No such option: '' @ py_repr name))
           | Some k \<Rightarrow>
               (case dict_get (cmd_options (ctx_command ctx)) k of
                  None \<Rightarrow> Inl (KeyError k)
                | Some opt \<Rightarrow>
                    (case bind_value cl (ctx_guild ctx) resolved (o_type opt) v of
                       Inl e \<Rightarrow> Inl e
                     | Inr b \<Rightarrow>
                         kwargs_loop cl resolved ctx (dict_set kwargs k b) rest
                           (Some (k, case options of None \<Rightarrow> [] | Some os \<Rightarrow> os)))))
      | None \<Rightarrow>
          (case options of
             Some os \<Rightarrow>
               (case descend (ctx_command ctx) name of
                  Inl e \<Rightarrow> Inl e
                | Inr c \<Rightarrow>
                    kwargs_loop cl resolved (ctx\<lparr>ctx_command := c, ctx_cog := cmd_cog c\<rparr>) []
                      os None)
           | None \<Rightarrow> kwargs_loop cl resolved ctx kwargs rest (Some (name, []))))"
  by pat_completeness auto
termination
  by (relation "measure (\<lambda>(cl, resolved, ctx, kwargs, opts, prev).
        size_list size opts + (case prev of None \<Rightarrow> 0 | Some l \<Rightarrow> Suc (size_list size (snd l))))")
     (auto split: option.splits)

definition kwargs_from_options ::
  "client \<Rightarrow> interaction \<Rightarrow> opt_node list \<Rightarrow> (string, (string, json) dict) dict
     \<Rightarrow> exn + interaction" where
  "kwargs_from_options cl ctx options resolved =
     kwargs_loop cl resolved (ctx\<lparr>ctx_cog := cmd_cog (ctx_command ctx)\<rparr>) [] options None"

section \<open>Context.__init__ and on_interaction_create\<close>

text \<open>
  The invocation event: \<^verbatim>\<open>guild_id\<close>, \<^verbatim>\<open>member\<close>, \<^verbatim>\<open>data.options\<close> and \<^verbatim>\<open>data.resolved\<close> may
  be absent.
\<close>

record interaction_event =
  ev_version :: json
  ev_id :: json
  ev_guild_id :: "json option"
  ev_channel_id :: json
  ev_member :: "json option"
  ev_token :: json
  ev_data_id :: json
  ev_data_name :: string
  ev_options :: "opt_node list option"
  ev_resolved :: "(string, (string, json) dict) dict option"

definition default_resolved :: "(string, (string, json) dict) dict" where
  "default_resolved = [(''members'', []), (''users'', []), (''channels'', []), (''roles'', [])]"

definition get_truthy :: "json option \<Rightarrow> json option" where
  "get_truthy v = (case v of None \<Rightarrow> None | Some x \<Rightarrow> (if py_truthy x then Some x else None))"

definition Context_init :: "client \<Rightarrow> command \<Rightarrow> interaction_event \<Rightarrow> exn + interaction" where
  "Context_init cl cmd ev =
     bind_exn (py_int cl (ev_id ev)) (\<lambda>i.
     bind_exn (case get_truthy (ev_guild_id ev) of
                 None \<Rightarrow> Inr None
               | Some g \<Rightarrow>
                   bind_exn (mk_Object (py_int cl) g) (\<lambda>obj.
                   bind_exn (snd (try_get (resolve_not_fetch cl) (fetch_if_not_get cl) (py_str cl) obj
                                    (Some (\<lambda>i. Inr (get_guild cl i))) (Some (fetch_guild cl))
                                    ''guild'' None None None None))
                     (\<lambda>guild. Inr (Some guild)))) (\<lambda>guild.
     bind_exn (bind_exn (mk_Object (py_int cl) (ev_channel_id ev)) (\<lambda>obj.
                 snd (try_get (resolve_not_fetch cl) (fetch_if_not_get cl) (py_str cl) obj
                        (Some (\<lambda>i. Inr (get_channel cl i))) (Some (fetch_channel cl))
                        ''channel'' None None None None))) (\<lambda>channel.
     bind_exn (case get_truthy (ev_member ev) of
                 None \<Rightarrow> Inr None
               | Some m \<Rightarrow>
                   bind_exn (mk_member (py_int cl) m) (\<lambda>author.
                   bind_exn (snd (try_get (resolve_not_fetch cl) (fetch_if_not_get cl) (py_str cl) author
                                    (Some (get_member cl guild)) (Some (fetch_member cl guild))
                                    ''author-member'' None None None None))
                     (\<lambda>a. Inr (Some a)))) (\<lambda>author.
     bind_exn (kwargs_from_options cl
                 \<lparr>ctx_id = i, ctx_command = cmd, ctx_guild = guild, ctx_channel = channel,
                  ctx_author = author, ctx_token = ev_token ev, ctx_cog = None, ctx_options = [],
                  ctx_me = Object (client_user_id cl)\<rparr>
                 (case ev_options ev of None \<Rightarrow> [] | Some os \<Rightarrow> os)
                 (case ev_resolved ev of None \<Rightarrow> default_resolved | Some r \<Rightarrow> r)) (\<lambda>ctx.
     bind_exn (snd (try_get (resolve_not_fetch cl) (fetch_if_not_get cl) (py_str cl)
                      (Object (client_user_id cl))
                      (Some (get_member cl guild)) (Some (fetch_member cl guild))
                      ''me-member'' None None None None)) (\<lambda>me.
     Inr (ctx\<lparr>ctx_me := me\<rparr>)))))))"

text \<open>
  How \<^verbatim>\<open>on_interaction_create\<close> ends: normally, after handing an exception to the
  \<^verbatim>\<open>command_error\<close> event, or with an exception that leaves it.
\<close>

datatype outcome = Completed | Dispatched exn | RaisedOut exn

fun is_CommandError :: "exn \<Rightarrow> bool" where
  "is_CommandError (CommandInvokeError m) = True"
| "is_CommandError (CommandInvokeErrorOf e) = True"
| "is_CommandError (CommandNotFound m) = True"
| "is_CommandError (CheckFailure m) = True"
| "is_CommandError e = False"

text \<open>
  The three searches of \<^verbatim>\<open>discord.utils.get\<close> over \<^verbatim>\<open>self.slash\<close>: by id, by name and guild
  (\<^verbatim>\<open>event['guild_id']\<close> raises \<^verbatim>\<open>KeyError\<close> when the key is absent), by name.
\<close>

definition guild_matches :: "command \<Rightarrow> json \<Rightarrow> bool" where
  "guild_matches c g =
     (case cmd_guild_id c of None \<Rightarrow> g = JNull | Some i \<Rightarrow> py_eq (JInt i) g)"

definition find_command :: "client \<Rightarrow> interaction_event \<Rightarrow> exn + command" where
  "find_command cl ev =
     bind_exn (py_int cl (ev_data_id ev)) (\<lambda>i.
       case find (\<lambda>c. cmd_id c = Some i) (client_slash cl) of
         Some c \<Rightarrow> Inr c
       | None \<Rightarrow>
           (case ev_guild_id ev of
              None \<Rightarrow> Inl (KeyError ''guild_id'')
            | Some g \<Rightarrow>
                (case find (\<lambda>c. cmd_name c = ev_data_name ev \<and> guild_matches c g) (client_slash cl) of
                   Some c \<Rightarrow> Inr c
                 | None \<Rightarrow>
                     (case find (\<lambda>c. cmd_name c = ev_data_name ev) (client_slash cl) of
                        Some c \<Rightarrow> Inr c
                      | None \<Rightarrow>
                          Inl (CommandNotFound (''No command '' @ py_repr (ev_data_name ev)
                                 @ '' found by any critera''))))))"

definition on_interaction_create :: "client \<Rightarrow> interaction_event \<Rightarrow> event list \<times> outcome" where
  "on_interaction_create cl ev =
     (if \<not> py_eq (ev_version ev) (JInt 1)
      then ([], RaisedOut (RuntimeError ''Interaction data version is not supported''))
      else case find_command cl ev of
             Inl e \<Rightarrow> ([], RaisedOut e)
           | Inr cmd \<Rightarrow>
               (case Context_init cl cmd ev of
                  Inl e \<Rightarrow> ([], RaisedOut e)
                | Inr ctx \<Rightarrow>
                    (case invoke (app_behaviour cl) [] (client_checks cl) (ctx_command ctx) ctx of
                       (h, Inr u) \<Rightarrow> (h, Completed)
                     | (h, Inl e) \<Rightarrow>
                         (if is_CommandError e then (h, Dispatched e)
                          else if e = CancelledError then (h, Completed)
                          else (h, Dispatched (CommandInvokeErrorOf e))))))"

section \<open>Example values\<close>

text \<open>
  A conversion in the role of \<^verbatim>\<open>int\<close>, for use where the parameter must be a concrete
  function: integers and booleans convert, a non-empty string of ASCII digits is read in
  base ten, and nothing else is accepted.
\<close>

definition digit_of :: "char \<Rightarrow> int option" where
  "digit_of c =
     (if c = CHR ''0'' then Some 0 else if c = CHR ''1'' then Some 1
      else if c = CHR ''2'' then Some 2 else if c = CHR ''3'' then Some 3
      else if c = CHR ''4'' then Some 4 else if c = CHR ''5'' then Some 5
      else if c = CHR ''6'' then Some 6 else if c = CHR ''7'' then Some 7
      else if c = CHR ''8'' then Some 8 else if c = CHR ''9'' then Some 9
      else None)"

fun read_digits :: "int \<Rightarrow> string \<Rightarrow> int option" where
  "read_digits acc [] = Some acc"
| "read_digits acc (c # cs) =
     (case digit_of c of None \<Rightarrow> None | Some d \<Rightarrow> read_digits (10 * acc + d) cs)"

definition int_of_json :: "json \<Rightarrow> exn + int" where
  "int_of_json v =
     (case v of
        JInt i \<Rightarrow> Inr i
      | JBool b \<Rightarrow> Inr (if b then 1 else 0)
      | JStr s \<Rightarrow>
          (if s = [] then Inl (ValueError ''invalid literal for int()'')
           else case read_digits 0 s of
                  None \<Rightarrow> Inl (ValueError ''invalid literal for int()'')
                | Some i \<Rightarrow> Inr i)
      | _ \<Rightarrow> Inl (TypeError ''int() argument must be a string or a number''))"

text \<open>\<^verbatim>\<open>str\<close> on an integer, for use where the parameter must be a concrete function.\<close>

definition char_of_digit :: "nat \<Rightarrow> char" where
  "char_of_digit d =
     (if d = 0 then CHR ''0'' else if d = 1 then CHR ''1'' else if d = 2 then CHR ''2''
      else if d = 3 then CHR ''3'' else if d = 4 then CHR ''4'' else if d = 5 then CHR ''5''
      else if d = 6 then CHR ''6'' else if d = 7 then CHR ''7'' else if d = 8 then CHR ''8''
      else CHR ''9'')"

fun str_of_nat :: "nat \<Rightarrow> string" where
  "str_of_nat n =
     (if n < 10 then [char_of_digit n] else str_of_nat (n div 10) @ [char_of_digit (n mod 10)])"

definition str_of_int :: "int \<Rightarrow> string" where
  "str_of_int i = (if i < 0 then CHR ''-'' # str_of_nat (nat (- i)) else str_of_nat (nat i))"

text \<open>Example values: a callback with a context parameter and two top-level commands.\<close>

definition ex_coro :: coroutine where
  "ex_coro = \<lparr>co_name = ''ping'', co_doc = Some ''Ping the bot'',
              co_params = [\<lparr>p_name = ''ctx'', p_annotation = AnnContext, p_has_default = False\<rparr>]\<rparr>"

definition ex_ping :: command where
  "ex_ping = Command None ''ping'' ''Ping the bot'' None None ''ctx'' [] ex_coro DefaultCheck None None"

definition ex_remote_ping :: "(string, json) dict" where
  "ex_remote_ping = [(''id'', JStr ''41''), (''name'', JStr ''ping''),
                     (''description'', JStr ''Ping the bot'')]"

definition ex_remote_ping_old :: "(string, json) dict" where
  "ex_remote_ping_old = [(''id'', JStr ''41''), (''name'', JStr ''ping''),
                         (''description'', JStr ''Ping'')]"

text \<open>
  More example values: a second command that the platform does not know, a platform that
  lists the old \<^verbatim>\<open>ping\<close>, refuses every \<^verbatim>\<open>POST\<close> and answers the other requests with the
  id 41.
\<close>

definition ex_echo :: command where
  "ex_echo = Command None ''echo'' ''Repeat a message'' None None ''ctx'' []
               (ex_coro\<lparr>co_name := ''echo'', co_doc := Some ''Repeat a message''\<rparr>)
               DefaultCheck None None"

definition ex_request :: "route \<Rightarrow> op_kwargs \<Rightarrow> exn + json" where
  "ex_request rt kwargs =
     (if r_method rt = ''GET'' then Inr (JList [JObj ex_remote_ping_old])
      else if r_method rt = ''POST'' then Inl HTTPException
      else Inr (JObj [(''id'', JStr ''41'')]))"

text \<open>A platform that accepts every request: it answers a \<^verbatim>\<open>POST\<close> with the id 42.\<close>

definition ex_request_ok :: "route \<Rightarrow> op_kwargs \<Rightarrow> exn + json" where
  "ex_request_ok rt kwargs =
     (if r_method rt = ''GET'' then Inr (JList [JObj ex_remote_ping_old])
      else if r_method rt = ''POST'' then Inr (JObj [(''id'', JStr ''42'')])
      else Inr (JObj [(''id'', JStr ''41'')]))"

definition ex_world :: world where
  "ex_world = \<lparr>w_guilds = [(None, [(''ping'', ex_ping), (''echo'', ex_echo)])], w_log = []\<rparr>"

definition ex_post_echo :: task where
  "ex_post_echo =
     \<lparr>t_name = ''echo'', t_guild = None,
      t_route = \<lparr>r_method = ''POST'', r_guild = None, r_id = None\<rparr>,
      t_kwargs = \<lparr>kw_json = Some (to_dict ex_echo), kw_id = None, kw_cmd = Some (None, ''echo'')\<rparr>\<rparr>"

definition ex_patch_ping :: task where
  "ex_patch_ping =
     \<lparr>t_name = ''ping'', t_guild = None,
      t_route = \<lparr>r_method = ''PATCH'', r_guild = None, r_id = Some 41\<rparr>,
      t_kwargs = \<lparr>kw_json = Some [(''description'', JStr ''Ping the bot'')], kw_id = None,
                  kw_cmd = Some (None, ''ping'')\<rparr>\<rparr>"

text \<open>Example: a callback with two parameters annotated with the context type.\<close>

definition ex_coro_two_ctx :: coroutine where
  "ex_coro_two_ctx =
     \<lparr>co_name = ''both'', co_doc = Some ''Two contexts'',
      co_params = [\<lparr>p_name = ''ctx'', p_annotation = AnnContext, p_has_default = False\<rparr>,
                   \<lparr>p_name = ''other'', p_annotation = AnnContext, p_has_default = False\<rparr>]\<rparr>"

text \<open>
  Example: the command \<^verbatim>\<open>sub\<close> of the group \<^verbatim>\<open>grp\<close>, each with a check of its own, one global
  check, and an application in which the check of the group returns \<^verbatim>\<open>False\<close>.
\<close>

definition ex_group :: command where
  "ex_group = Command None ''grp'' ''A group'' None None ''ctx'' []
                (ex_coro\<lparr>co_name := ''grp''\<rparr>) (CheckFn ''group_check'') None (Some [])"

definition ex_sub :: command where
  "ex_sub = Command None ''sub'' ''A subcommand'' None (Some ex_group) ''ctx'' []
              (ex_coro\<lparr>co_name := ''sub''\<rparr>) (CheckFn ''own_check'') None None"

text \<open>
  Example: a cog with a \<^verbatim>\<open>cog_check\<close>, a group \<^verbatim>\<open>outer\<close> of that cog, a group \<^verbatim>\<open>inner\<close> of the
  same cog inside it, and a command \<^verbatim>\<open>leaf\<close> of \<^verbatim>\<open>inner\<close>.
\<close>

definition ex_cog :: cog where
  "ex_cog = \<lparr>cog_id = 3, cog_has_check = True\<rparr>"

definition ex_outer :: command where
  "ex_outer = Command None ''outer'' ''Outer group'' None None ''ctx'' []
                (ex_coro\<lparr>co_name := ''outer''\<rparr>) (CheckFn ''outer_check'') (Some ex_cog) (Some [])"

definition ex_inner :: command where
  "ex_inner = Command None ''inner'' ''Inner group'' None (Some ex_outer) ''ctx'' []
                (ex_coro\<lparr>co_name := ''inner''\<rparr>) (CheckFn ''inner_check'') (Some ex_cog) (Some [])"

definition ex_leaf :: command where
  "ex_leaf = Command None ''leaf'' ''A leaf'' None (Some ex_inner) ''ctx'' []
               (ex_coro\<lparr>co_name := ''leaf''\<rparr>) (CheckFn ''leaf_check'') (Some ex_cog) None"

definition ex_behaviour :: "event list \<Rightarrow> event \<Rightarrow> ret" where
  "ex_behaviour h e = (if e = EvCheck (Plain (CheckFn ''group_check'')) then RetFalse else RetOther)"

text \<open>
  The payload of a member as an invocation event carries it: the user with \<^verbatim>\<open>id\<close>,
  \<^verbatim>\<open>username\<close>, \<^verbatim>\<open>discriminator\<close> and \<^verbatim>\<open>avatar\<close>, and the \<^verbatim>\<open>roles\<close> of the member.
\<close>

definition ex_member :: json where
  "ex_member =
     JObj [(''user'', JObj [(''id'', JStr ''7''), (''username'', JStr ''ann''),
                            (''discriminator'', JStr ''0001''), (''avatar'', JNull)]),
           (''roles'', JList [JStr ''9'']), (''nick'', JNull)]"

definition ex_ctx :: interaction where
  "ex_ctx = \<lparr>ctx_id = 1, ctx_command = ex_sub, ctx_guild = Some (Object 5), ctx_channel = Object 6,
             ctx_author = Some (Partial ''PartialMember'' 7 ex_member), ctx_token = JStr ''token'',
             ctx_cog = None, ctx_options = [(''ctx'', Self)], ctx_me = Object 8\<rparr>"

text \<open>
  Example: the command \<^verbatim>\<open>pay\<close> with a required \<^verbatim>\<open>INTEGER\<close> option \<^verbatim>\<open>amount\<close>, registered
  under the id 41, a client with the default flags that knows no guild, and events that
  invoke \<^verbatim>\<open>pay\<close> with \<^verbatim>\<open>amount = 5\<close> and with an option \<^verbatim>\<open>bogus\<close>, sent by the member above.
\<close>

definition ex_amount :: slash_option where
  "ex_amount = \<lparr>o_name = JStr ''amount'', o_type = INTEGER, o_description = JStr ''How much'',
                o_required = JBool True, o_choices = None\<rparr>"

text \<open>A callback whose only parameter is the option \<^verbatim>\<open>amount\<close>: none has the context type.\<close>

definition ex_coro_no_ctx :: coroutine where
  "ex_coro_no_ctx =
     \<lparr>co_name = ''pay'', co_doc = Some ''Pay someone'',
      co_params = [\<lparr>p_name = ''amount'', p_annotation = AnnOption ex_amount,
                    p_has_default = False\<rparr>]\<rparr>"

definition ex_pay :: command where
  "ex_pay = Command (Some 41) ''pay'' ''Pay someone'' None None ''ctx'' [(''amount'', ex_amount)]
              \<lparr>co_name = ''pay'', co_doc = Some ''Pay someone'',
               co_params = [\<lparr>p_name = ''ctx'', p_annotation = AnnContext, p_has_default = False\<rparr>,
                            \<lparr>p_name = ''amount'', p_annotation = AnnOption ex_amount,
                             p_has_default = False\<rparr>]\<rparr>
              DefaultCheck None None"

definition ex_client :: client where
  "ex_client =
     \<lparr>resolve_not_fetch = True, fetch_if_not_get = False, client_checks = [],
      client_slash = [ex_pay], client_user_id = 8,
      get_guild = (\<lambda>i. None), fetch_guild = (\<lambda>i. Inl HTTPException),
      get_channel = (\<lambda>i. None), fetch_channel = (\<lambda>i. Inl HTTPException),
      guild_get_member = (\<lambda>g i. None), guild_fetch_member = (\<lambda>g i. Inl HTTPException),
      guild_get_channel = (\<lambda>g i. None), guild_get_role = (\<lambda>g i. None),
      channel_factory = (\<lambda>t. None), py_int = int_of_json, py_str = str_of_int,
      app_behaviour = (\<lambda>h e. RetOther)\<rparr>"

definition ex_event :: "opt_node list \<Rightarrow> interaction_event" where
  "ex_event options =
     \<lparr>ev_version = JInt 1, ev_id = JStr ''1'', ev_guild_id = Some (JStr ''5''),
      ev_channel_id = JStr ''6'',
      ev_member = Some ex_member,
      ev_token = JStr ''token'', ev_data_id = JStr ''41'', ev_data_name = ''pay'',
      ev_options = Some options, ev_resolved = None\<rparr>"

definition ex_pay_ctx :: interaction where
  "ex_pay_ctx =
     \<lparr>ctx_id = 1, ctx_command = ex_pay, ctx_guild = Some (Object 5), ctx_channel = Object 6,
      ctx_author = Some (Partial ''PartialMember'' 7 ex_member),
      ctx_token = JStr ''token'', ctx_cog = None, ctx_options = [], ctx_me = Object 8\<rparr>"

section \<open>Properties\<close>

subsection \<open>Dictionaries\<close>

lemma dict_get_dict_set: "dict_get (dict_set d k v) k' = (if k' = k then Some v else dict_get d k')"
  by (induction d) (auto simp: dict_get_def)

lemma dict_keys_dict_set: "set (dict_keys (dict_set d k v)) = insert k (set (dict_keys d))"
proof (induction d)
  case Nil
  then show ?case by (simp add: dict_keys_def)
next
  case (Cons a d)
  then show ?case by (cases a) (auto simp: dict_keys_def split: if_splits)
qed

lemma distinct_dict_set: "distinct (dict_keys d) \<Longrightarrow> distinct (dict_keys (dict_set d k v))"
proof (induction d)
  case Nil
  then show ?case by (simp add: dict_keys_def)
next
  case (Cons a d)
  have "set (map fst (dict_set d k v)) = insert k (set (map fst d))"
    using dict_keys_dict_set[of d k v] by (simp add: dict_keys_def)
  with Cons show ?case by (cases a) (auto simp: dict_keys_def)
qed

lemma lookup2_dict_set2:
  "lookup2 (dict_set2 d g k v) g' k' = (if g' = g \<and> k' = k then Some v else lookup2 d g' k')"
proof -
  have single: "\<And>a. dict_get [(k, v)] a = (if a = k then Some v else None)"
    by (simp add: dict_get_def)
  show ?thesis
    by (auto simp: lookup2_def dict_set2_def dict_get_dict_set single split: option.splits)
qed

subsection \<open>Option.clone\<close>

lemma collect_choices:
  "collect (map ((\<lambda>c. Choice_from_data (IsData c)) \<circ> (\<lambda>c. JObj (Choice_to_dict c))) cs) = Inr cs"
  by (induction cs) (simp_all add: Choice_to_dict_def dict_get_def dict_keys_def)

lemma Option_clone_eq:
  "Option_clone self =
     Inr \<lparr>o_name = o_name self, o_type = o_type self, o_description = o_description self,
          o_required = (if py_truthy (o_required self) then o_required self else JBool False),
          o_choices = o_choices self\<rparr>"
proof (cases "o_choices self")
  case None
  then show ?thesis
    by (simp add: Option_clone_def Option_call_def Option_to_dict_def Option_init_def
        dict_get_def dict_del_def)
next
  case (Some cs)
  then show ?thesis
    by (simp add: Option_clone_def Option_call_def Option_to_dict_def Option_init_def
        dict_get_def dict_del_def collect_choices)
qed

text \<open>
  C9. Cloning an \<^verbatim>\<open>Option\<close> always succeeds, and the clone serialises to the same
  dictionary as the original: same type, name and description, the \<^verbatim>\<open>required\<close> entry
  when it is set, the \<^verbatim>\<open>choices\<close> entry when there are choices.
\<close>

theorem Option_clone_to_dict:
  "\<exists>c. Option_clone self = Inr c \<and> Option_to_dict c = Option_to_dict self"
  by (simp add: Option_clone_eq Option_to_dict_def)

subsection \<open>The partition of sync_cmds\<close>

text \<open>
  C3. Whatever the scope, the names on the platform (\<open>done_keys\<close>) are split between the
  update candidates and the deletions, the names in code (\<open>todo_keys\<close>) between the update
  candidates and the creations; both splits are exhaustive and disjoint.
\<close>

theorem reconciliation_partition:
  "set (to_update done_keys todo_keys) \<union> set (to_delete done_keys todo_keys) = set done_keys
   \<and> set (to_update done_keys todo_keys) \<inter> set (to_delete done_keys todo_keys) = {}
   \<and> set (to_update done_keys todo_keys) \<union> set (to_create done_keys todo_keys) = set todo_keys
   \<and> set (to_update done_keys todo_keys) \<inter> set (to_create done_keys todo_keys) = {}"
  by (auto simp: to_update_def to_delete_def to_create_def)

subsection \<open>Python equality is reflexive on proper values\<close>

lemma to_dict_set_id: "to_dict (set_id c i) = to_dict c"
  by (cases c) (simp add: set_id_def)

lemma py_eq_items_sub:
  "distinct (map fst e) \<Longrightarrow> set d \<subseteq> set e \<Longrightarrow> \<forall>k v. (k, v) \<in> set d \<longrightarrow> py_eq v v
     \<Longrightarrow> py_eq_items d e"
proof (induction d)
  case Nil
  then show ?case by simp
next
  case (Cons kv d)
  obtain k v where kv: "kv = (k, v)" by (cases kv)
  with Cons.prems have "map_of e k = Some v" by simp
  moreover have "py_eq v v" using Cons.prems(3) kv by simp
  moreover have "py_eq_items d e" using Cons by simp
  ultimately show ?case using kv by simp
qed

lemma py_eq_refl_all:
  "wf_json v \<Longrightarrow> py_eq v v"
  "wf_json_list vs \<Longrightarrow> py_eq_list vs vs"
  "wf_json_items d \<Longrightarrow> \<forall>k w. (k, w) \<in> set d \<longrightarrow> py_eq w w"
proof (induction v and vs and d rule: wf_json_wf_json_list_wf_json_items.induct)
  case (2 d)
  then show ?case by (simp add: py_eq_items_sub)
qed auto

text \<open>The serialised form of a proper command is a proper JSON value.\<close>

lemma wf_json_items_dict_set:
  "wf_json_items d \<Longrightarrow> wf_json v \<Longrightarrow> wf_json_items (dict_set d k v)"
  by (induction d) auto

lemma wf_json_dict_set:
  "wf_json (JObj d) \<Longrightarrow> wf_json v \<Longrightarrow> wf_json (JObj (dict_set d k v))"
  using distinct_dict_set[of d k v] by (simp add: wf_json_items_dict_set dict_keys_def)

lemma wf_choices:
  "list_all (\<lambda>c. wf_json (c_name c) \<and> wf_json (c_value c)) cs \<Longrightarrow>
     wf_json_list (map (\<lambda>c. JObj (Choice_to_dict c)) cs)"
  by (induction cs) (simp_all add: Choice_to_dict_def)

lemma wf_Option_to_dict: "proper_option opt \<Longrightarrow> wf_json (JObj (Option_to_dict opt))"
proof -
  assume p: "proper_option opt"
  let ?base = "[(''type'', JInt (o_type opt)), (''name'', o_name opt),
                (''description'', o_description opt)]"
  let ?d1 = "if py_truthy (o_required opt) then dict_set ?base ''required'' (o_required opt) else ?base"
  have b: "wf_json (JObj ?base)" using p by (simp add: proper_option_def)
  have d1: "wf_json (JObj ?d1)"
    using wf_json_dict_set[OF b, of "o_required opt" "''required''"] b p
    by (simp add: proper_option_def del: wf_json.simps dict_set.simps)
  show ?thesis
  proof (cases "o_choices opt")
    case None
    with d1 show ?thesis by (simp add: Option_to_dict_def Let_def del: wf_json.simps dict_set.simps)
  next
    case (Some cs)
    with p have "wf_json (JList (map (\<lambda>c. JObj (Choice_to_dict c)) cs))"
      by (simp add: proper_option_def wf_choices)
    from wf_json_dict_set[OF d1 this, of "''choices''"] Some
    show ?thesis by (simp add: Option_to_dict_def Let_def del: wf_json.simps dict_set.simps)
  qed
qed

lemma wf_options:
  "list_all (\<lambda>kv. proper_option (snd kv)) opts \<Longrightarrow>
     wf_json_list (map (\<lambda>kv. JObj (Option_to_dict (snd kv))) opts)"
  by (induction opts) (simp_all add: wf_Option_to_dict del: wf_json.simps)

lemma to_dict_wf:
  "proper_command c \<Longrightarrow> wf_json (JObj (to_dict c))"
  "proper_subs subs \<Longrightarrow> wf_json_list (subs_to_dicts subs)"
proof (induction c and subs rule: to_dict_subs_to_dicts.induct)
  case (1 i name description g p c opts co ch cg sl)
  let ?base = "[(''name'', JStr name), (''description'', JStr description)]"
  have b: "wf_json (JObj ?base)" by simp
  show ?case
  proof (cases sl)
    case None
    from 1(2) have "wf_json (JList (map (\<lambda>kv. JObj (Option_to_dict (snd kv))) opts))"
      by (simp add: wf_options)
    from wf_json_dict_set[OF b this, of "''options''"] None b
    show ?thesis by (simp add: Let_def del: wf_json.simps dict_set.simps)
  next
    case (Some subs)
    with 1 have "subs \<noteq> [] \<Longrightarrow> wf_json (JList (subs_to_dicts subs))" by simp
    from wf_json_dict_set[OF b this, of "''options''"] Some b
    show ?thesis by (simp add: Let_def del: wf_json.simps dict_set.simps)
  qed
next
  case 2
  then show ?case by simp
next
  case (3 kv subs)
  then have h: "wf_json (JObj (to_dict (snd kv)))" "wf_json_list (subs_to_dicts subs)" by simp_all
  have "wf_json (JObj (dict_set (to_dict (snd kv)) ''type'' (JInt n)))" for n
    by (rule wf_json_dict_set[OF h(1)]) simp
  with h(2) show ?case by (simp del: wf_json.simps(2) dict_set.simps)
qed

subsection \<open>The loops of sync_cmds\<close>

lemma index_by_name_distinct_gen:
  "index_by_name acc ds = Inr done \<Longrightarrow> distinct (dict_keys acc) \<Longrightarrow> distinct (dict_keys done)"
proof (induction ds arbitrary: acc)
  case Nil
  then show ?case by simp
next
  case (Cons a ds)
  then show ?case
    by (auto split: json.splits option.splits intro: distinct_dict_set)
qed

lemma index_by_name_distinct: "index_by_name [] ds = Inr done \<Longrightarrow> distinct (dict_keys done)"
  using index_by_name_distinct_gen[of "[]" ds "done"] by (simp add: dict_keys_def)

lemma create_loop_frame:
  "for_each (create_one g) s names = Inr s' \<Longrightarrow>
     snd s' = snd s \<and> PATCH (fst s') = PATCH (fst s) \<and> DELETE (fst s') = DELETE (fst s)
     \<and> (m \<notin> set names \<longrightarrow> lookup2 (POST (fst s')) g' m = lookup2 (POST (fst s)) g' m)"
proof (induction names arbitrary: s)
  case Nil
  then show ?case by simp
next
  case (Cons n names)
  then obtain s1 where s1: "create_one g s n = Inr s1" and rest: "for_each (create_one g) s1 names = Inr s'"
    by (auto split: sum.splits)
  from s1 have "snd s1 = snd s \<and> PATCH (fst s1) = PATCH (fst s) \<and> DELETE (fst s1) = DELETE (fst s)
     \<and> (m \<noteq> n \<longrightarrow> lookup2 (POST (fst s1)) g' m = lookup2 (POST (fst s)) g' m)"
    by (auto simp: create_one_def lookup2_dict_set2 split: option.splits)
  with Cons.IH[OF rest] show ?case by simp
qed

lemma delete_loop_frame:
  "for_each (delete_one ti g done) s names = Inr s' \<Longrightarrow>
     snd s' = snd s \<and> PATCH (fst s') = PATCH (fst s) \<and> POST (fst s') = POST (fst s)
     \<and> (m \<notin> set names \<longrightarrow> lookup2 (DELETE (fst s')) g' m = lookup2 (DELETE (fst s)) g' m)"
proof (induction names arbitrary: s)
  case Nil
  then show ?case by simp
next
  case (Cons n names)
  then obtain s1 where s1: "delete_one ti g done s n = Inr s1"
    and rest: "for_each (delete_one ti g done) s1 names = Inr s'"
    by (auto split: sum.splits)
  from s1 have "snd s1 = snd s \<and> PATCH (fst s1) = PATCH (fst s) \<and> POST (fst s1) = POST (fst s)
     \<and> (m \<noteq> n \<longrightarrow> lookup2 (DELETE (fst s1)) g' m = lookup2 (DELETE (fst s)) g' m)"
    by (auto simp: delete_one_def lookup2_dict_set2 split: option.splits sum.splits)
  with Cons.IH[OF rest] show ?case by simp
qed

lemma update_one_frame:
  "update_one ti g done s n = Inr s1 \<Longrightarrow>
     POST (fst s1) = POST (fst s) \<and> DELETE (fst s1) = DELETE (fst s)
     \<and> (m \<noteq> n \<longrightarrow> dict_get (snd s1) m = dict_get (snd s) m
                  \<and> lookup2 (PATCH (fst s1)) g' m = lookup2 (PATCH (fst s)) g' m)"
  by (auto simp: update_one_def lookup2_dict_set2 dict_get_dict_set Let_def
      split: option.splits sum.splits if_splits)

lemma update_loop_frame:
  "for_each (update_one ti g done) s names = Inr s' \<Longrightarrow>
     POST (fst s') = POST (fst s) \<and> DELETE (fst s') = DELETE (fst s)
     \<and> (m \<notin> set names \<longrightarrow> dict_get (snd s') m = dict_get (snd s) m
                  \<and> lookup2 (PATCH (fst s')) g' m = lookup2 (PATCH (fst s)) g' m)"
proof (induction names arbitrary: s)
  case Nil
  then show ?case by simp
next
  case (Cons n names)
  then obtain s1 where s1: "update_one ti g done s n = Inr s1"
    and rest: "for_each (update_one ti g done) s1 names = Inr s'"
    by (auto split: sum.splits)
  from update_one_frame[OF s1, of m g'] Cons.IH[OF rest] show ?case by simp
qed

lemma update_one_hit:
  assumes "update_one ti g done s n = Inr s1"
    and "dict_get (snd s) n = Some c" and "dict_get done n = Some remote"
  shows "\<exists>i. remote_id ti remote = Inr i \<and>
           (if up_to_date remote (to_dict c)
            then dict_get (snd s1) n = Some (set_id c (Some i))
                 \<and> lookup2 (PATCH (fst s1)) g' n = lookup2 (PATCH (fst s)) g' n
            else dict_get (snd s1) n = Some c
                 \<and> lookup2 (PATCH (fst s1)) g n =
                     Some \<lparr>kw_json = Some (dict_del (to_dict c) ''name''), kw_id = Some i,
                           kw_cmd = Some (g, n)\<rparr>)"
  using assms
  by (auto simp: update_one_def lookup2_dict_set2 dict_get_dict_set Let_def
      split: option.splits sum.splits if_splits)

lemma update_loop_hit:
  assumes "for_each (update_one ti g done) s names = Inr s'"
    and "distinct names" and "n \<in> set names"
    and "dict_get (snd s) n = Some c" and "dict_get done n = Some remote"
  shows "\<exists>i. remote_id ti remote = Inr i \<and>
           (if up_to_date remote (to_dict c)
            then dict_get (snd s') n = Some (set_id c (Some i))
                 \<and> lookup2 (PATCH (fst s')) g n = lookup2 (PATCH (fst s)) g n
            else dict_get (snd s') n = Some c
                 \<and> lookup2 (PATCH (fst s')) g n =
                     Some \<lparr>kw_json = Some (dict_del (to_dict c) ''name''), kw_id = Some i,
                           kw_cmd = Some (g, n)\<rparr>)"
  using assms
proof (induction names arbitrary: s)
  case Nil
  then show ?case by simp
next
  case (Cons x names)
  then obtain s1 where s1: "update_one ti g done s x = Inr s1"
    and rest: "for_each (update_one ti g done) s1 names = Inr s'"
    by (auto split: sum.splits)
  show ?case
  proof (cases "x = n")
    case True
    then have notin: "n \<notin> set names" using Cons.prems by simp
    from update_loop_frame[OF rest, of n g] notin
    have same: "dict_get (snd s') n = dict_get (snd s1) n"
      "lookup2 (PATCH (fst s')) g n = lookup2 (PATCH (fst s1)) g n" by simp_all
    from update_one_hit[OF s1[unfolded True] Cons.prems(4) Cons.prems(5), of g] same
    show ?thesis by auto
  next
    case False
    from update_one_frame[OF s1, of n g] False
    have same: "dict_get (snd s1) n = dict_get (snd s) n"
      "lookup2 (PATCH (fst s1)) g n = lookup2 (PATCH (fst s)) g n" by simp_all
    have "n \<in> set names" "distinct names" using Cons.prems False by auto
    from Cons.IH[OF rest this(2) this(1)] same Cons.prems(4,5)
    show ?thesis by (auto split: if_splits)
  qed
qed

lemma update_loop_noop:
  assumes "\<forall>n\<in>set names. \<exists>c remote i. dict_get todo n = Some c \<and> dict_get done n = Some remote
             \<and> up_to_date remote (to_dict c) \<and> remote_id ti remote = Inr i"
  shows "\<exists>todo'. for_each (update_one ti g done) (st, todo) names = Inr (st, todo')"
  using assms
proof (induction names arbitrary: todo)
  case Nil
  then show ?case by simp
next
  case (Cons x names)
  then obtain c remote i where x: "dict_get todo x = Some c" "dict_get done x = Some remote"
    "up_to_date remote (to_dict c)" "remote_id ti remote = Inr i" by auto
  let ?todo1 = "dict_set todo x (set_id c (Some i))"
  have step: "update_one ti g done (st, todo) x = Inr (st, ?todo1)"
    using x by (simp add: update_one_def)
  have "\<forall>n\<in>set names. \<exists>c remote i. dict_get ?todo1 n = Some c \<and> dict_get done n = Some remote
             \<and> up_to_date remote (to_dict c) \<and> remote_id ti remote = Inr i"
  proof
    fix n assume "n \<in> set names"
    with Cons.prems obtain c' remote' i' where n: "dict_get todo n = Some c'"
      "dict_get done n = Some remote'" "up_to_date remote' (to_dict c')"
      "remote_id ti remote' = Inr i'" by auto
    show "\<exists>c remote i. dict_get ?todo1 n = Some c \<and> dict_get done n = Some remote
             \<and> up_to_date remote (to_dict c) \<and> remote_id ti remote = Inr i"
    proof (cases "n = x")
      case True
      with x n show ?thesis by (simp add: dict_get_dict_set to_dict_set_id)
    next
      case False
      with n show ?thesis by (simp add: dict_get_dict_set)
    qed
  qed
  from Cons.IH[OF this] step show ?case by simp
qed

subsection \<open>sync_cmds on names present on both sides\<close>

lemma wf_json_items_get: "wf_json_items d \<Longrightarrow> dict_get d k = Some x \<Longrightarrow> wf_json x"
  by (induction d) (auto simp: dict_get_def split: if_splits)

lemma get_eq_same:
  "wf_json_items b \<Longrightarrow> dict_get a k = dict_get b k \<Longrightarrow> get_eq a b k"
  by (cases "dict_get b k") (auto simp: get_eq_def intro: py_eq_refl_all(1) wf_json_items_get)

lemma dict_get_in_keys: "k \<in> set (dict_keys d) \<Longrightarrow> \<exists>v. dict_get d k = Some v"
  by (induction d) (auto simp: dict_keys_def dict_get_def)

lemma dict_get_keys: "dict_get d k = Some v \<Longrightarrow> k \<in> set (dict_keys d)"
  by (auto simp: dict_keys_def dict_get_def dest: map_of_SomeD intro: rev_image_eqI)

lemma to_dict_description: "dict_get (to_dict c) ''description'' = Some (JStr (cmd_description c))"
  by (cases c) (auto simp: Let_def dict_get_def split: option.splits)

lemma to_dict_name: "dict_get (to_dict c) ''name'' = Some (JStr (cmd_name c))"
  by (cases c) (auto simp: Let_def dict_get_def split: option.splits)

lemma dict_get_dict_del: "dict_get (dict_del d k) k' = (if k' = k then None else dict_get d k')"
  by (induction d) (auto simp: dict_get_def dict_del_def)

lemma sync_cmds_unfold:
  assumes "py_iter done_json = Inr done_list" and "index_by_name [] done_list = Inr done"
  shows "sync_cmds ti st todo done_json g =
     bind_exn (for_each (create_one g) (st, todo)
                 (to_create (dict_keys done) (dict_keys todo))) (\<lambda>s1.
     bind_exn (for_each (update_one ti g done) s1
                 (to_update (dict_keys done) (dict_keys todo))) (\<lambda>s2.
     for_each (delete_one ti g done) s2
       (to_delete (dict_keys done) (dict_keys todo))))"
  using assms by (simp add: sync_cmds_def bind_exn_def)

text \<open>
  C5. Reconciliation is idempotent. Suppose the platform's list for a scope has the names
  of the local commands of that scope and, for each of them, an entry that agrees with the
  command's serialised form on \<^verbatim>\<open>name\<close>, \<^verbatim>\<open>description\<close> and \<^verbatim>\<open>options\<close>, with an \<^verbatim>\<open>id\<close>
  that \<^verbatim>\<open>int\<close> accepts (the serialised form being a proper JSON value, as that of every
  proper command is). Then
  \<^verbatim>\<open>sync_cmds\<close> returns normally and leaves the state as it was: it queues no update, no
  creation and no deletion.
\<close>

theorem sync_cmds_idempotent:
  assumes iter: "py_iter done_json = Inr done_list"
    and idx: "index_by_name [] done_list = Inr done"
    and names: "set (dict_keys done) = set (dict_keys todo)"
    and same: "\<forall>n c remote. dict_get todo n = Some c \<and> dict_get done n = Some remote \<longrightarrow>
                 wf_json (JObj (to_dict c))
                 \<and> dict_get remote ''name'' = dict_get (to_dict c) ''name''
                 \<and> dict_get remote ''description'' = dict_get (to_dict c) ''description''
                 \<and> dict_get remote ''options'' = dict_get (to_dict c) ''options''
                 \<and> (\<exists>i. remote_id to_int remote = Inr i)"
  shows "\<exists>todo'. sync_cmds to_int st todo done_json guild_id = Inr (st, todo')"
proof -
  have cr: "to_create (dict_keys done) (dict_keys todo) = []"
    using names by (simp add: to_create_def)
  have de: "to_delete (dict_keys done) (dict_keys todo) = []"
    using names by (simp add: to_delete_def)
  have "\<forall>n\<in>set (to_update (dict_keys done) (dict_keys todo)).
          \<exists>c remote i. dict_get todo n = Some c \<and> dict_get done n = Some remote
             \<and> up_to_date remote (to_dict c) \<and> remote_id to_int remote = Inr i"
  proof
    fix n assume "n \<in> set (to_update (dict_keys done) (dict_keys todo))"
    then have "n \<in> set (dict_keys done)" "n \<in> set (dict_keys todo)"
      by (auto simp: to_update_def)
    then obtain c remote where cr: "dict_get todo n = Some c" "dict_get done n = Some remote"
      using dict_get_in_keys by metis
    with same have s: "wf_json (JObj (to_dict c))"
      "dict_get remote ''name'' = dict_get (to_dict c) ''name''"
      "dict_get remote ''description'' = dict_get (to_dict c) ''description''"
      "dict_get remote ''options'' = dict_get (to_dict c) ''options''"
      and "\<exists>i. remote_id to_int remote = Inr i" by blast+
    then obtain i where i: "remote_id to_int remote = Inr i" by blast
    have "up_to_date remote (to_dict c)"
      using s by (simp add: up_to_date_def get_eq_same)
    with cr i show "\<exists>c remote i. dict_get todo n = Some c \<and> dict_get done n = Some remote
             \<and> up_to_date remote (to_dict c) \<and> remote_id to_int remote = Inr i" by blast
  qed
  from update_loop_noop[OF this, of guild_id st]
  obtain todo' where "for_each (update_one to_int guild_id done) (st, todo)
      (to_update (dict_keys done) (dict_keys todo)) = Inr (st, todo')" by blast
  then show ?thesis
    by (simp add: sync_cmds_unfold[OF iter idx] cr de bind_exn_def)
qed

lemma cmd_id_set_id: "cmd_id (set_id c i) = i"
  by (simp add: set_id_def)

lemma up_to_date_get_eq:
  "up_to_date remote cmd_dict =
     (get_eq remote cmd_dict ''name'' \<and> get_eq remote cmd_dict ''description''
      \<and> get_eq remote cmd_dict ''options'')"
  by (simp add: up_to_date_def)

lemma to_dict_options:
  "cmd_slash c = None \<Longrightarrow> cmd_options c \<noteq> [] \<Longrightarrow>
     dict_get (to_dict c) ''options'' =
       Some (JList (map (\<lambda>kv. JObj (Option_to_dict (snd kv))) (cmd_options c)))"
  by (cases c) (simp add: dict_get_def)

text \<open>
  C4. For a name that is both in code and on the platform, in a scope with nothing queued
  yet, after \<^verbatim>\<open>sync_cmds\<close> has returned: if \<^verbatim>\<open>remote.get(k, ...) == local.get(k, ...)\<close> holds
  for each of the keys \<^verbatim>\<open>name\<close>, \<^verbatim>\<open>description\<close> and \<^verbatim>\<open>options\<close> of the remote entry and of the
  local serialised form, no operation is queued for the name and the local node is the
  command it was with its \<^verbatim>\<open>id\<close> now the remote id; if the comparison fails for one of the
  three keys, exactly the \<^verbatim>\<open>PATCH\<close> entry is queued for the name, with the remote id and a
  payload without \<^verbatim>\<open>name\<close>, nothing under \<^verbatim>\<open>POST\<close> or \<^verbatim>\<open>DELETE\<close>, and the local node is
  unchanged. A remote description that differs from the local one, and a remote entry
  without \<^verbatim>\<open>options\<close> for a command that has options, put the command in the second case.
  When the platform has exactly the names that the code has, as after a change of
  descriptions only, \<^verbatim>\<open>sync_cmds\<close> queues no creation and no deletion at all.
\<close>

theorem sync_cmds_both:
  assumes sync: "sync_cmds to_int st todo done_json guild_id = Inr (st', todo')"
    and iter: "py_iter done_json = Inr done_list"
    and idx: "index_by_name [] done_list = Inr done"
    and loc: "dict_get todo name = Some c"
    and rem: "dict_get done name = Some remote"
    and fresh: "dict_get (POST st) guild_id = None" "dict_get (PATCH st) guild_id = None"
      "dict_get (DELETE st) guild_id = None"
  shows "(get_eq remote (to_dict c) ''name'' \<and> get_eq remote (to_dict c) ''description''
            \<and> get_eq remote (to_dict c) ''options'' \<longrightarrow>
            (\<exists>i c'. remote_id to_int remote = Inr i \<and> dict_get todo' name = Some c'
                \<and> cmd_id c' = Some i \<and> c' = set_id c (Some i)
                \<and> c' = Command (Some i) (cmd_name c) (cmd_description c) (cmd_guild_id c)
                         (cmd_parent c) (cmd_ctx_arg c) (cmd_options c) (cmd_coro c)
                         (cmd_check c) (cmd_cog c) (cmd_slash c))
            \<and> lookup2 (POST st') guild_id name = None
            \<and> lookup2 (PATCH st') guild_id name = None
            \<and> lookup2 (DELETE st') guild_id name = None)
       \<and> (\<not> (get_eq remote (to_dict c) ''name'' \<and> get_eq remote (to_dict c) ''description''
               \<and> get_eq remote (to_dict c) ''options'') \<longrightarrow>
            (\<exists>i. remote_id to_int remote = Inr i
               \<and> lookup2 (PATCH st') guild_id name =
                   Some \<lparr>kw_json = Some (dict_del (to_dict c) ''name''), kw_id = Some i,
                         kw_cmd = Some (guild_id, name)\<rparr>)
            \<and> dict_get (dict_del (to_dict c) ''name'') ''name'' = None
            \<and> lookup2 (POST st') guild_id name = None
            \<and> lookup2 (DELETE st') guild_id name = None
            \<and> dict_get todo' name = Some c)
       \<and> (\<forall>d. dict_get remote ''description'' = Some (JStr d) \<and> d \<noteq> cmd_description c
              \<longrightarrow> \<not> get_eq remote (to_dict c) ''description''
                  \<and> (\<exists>i. lookup2 (PATCH st') guild_id name =
                          Some \<lparr>kw_json = Some (dict_del (to_dict c) ''name''), kw_id = Some i,
                                kw_cmd = Some (guild_id, name)\<rparr>))
       \<and> (dict_get remote ''options'' = None \<and> cmd_slash c = None \<and> cmd_options c \<noteq> []
              \<longrightarrow> \<not> get_eq remote (to_dict c) ''options''
                  \<and> (\<exists>i. lookup2 (PATCH st') guild_id name =
                          Some \<lparr>kw_json = Some (dict_del (to_dict c) ''name''), kw_id = Some i,
                                kw_cmd = Some (guild_id, name)\<rparr>))
       \<and> (set (dict_keys done) = set (dict_keys todo) \<longrightarrow>
            POST st' = POST st \<and> DELETE st' = DELETE st)"
proof -
  let ?dk = "dict_keys done" and ?tk = "dict_keys todo"
  let ?same = "get_eq remote (to_dict c) ''name'' \<and> get_eq remote (to_dict c) ''description''
               \<and> get_eq remote (to_dict c) ''options''"
  from sync obtain s1 s2 where
    c: "for_each (create_one guild_id) (st, todo) (to_create ?dk ?tk) = Inr s1" and
    u: "for_each (update_one to_int guild_id done) s1 (to_update ?dk ?tk) = Inr s2" and
    d: "for_each (delete_one to_int guild_id done) s2 (to_delete ?dk ?tk) = Inr (st', todo')"
    unfolding sync_cmds_unfold[OF iter idx] bind_exn_def by (auto split: sum.splits)
  have inboth: "name \<in> set ?dk" "name \<in> set ?tk"
    using loc rem by (auto intro: dict_get_keys)
  then have mem: "name \<notin> set (to_create ?dk ?tk)" "name \<in> set (to_update ?dk ?tk)"
    "name \<notin> set (to_delete ?dk ?tk)"
    by (auto simp: to_create_def to_update_def to_delete_def)
  have dist: "distinct (to_update ?dk ?tk)"
    using index_by_name_distinct[OF idx] by (simp add: to_update_def dict_keys_def)
  have st0: "lookup2 (POST st) guild_id name = None" "lookup2 (PATCH st) guild_id name = None"
    "lookup2 (DELETE st) guild_id name = None"
    using fresh by (simp_all add: lookup2_def)
  from create_loop_frame[OF c, of name guild_id] mem st0
  have f1: "snd s1 = todo" "PATCH (fst s1) = PATCH st" "DELETE (fst s1) = DELETE st"
    "lookup2 (POST (fst s1)) guild_id name = None" by simp_all
  from update_loop_frame[OF u, of name guild_id]
  have f2: "POST (fst s2) = POST (fst s1)" "DELETE (fst s2) = DELETE (fst s1)" by simp_all
  from delete_loop_frame[OF d, of name guild_id] mem
  have f3: "todo' = snd s2" "PATCH st' = PATCH (fst s2)" "POST st' = POST (fst s2)"
    "lookup2 (DELETE st') guild_id name = lookup2 (DELETE (fst s2)) guild_id name" by simp_all
  from update_loop_hit[OF u dist mem(2) _ rem, of c] loc f1
  obtain i where i: "remote_id to_int remote = Inr i"
    and hit: "if ?same
            then dict_get (snd s2) name = Some (set_id c (Some i))
                 \<and> lookup2 (PATCH (fst s2)) guild_id name = lookup2 (PATCH (fst s1)) guild_id name
            else dict_get (snd s2) name = Some c
                 \<and> lookup2 (PATCH (fst s2)) guild_id name =
                     Some \<lparr>kw_json = Some (dict_del (to_dict c) ''name''), kw_id = Some i,
                           kw_cmd = Some (guild_id, name)\<rparr>"
    unfolding up_to_date_get_eq by auto
  have A: "?same \<longrightarrow>
            (\<exists>i c'. remote_id to_int remote = Inr i \<and> dict_get todo' name = Some c'
                \<and> cmd_id c' = Some i \<and> c' = set_id c (Some i)
                \<and> c' = Command (Some i) (cmd_name c) (cmd_description c) (cmd_guild_id c)
                         (cmd_parent c) (cmd_ctx_arg c) (cmd_options c) (cmd_coro c)
                         (cmd_check c) (cmd_cog c) (cmd_slash c))
            \<and> lookup2 (POST st') guild_id name = None
            \<and> lookup2 (PATCH st') guild_id name = None
            \<and> lookup2 (DELETE st') guild_id name = None"
  proof
    assume same: ?same
    with hit have t: "dict_get todo' name = Some (set_id c (Some i))"
      and p: "lookup2 (PATCH st') guild_id name = None"
      using f1 f3 st0 by simp_all
    have e: "set_id c (Some i) = Command (Some i) (cmd_name c) (cmd_description c) (cmd_guild_id c)
                         (cmd_parent c) (cmd_ctx_arg c) (cmd_options c) (cmd_coro c)
                         (cmd_check c) (cmd_cog c) (cmd_slash c)"
      by (simp add: set_id_def)
    from i t e cmd_id_set_id[of c "Some i"]
    have "\<exists>i c'. remote_id to_int remote = Inr i \<and> dict_get todo' name = Some c'
                \<and> cmd_id c' = Some i \<and> c' = set_id c (Some i)
                \<and> c' = Command (Some i) (cmd_name c) (cmd_description c) (cmd_guild_id c)
                         (cmd_parent c) (cmd_ctx_arg c) (cmd_options c) (cmd_coro c)
                         (cmd_check c) (cmd_cog c) (cmd_slash c)"
      by blast
    moreover have "lookup2 (POST st') guild_id name = None" using f1 f2 f3 by simp
    moreover have "lookup2 (DELETE st') guild_id name = None" using f1 f2 f3 st0 by simp
    ultimately show "(\<exists>i c'. remote_id to_int remote = Inr i \<and> dict_get todo' name = Some c'
                \<and> cmd_id c' = Some i \<and> c' = set_id c (Some i)
                \<and> c' = Command (Some i) (cmd_name c) (cmd_description c) (cmd_guild_id c)
                         (cmd_parent c) (cmd_ctx_arg c) (cmd_options c) (cmd_coro c)
                         (cmd_check c) (cmd_cog c) (cmd_slash c))
            \<and> lookup2 (POST st') guild_id name = None
            \<and> lookup2 (PATCH st') guild_id name = None
            \<and> lookup2 (DELETE st') guild_id name = None"
      using p by blast
  qed
  have B: "\<not> ?same \<longrightarrow>
            (\<exists>i. remote_id to_int remote = Inr i
               \<and> lookup2 (PATCH st') guild_id name =
                   Some \<lparr>kw_json = Some (dict_del (to_dict c) ''name''), kw_id = Some i,
                         kw_cmd = Some (guild_id, name)\<rparr>)
            \<and> dict_get (dict_del (to_dict c) ''name'') ''name'' = None
            \<and> lookup2 (POST st') guild_id name = None
            \<and> lookup2 (DELETE st') guild_id name = None
            \<and> dict_get todo' name = Some c"
    using i hit f1 f2 f3 st0 by (auto simp: dict_get_dict_del)
  have C: "\<forall>d. dict_get remote ''description'' = Some (JStr d) \<and> d \<noteq> cmd_description c
              \<longrightarrow> \<not> get_eq remote (to_dict c) ''description''
                  \<and> (\<exists>i. lookup2 (PATCH st') guild_id name =
                          Some \<lparr>kw_json = Some (dict_del (to_dict c) ''name''), kw_id = Some i,
                                kw_cmd = Some (guild_id, name)\<rparr>)"
  proof (intro allI impI)
    fix d assume "dict_get remote ''description'' = Some (JStr d) \<and> d \<noteq> cmd_description c"
    then have n: "\<not> get_eq remote (to_dict c) ''description''"
      by (auto simp: get_eq_def to_dict_description)
    with B show "\<not> get_eq remote (to_dict c) ''description''
                  \<and> (\<exists>i. lookup2 (PATCH st') guild_id name =
                          Some \<lparr>kw_json = Some (dict_del (to_dict c) ''name''), kw_id = Some i,
                                kw_cmd = Some (guild_id, name)\<rparr>)"
      by blast
  qed
  have E: "dict_get remote ''options'' = None \<and> cmd_slash c = None \<and> cmd_options c \<noteq> []
              \<longrightarrow> \<not> get_eq remote (to_dict c) ''options''
                  \<and> (\<exists>i. lookup2 (PATCH st') guild_id name =
                          Some \<lparr>kw_json = Some (dict_del (to_dict c) ''name''), kw_id = Some i,
                                kw_cmd = Some (guild_id, name)\<rparr>)"
  proof
    assume "dict_get remote ''options'' = None \<and> cmd_slash c = None \<and> cmd_options c \<noteq> []"
    then have n: "\<not> get_eq remote (to_dict c) ''options''"
      by (simp add: get_eq_def to_dict_options)
    with B show "\<not> get_eq remote (to_dict c) ''options''
                  \<and> (\<exists>i. lookup2 (PATCH st') guild_id name =
                          Some \<lparr>kw_json = Some (dict_del (to_dict c) ''name''), kw_id = Some i,
                                kw_cmd = Some (guild_id, name)\<rparr>)"
      by blast
  qed
  have D: "POST st' = POST st \<and> DELETE st' = DELETE st"
    if names: "set (dict_keys done) = set (dict_keys todo)"
  proof -
    have cr: "to_create ?dk ?tk = []" using names by (simp add: to_create_def)
    have de: "to_delete ?dk ?tk = []" using names by (simp add: to_delete_def)
    from c cr have "s1 = (st, todo)" by simp
    moreover from d de have "s2 = (st', todo')" by simp
    ultimately show ?thesis using f2 by simp
  qed
  from A B C E D show ?thesis by blast
qed

subsection \<open>sync_cmds on the example commands\<close>

lemmas ex_sync_defs = sync_cmds_def bind_exn_def ex_remote_ping_old_def ex_remote_ping_def
  ex_ping_def dict_get_def dict_keys_def
  to_create_def to_update_def to_delete_def update_one_def up_to_date_def get_eq_def remote_id_def
  int_of_json_def digit_of_def init_state_def dict_set2_def dict_del_def set_id_def lookup2_def

theorem sync_cmds_both_witness:
  "sync_cmds int_of_json init_state [(''ping'', ex_ping)] (JList [JObj ex_remote_ping_old]) None =
     Inr (\<lparr>POST = [],
           PATCH = [(None, [(''ping'', \<lparr>kw_json = Some [(''description'', JStr ''Ping the bot'')],
                                        kw_id = Some 41, kw_cmd = Some (None, ''ping'')\<rparr>)])],
           DELETE = []\<rparr>, [(''ping'', ex_ping)])
   \<and> py_iter (JList [JObj ex_remote_ping_old]) = Inr [JObj ex_remote_ping_old]
   \<and> index_by_name [] [JObj ex_remote_ping_old] = Inr [(''ping'', ex_remote_ping_old)]
   \<and> dict_get [(''ping'', ex_ping)] ''ping'' = Some ex_ping
   \<and> dict_get [(''ping'', ex_remote_ping_old)] ''ping'' = Some ex_remote_ping_old
   \<and> dict_get (POST init_state) None = None
   \<and> dict_get (PATCH init_state) None = None
   \<and> dict_get (DELETE init_state) None = None
   \<and> \<not> get_eq ex_remote_ping_old (to_dict ex_ping) ''description''
   \<and> (\<exists>i. remote_id int_of_json ex_remote_ping_old = Inr i
          \<and> lookup2 (PATCH \<lparr>POST = [],
                   PATCH = [(None, [(''ping'', \<lparr>kw_json = Some [(''description'', JStr ''Ping the bot'')],
                                        kw_id = Some 41, kw_cmd = Some (None, ''ping'')\<rparr>)])],
                   DELETE = []\<rparr>) None ''ping'' =
              Some \<lparr>kw_json = Some (dict_del (to_dict ex_ping) ''name''), kw_id = Some i,
                    kw_cmd = Some (None, ''ping'')\<rparr>)
   \<and> sync_cmds int_of_json init_state [(''ping'', ex_ping)] (JList [JObj ex_remote_ping]) None =
       Inr (init_state, [(''ping'', set_id ex_ping (Some 41))])
   \<and> py_iter (JList [JObj ex_remote_ping]) = Inr [JObj ex_remote_ping]
   \<and> index_by_name [] [JObj ex_remote_ping] = Inr [(''ping'', ex_remote_ping)]
   \<and> dict_get [(''ping'', ex_remote_ping)] ''ping'' = Some ex_remote_ping
   \<and> get_eq ex_remote_ping (to_dict ex_ping) ''name''
   \<and> get_eq ex_remote_ping (to_dict ex_ping) ''description''
   \<and> get_eq ex_remote_ping (to_dict ex_ping) ''options''
   \<and> remote_id int_of_json ex_remote_ping = Inr 41
   \<and> (\<exists>c'. dict_get [(''ping'', set_id ex_ping (Some 41))] ''ping'' = Some c'
          \<and> cmd_id c' = Some 41
          \<and> c' = Command (Some 41) ''ping'' ''Ping the bot'' None None ''ctx'' [] ex_coro
                   DefaultCheck None None)
   \<and> lookup2 (PATCH init_state) None ''ping'' = None"
proof -
  let ?st' = "\<lparr>POST = [],
           PATCH = [(None, [(''ping'', \<lparr>kw_json = Some [(''description'', JStr ''Ping the bot'')],
                                        kw_id = Some 41, kw_cmd = Some (None, ''ping'')\<rparr>)])],
           DELETE = []\<rparr>"
  have h1: "sync_cmds int_of_json init_state [(''ping'', ex_ping)] (JList [JObj ex_remote_ping_old]) None =
     Inr (?st', [(''ping'', ex_ping)])"
    by (simp add: ex_sync_defs)
  have h2: "py_iter (JList [JObj ex_remote_ping_old]) = Inr [JObj ex_remote_ping_old]" by simp
  have h3: "index_by_name [] [JObj ex_remote_ping_old] = Inr [(''ping'', ex_remote_ping_old)]"
    by (simp add: ex_remote_ping_old_def dict_get_def)
  have h4: "dict_get [(''ping'', ex_ping)] ''ping'' = Some ex_ping" by (simp add: dict_get_def)
  have h5: "dict_get [(''ping'', ex_remote_ping_old)] ''ping'' = Some ex_remote_ping_old"
    by (simp add: dict_get_def)
  have h6: "dict_get (POST init_state) None = None" "dict_get (PATCH init_state) None = None"
    "dict_get (DELETE init_state) None = None" by (simp_all add: init_state_def dict_get_def)
  have h7: "\<not> get_eq ex_remote_ping_old (to_dict ex_ping) ''description''"
    by (simp add: ex_sync_defs)
  from sync_cmds_both[OF h1 h2 h3 h4 h5 h6] h7
  have c1: "\<exists>i. remote_id int_of_json ex_remote_ping_old = Inr i
          \<and> lookup2 (PATCH ?st') None ''ping'' =
              Some \<lparr>kw_json = Some (dict_del (to_dict ex_ping) ''name''), kw_id = Some i,
                    kw_cmd = Some (None, ''ping'')\<rparr>" by blast
  have g1: "sync_cmds int_of_json init_state [(''ping'', ex_ping)] (JList [JObj ex_remote_ping]) None =
       Inr (init_state, [(''ping'', set_id ex_ping (Some 41))])"
    by (simp add: ex_sync_defs)
  have g2: "py_iter (JList [JObj ex_remote_ping]) = Inr [JObj ex_remote_ping]" by simp
  have g3: "index_by_name [] [JObj ex_remote_ping] = Inr [(''ping'', ex_remote_ping)]"
    by (simp add: ex_remote_ping_def dict_get_def)
  have g5: "dict_get [(''ping'', ex_remote_ping)] ''ping'' = Some ex_remote_ping"
    by (simp add: dict_get_def)
  have g7: "get_eq ex_remote_ping (to_dict ex_ping) ''name''"
    "get_eq ex_remote_ping (to_dict ex_ping) ''description''"
    "get_eq ex_remote_ping (to_dict ex_ping) ''options''"
    by (simp_all add: ex_sync_defs)
  have g8: "remote_id int_of_json ex_remote_ping = Inr 41"
    by (simp add: ex_sync_defs)
  from sync_cmds_both[OF g1 g2 g3 h4 g5 h6] g7
  obtain i c' where r: "remote_id int_of_json ex_remote_ping = Inr i"
    "dict_get [(''ping'', set_id ex_ping (Some 41))] ''ping'' = Some c'"
    "cmd_id c' = Some i"
    "c' = Command (Some i) (cmd_name ex_ping) (cmd_description ex_ping) (cmd_guild_id ex_ping)
            (cmd_parent ex_ping) (cmd_ctx_arg ex_ping) (cmd_options ex_ping) (cmd_coro ex_ping)
            (cmd_check ex_ping) (cmd_cog ex_ping) (cmd_slash ex_ping)"
    and n: "lookup2 (PATCH init_state) None ''ping'' = None"
    by blast
  from r(1) g8 have i: "i = 41" by simp
  from r(4) have "c' = Command (Some 41) ''ping'' ''Ping the bot'' None None ''ctx'' [] ex_coro
                   DefaultCheck None None"
    unfolding i by (simp add: ex_ping_def)
  with r(2,3) i have c2: "\<exists>c'. dict_get [(''ping'', set_id ex_ping (Some 41))] ''ping'' = Some c'
          \<and> cmd_id c' = Some 41
          \<and> c' = Command (Some 41) ''ping'' ''Ping the bot'' None None ''ctx'' [] ex_coro
                   DefaultCheck None None"
    by blast
  show ?thesis using h1 h2 h3 h4 h5 h6 h7 c1 g1 g2 g3 g5 g7 g8 c2 n by blast
qed

theorem sync_cmds_idempotent_witness:
  "py_iter (JList [JObj ex_remote_ping]) = Inr [JObj ex_remote_ping]
   \<and> index_by_name [] [JObj ex_remote_ping] = Inr [(''ping'', ex_remote_ping)]
   \<and> set (dict_keys [(''ping'', ex_remote_ping)]) = set (dict_keys [(''ping'', ex_ping)])
   \<and> wf_json (JObj (to_dict ex_ping))
   \<and> dict_get ex_remote_ping ''name'' = dict_get (to_dict ex_ping) ''name''
   \<and> dict_get ex_remote_ping ''description'' = dict_get (to_dict ex_ping) ''description''
   \<and> dict_get ex_remote_ping ''options'' = dict_get (to_dict ex_ping) ''options''
   \<and> remote_id int_of_json ex_remote_ping = Inr 41
   \<and> (\<exists>todo'. sync_cmds int_of_json init_state [(''ping'', ex_ping)] (JList [JObj ex_remote_ping]) None
         = Inr (init_state, todo'))"
proof -
  have h1: "py_iter (JList [JObj ex_remote_ping]) = Inr [JObj ex_remote_ping]" by simp
  have h2: "index_by_name [] [JObj ex_remote_ping] = Inr [(''ping'', ex_remote_ping)]"
    by (simp add: ex_remote_ping_def dict_get_def)
  have h3: "set (dict_keys [(''ping'', ex_remote_ping)]) = set (dict_keys [(''ping'', ex_ping)])"
    by (simp add: dict_keys_def)
  have h4: "wf_json (JObj (to_dict ex_ping))" by (simp add: ex_ping_def)
  have h5: "dict_get ex_remote_ping ''name'' = dict_get (to_dict ex_ping) ''name''"
    "dict_get ex_remote_ping ''description'' = dict_get (to_dict ex_ping) ''description''"
    "dict_get ex_remote_ping ''options'' = dict_get (to_dict ex_ping) ''options''"
    by (simp_all add: ex_ping_def ex_remote_ping_def dict_get_def)
  have h6: "remote_id int_of_json ex_remote_ping = Inr 41"
    by (simp add: ex_sync_defs)
  have same: "\<forall>n c remote. dict_get [(''ping'', ex_ping)] n = Some c
                 \<and> dict_get [(''ping'', ex_remote_ping)] n = Some remote \<longrightarrow>
                 wf_json (JObj (to_dict c))
                 \<and> dict_get remote ''name'' = dict_get (to_dict c) ''name''
                 \<and> dict_get remote ''description'' = dict_get (to_dict c) ''description''
                 \<and> dict_get remote ''options'' = dict_get (to_dict c) ''options''
                 \<and> (\<exists>i. remote_id int_of_json remote = Inr i)"
    using h4 h5 h6 by (auto simp: dict_get_def split: if_splits)
  from sync_cmds_idempotent[OF h1 h2 h3 same, of init_state None]
  show ?thesis using h1 h2 h3 h4 h5 h6 by blast
qed

subsection \<open>process_command and the tasks of register_commands\<close>

lemma run_tasks_append:
  "run_tasks request ti (xs @ ys) w =
     (fst (run_tasks request ti xs w) @ fst (run_tasks request ti ys (snd (run_tasks request ti xs w))),
      snd (run_tasks request ti ys (snd (run_tasks request ti xs w))))"
  by (induction xs arbitrary: w) (simp_all add: Let_def)

lemma process_command_log_irrelevant:
  "w_guilds w = w_guilds w' \<Longrightarrow>
     fst (process_command request ti name g rt kwargs w) = fst (process_command request ti name g rt kwargs w')
     \<and> w_guilds (snd (process_command request ti name g rt kwargs w))
         = w_guilds (snd (process_command request ti name g rt kwargs w'))"
  by (auto simp: process_command_def Let_def split: sum.splits option.splits)

lemma run_tasks_log_irrelevant:
  "w_guilds w = w_guilds w' \<Longrightarrow>
     fst (run_tasks request ti ts w) = fst (run_tasks request ti ts w')
     \<and> w_guilds (snd (run_tasks request ti ts w)) = w_guilds (snd (run_tasks request ti ts w'))"
proof (induction ts arbitrary: w w')
  case Nil
  then show ?case by simp
next
  case (Cons t ts)
  let ?p = "\<lambda>w. process_command request ti (t_name t) (t_guild t) (t_route t) (t_kwargs t) w"
  from process_command_log_irrelevant[OF Cons.prems]
  have h: "fst (?p w) = fst (?p w')" "w_guilds (snd (?p w)) = w_guilds (snd (?p w'))" by blast+
  from Cons.IH[OF h(2)] h(1) show ?case by (simp add: Let_def)
qed

lemma process_command_failure:
  "request rt (kwargs\<lparr>kw_cmd := None\<rparr>) = Inl HTTPException \<Longrightarrow>
     process_command request ti name g rt kwargs w =
       (None, w\<lparr>w_log := w_log w @ [LogException name, LogDebug (r_method rt) name g]\<rparr>)"
  by (simp add: process_command_def)

lemma lookup2_write_id:
  "lookup2 (write_id guilds ref i) (fst ref) (snd ref) =
     map_option (\<lambda>c. set_id c (Some i)) (lookup2 guilds (fst ref) (snd ref))"
  by (simp add: write_id_def lookup2_dict_set2 split: option.splits)

lemma process_command_success:
  "request rt (kwargs\<lparr>kw_cmd := None\<rparr>) = Inr data \<Longrightarrow> kw_cmd kwargs = Some ref \<Longrightarrow>
   subscript data ''id'' = Inr v \<Longrightarrow> ti v = Inr i \<Longrightarrow>
     process_command request ti name g rt kwargs w =
       (None, w\<lparr>w_log := w_log w @ [LogDebug (r_method rt) name g],
                w_guilds := write_id (w_guilds w) ref i\<rparr>)"
  by (simp add: process_command_def bind_exn_def)

lemma tasks_of_member:
  "lookup2 guilds g n = Some kw \<Longrightarrow> make_task method g (n, kw) \<in> set (tasks_of method guilds)"
proof -
  assume l: "lookup2 guilds g n = Some kw"
  then obtain d where d: "dict_get guilds g = Some d" "dict_get d n = Some kw"
    by (auto simp: lookup2_def split: option.splits)
  then have "(g, d) \<in> set guilds" "(n, kw) \<in> set d"
    by (auto simp: dict_get_def dest: map_of_SomeD)
  then show ?thesis
    by (force simp: tasks_of_def)
qed

lemma register_commands_run:
  "application_info = Inr a \<Longrightarrow> sync_scopes request ti debug_guild slash = Inr s \<Longrightarrow>
     register_commands application_info request ti debug_guild slash =
       Inr (run_tasks request ti (all_tasks (fst s)) \<lparr>w_guilds = snd s, w_log = []\<rparr>)"
  by (simp add: register_commands_def bind_exn_def)

lemma length_run_tasks: "length (fst (run_tasks request ti ts w)) = length ts"
  by (induction ts arbitrary: w) (simp_all add: Let_def)

text \<open>
  C7. Applying the queued operations is fire-and-forget. A request that raises
  \<^verbatim>\<open>HTTPException\<close> makes \<^verbatim>\<open>process_command\<close> log the exception and return normally, the
  commands untouched. In a run of tasks such a task contributes the outcome \<^verbatim>\<open>None\<close>, every
  task before and after it still runs, and the commands end as they would have without
  it, so the failed command keeps the id it had. A request that succeeds for an operation
  with a \<^verbatim>\<open>cmd\<close> writes the returned id into that command: the command is then the one it
  was with its \<^verbatim>\<open>id\<close> the integer of the answer. Every task of a run has an outcome.

  \<^verbatim>\<open>register_commands\<close>, once the scopes are synchronised, runs the tasks of the state that
  the synchronisation has queued, on the commands it has left; every operation queued
  under \<^verbatim>\<open>POST\<close>, \<^verbatim>\<open>PATCH\<close> or \<^verbatim>\<open>DELETE\<close> is one of these tasks. When the request of one of
  them raises \<^verbatim>\<open>HTTPException\<close>, \<^verbatim>\<open>register_commands\<close> still returns normally, with an
  outcome for every task, \<^verbatim>\<open>None\<close> for the failed one, and with the commands as the other
  tasks alone would have left them.
\<close>

theorem process_command_isolated:
  "(request rt (kwargs\<lparr>kw_cmd := None\<rparr>) = Inl HTTPException \<longrightarrow>
      process_command request to_int name g rt kwargs w =
        (None, w\<lparr>w_log := w_log w @ [LogException name, LogDebug (r_method rt) name g]\<rparr>))
   \<and> (request (t_route t) ((t_kwargs t)\<lparr>kw_cmd := None\<rparr>) = Inl HTTPException \<longrightarrow>
        fst (run_tasks request to_int (ts1 @ t # ts2) w) =
          fst (run_tasks request to_int ts1 w) @ None #
          fst (run_tasks request to_int ts2 (snd (run_tasks request to_int ts1 w)))
        \<and> w_guilds (snd (run_tasks request to_int (ts1 @ t # ts2) w)) =
            w_guilds (snd (run_tasks request to_int (ts1 @ ts2) w)))
   \<and> (request rt (kwargs\<lparr>kw_cmd := None\<rparr>) = Inr data \<and> kw_cmd kwargs = Some ref
        \<and> subscript data ''id'' = Inr v \<and> to_int v = Inr i
        \<and> lookup2 (w_guilds w) (fst ref) (snd ref) = Some c \<longrightarrow>
        fst (process_command request to_int name g rt kwargs w) = None
        \<and> (\<exists>c'. lookup2 (w_guilds (snd (process_command request to_int name g rt kwargs w)))
                   (fst ref) (snd ref) = Some c'
               \<and> cmd_id c' = Some i \<and> c' = set_id c (Some i)
               \<and> c' = Command (Some i) (cmd_name c) (cmd_description c) (cmd_guild_id c)
                        (cmd_parent c) (cmd_ctx_arg c) (cmd_options c) (cmd_coro c)
                        (cmd_check c) (cmd_cog c) (cmd_slash c)))
   \<and> length (fst (run_tasks request to_int ts w)) = length ts
   \<and> (application_info = Inr a \<and> sync_scopes request to_int debug_guild slash = Inr s \<longrightarrow>
        register_commands application_info request to_int debug_guild slash =
          Inr (run_tasks request to_int (all_tasks (fst s)) \<lparr>w_guilds = snd s, w_log = []\<rparr>))
   \<and> (application_info = Inr a \<and> sync_scopes request to_int debug_guild slash = Inr s
        \<and> all_tasks (fst s) = ts1 @ t # ts2
        \<and> request (t_route t) ((t_kwargs t)\<lparr>kw_cmd := None\<rparr>) = Inl HTTPException \<longrightarrow>
        (\<exists>outs w'.
           register_commands application_info request to_int debug_guild slash = Inr (outs, w')
           \<and> length outs = length (all_tasks (fst s))
           \<and> outs = fst (run_tasks request to_int ts1 \<lparr>w_guilds = snd s, w_log = []\<rparr>) @ None #
                    fst (run_tasks request to_int ts2
                           (snd (run_tasks request to_int ts1 \<lparr>w_guilds = snd s, w_log = []\<rparr>)))
           \<and> w_guilds w' =
               w_guilds (snd (run_tasks request to_int (ts1 @ ts2) \<lparr>w_guilds = snd s, w_log = []\<rparr>))))
   \<and> (lookup2 (POST st) g n = Some kw \<longrightarrow> make_task ''POST'' g (n, kw) \<in> set (all_tasks st))
   \<and> (lookup2 (PATCH st) g n = Some kw \<longrightarrow> make_task ''PATCH'' g (n, kw) \<in> set (all_tasks st))
   \<and> (lookup2 (DELETE st) g n = Some kw \<longrightarrow> make_task ''DELETE'' g (n, kw) \<in> set (all_tasks st))"
proof -
  have A: "process_command request to_int name g rt kwargs w =
        (None, w\<lparr>w_log := w_log w @ [LogException name, LogDebug (r_method rt) name g]\<rparr>)"
    if "request rt (kwargs\<lparr>kw_cmd := None\<rparr>) = Inl HTTPException"
    using that by (rule process_command_failure)
  have B: "fst (run_tasks request to_int (ts1 @ t # ts2) w) =
          fst (run_tasks request to_int ts1 w) @ None #
          fst (run_tasks request to_int ts2 (snd (run_tasks request to_int ts1 w)))
        \<and> w_guilds (snd (run_tasks request to_int (ts1 @ t # ts2) w)) =
            w_guilds (snd (run_tasks request to_int (ts1 @ ts2) w))"
    if fail: "request (t_route t) ((t_kwargs t)\<lparr>kw_cmd := None\<rparr>) = Inl HTTPException" for w
  proof -
    let ?w1 = "snd (run_tasks request to_int ts1 w)"
    let ?w2 = "?w1\<lparr>w_log := w_log ?w1 @ [LogException (t_name t),
                  LogDebug (r_method (t_route t)) (t_name t) (t_guild t)]\<rparr>"
    have p: "process_command request to_int (t_name t) (t_guild t) (t_route t) (t_kwargs t) ?w1
               = (None, ?w2)"
      using fail by (rule process_command_failure)
    have "w_guilds ?w2 = w_guilds ?w1" by simp
    from run_tasks_log_irrelevant[OF this, of request to_int ts2]
    show ?thesis by (simp add: run_tasks_append p Let_def)
  qed
  have C: "fst (process_command request to_int name g rt kwargs w) = None
        \<and> (\<exists>c'. lookup2 (w_guilds (snd (process_command request to_int name g rt kwargs w)))
                   (fst ref) (snd ref) = Some c'
               \<and> cmd_id c' = Some i \<and> c' = set_id c (Some i)
               \<and> c' = Command (Some i) (cmd_name c) (cmd_description c) (cmd_guild_id c)
                        (cmd_parent c) (cmd_ctx_arg c) (cmd_options c) (cmd_coro c)
                        (cmd_check c) (cmd_cog c) (cmd_slash c))"
    if ok: "request rt (kwargs\<lparr>kw_cmd := None\<rparr>) = Inr data" "kw_cmd kwargs = Some ref"
      "subscript data ''id'' = Inr v" "to_int v = Inr i"
      and c: "lookup2 (w_guilds w) (fst ref) (snd ref) = Some c"
  proof -
    have p: "process_command request to_int name g rt kwargs w =
       (None, w\<lparr>w_log := w_log w @ [LogDebug (r_method rt) name g],
                w_guilds := write_id (w_guilds w) ref i\<rparr>)"
      using ok by (rule process_command_success)
    have l: "lookup2 (w_guilds (snd (process_command request to_int name g rt kwargs w)))
                   (fst ref) (snd ref) = Some (set_id c (Some i))"
      using lookup2_write_id[of "w_guilds w" ref i] c by (simp add: p)
    have e: "set_id c (Some i) = Command (Some i) (cmd_name c) (cmd_description c) (cmd_guild_id c)
                        (cmd_parent c) (cmd_ctx_arg c) (cmd_options c) (cmd_coro c)
                        (cmd_check c) (cmd_cog c) (cmd_slash c)"
      by (simp add: set_id_def)
    from l e cmd_id_set_id[of c "Some i"] p show ?thesis by simp
  qed
  have D: "length (fst (run_tasks request to_int ts w)) = length ts"
    by (rule length_run_tasks)
  have E: "register_commands application_info request to_int debug_guild slash =
          Inr (run_tasks request to_int (all_tasks (fst s)) \<lparr>w_guilds = snd s, w_log = []\<rparr>)"
    if "application_info = Inr a" "sync_scopes request to_int debug_guild slash = Inr s"
    using that by (rule register_commands_run)
  have F: "\<exists>outs w'.
           register_commands application_info request to_int debug_guild slash = Inr (outs, w')
           \<and> length outs = length (all_tasks (fst s))
           \<and> outs = fst (run_tasks request to_int ts1 \<lparr>w_guilds = snd s, w_log = []\<rparr>) @ None #
                    fst (run_tasks request to_int ts2
                           (snd (run_tasks request to_int ts1 \<lparr>w_guilds = snd s, w_log = []\<rparr>)))
           \<and> w_guilds w' =
               w_guilds (snd (run_tasks request to_int (ts1 @ ts2) \<lparr>w_guilds = snd s, w_log = []\<rparr>))"
    if r: "application_info = Inr a" "sync_scopes request to_int debug_guild slash = Inr s"
      and ts: "all_tasks (fst s) = ts1 @ t # ts2"
      and fail: "request (t_route t) ((t_kwargs t)\<lparr>kw_cmd := None\<rparr>) = Inl HTTPException"
  proof -
    let ?w0 = "\<lparr>w_guilds = snd s, w_log = []\<rparr>"
    let ?r = "run_tasks request to_int (all_tasks (fst s)) ?w0"
    have reg: "register_commands application_info request to_int debug_guild slash = Inr (fst ?r, snd ?r)"
      using register_commands_run[OF r] by simp
    have len: "length (fst ?r) = length (all_tasks (fst s))" by (rule length_run_tasks)
    from B[OF fail, of ?w0] ts
    have iso: "fst ?r = fst (run_tasks request to_int ts1 ?w0) @ None #
                    fst (run_tasks request to_int ts2 (snd (run_tasks request to_int ts1 ?w0)))"
      "w_guilds (snd ?r) = w_guilds (snd (run_tasks request to_int (ts1 @ ts2) ?w0))"
      by simp_all
    from reg len iso show ?thesis by blast
  qed
  have G: "make_task ''POST'' g (n, kw) \<in> set (all_tasks st)" if "lookup2 (POST st) g n = Some kw"
    using tasks_of_member[OF that, of "''POST''"] by (simp add: all_tasks_def)
  have H: "make_task ''PATCH'' g (n, kw) \<in> set (all_tasks st)" if "lookup2 (PATCH st) g n = Some kw"
    using tasks_of_member[OF that, of "''PATCH''"] by (simp add: all_tasks_def)
  have I: "make_task ''DELETE'' g (n, kw) \<in> set (all_tasks st)" if "lookup2 (DELETE st) g n = Some kw"
    using tasks_of_member[OF that, of "''DELETE''"] by (simp add: all_tasks_def)
  from A B[of w] C D E F G H I show ?thesis by blast
qed

lemmas ex_task_defs = ex_request_def ex_world_def ex_post_echo_def ex_patch_ping_def ex_echo_def
  ex_ping_def ex_coro_def process_command_def bind_exn_def subscript_def int_of_json_def
  digit_of_def write_id_def lookup2_def dict_set2_def dict_get_def set_id_def

theorem process_command_isolated_witness:
  "ex_request (t_route ex_post_echo) ((t_kwargs ex_post_echo)\<lparr>kw_cmd := None\<rparr>) = Inl HTTPException
   \<and> process_command ex_request int_of_json ''echo'' None (t_route ex_post_echo)
        (t_kwargs ex_post_echo) ex_world =
        (None, ex_world\<lparr>w_log := [LogException ''echo'', LogDebug ''POST'' ''echo'' None]\<rparr>)
   \<and> fst (run_tasks ex_request int_of_json [ex_post_echo, ex_patch_ping] ex_world) = [None, None]
   \<and> w_guilds (snd (run_tasks ex_request int_of_json [ex_post_echo, ex_patch_ping] ex_world)) =
       w_guilds (snd (run_tasks ex_request int_of_json [ex_patch_ping] ex_world))
   \<and> lookup2 (w_guilds (snd (run_tasks ex_request int_of_json [ex_post_echo, ex_patch_ping] ex_world)))
        None ''echo'' = Some ex_echo
   \<and> lookup2 (w_guilds (snd (run_tasks ex_request int_of_json [ex_post_echo, ex_patch_ping] ex_world)))
        None ''ping'' = Some (set_id ex_ping (Some 41))
   \<and> cmd_id ex_echo = None
   \<and> sync_scopes ex_request int_of_json None [ex_ping, ex_echo] =
       Inr (\<lparr>POST = [(None, [(''echo'', \<lparr>kw_json = Some (to_dict ex_echo), kw_id = None,
                                          kw_cmd = Some (None, ''echo'')\<rparr>)])],
             PATCH = [(None, [(''ping'', \<lparr>kw_json = Some [(''description'', JStr ''Ping the bot'')],
                                          kw_id = Some 41, kw_cmd = Some (None, ''ping'')\<rparr>)])],
             DELETE = []\<rparr>,
            w_guilds ex_world)
   \<and> all_tasks \<lparr>POST = [(None, [(''echo'', \<lparr>kw_json = Some (to_dict ex_echo), kw_id = None,
                                          kw_cmd = Some (None, ''echo'')\<rparr>)])],
             PATCH = [(None, [(''ping'', \<lparr>kw_json = Some [(''description'', JStr ''Ping the bot'')],
                                          kw_id = Some 41, kw_cmd = Some (None, ''ping'')\<rparr>)])],
             DELETE = []\<rparr> = [ex_post_echo, ex_patch_ping]
   \<and> (\<exists>w'. register_commands (Inr 1) ex_request int_of_json None [ex_ping, ex_echo] =
              Inr ([None, None], w')
          \<and> w_guilds w' = w_guilds (snd (run_tasks ex_request int_of_json [ex_patch_ping] ex_world))
          \<and> (\<exists>c'. lookup2 (w_guilds w') None ''ping'' = Some c' \<and> cmd_id c' = Some 41)
          \<and> lookup2 (w_guilds w') None ''echo'' = Some ex_echo)
   \<and> ex_request_ok (t_route ex_post_echo) ((t_kwargs ex_post_echo)\<lparr>kw_cmd := None\<rparr>) =
       Inr (JObj [(''id'', JStr ''42'')])
   \<and> kw_cmd (t_kwargs ex_post_echo) = Some (None, ''echo'')
   \<and> subscript (JObj [(''id'', JStr ''42'')]) ''id'' = Inr (JStr ''42'')
   \<and> int_of_json (JStr ''42'') = Inr 42
   \<and> lookup2 (w_guilds ex_world) None ''echo'' = Some ex_echo
   \<and> fst (process_command ex_request_ok int_of_json ''echo'' None (t_route ex_post_echo)
             (t_kwargs ex_post_echo) ex_world) = None
   \<and> (\<exists>c'. lookup2 (w_guilds (snd (process_command ex_request_ok int_of_json ''echo'' None
                                         (t_route ex_post_echo) (t_kwargs ex_post_echo) ex_world)))
               None ''echo'' = Some c'
          \<and> cmd_id c' = Some 42)"
proof -
  let ?st = "\<lparr>POST = [(None, [(''echo'', \<lparr>kw_json = Some (to_dict ex_echo), kw_id = None,
                                          kw_cmd = Some (None, ''echo'')\<rparr>)])],
             PATCH = [(None, [(''ping'', \<lparr>kw_json = Some [(''description'', JStr ''Ping the bot'')],
                                          kw_id = Some 41, kw_cmd = Some (None, ''ping'')\<rparr>)])],
             DELETE = []\<rparr>"
  have h: "ex_request (t_route ex_post_echo) ((t_kwargs ex_post_echo)\<lparr>kw_cmd := None\<rparr>) = Inl HTTPException"
    by (simp add: ex_request_def ex_post_echo_def)
  have r: "run_tasks ex_request int_of_json [ex_patch_ping] ex_world =
            ([None], \<lparr>w_guilds = [(None, [(''ping'', set_id ex_ping (Some 41)), (''echo'', ex_echo)])],
                      w_log = [LogDebug ''PATCH'' ''ping'' None]\<rparr>)"
    by (simp add: ex_task_defs Let_def)
  have sy: "sync_scopes ex_request int_of_json None [ex_ping, ex_echo] = Inr (?st, w_guilds ex_world)"
    by (simp add: sync_scopes_def group_by_guild_def sync_guild_def get_route_def no_kwargs_def
        ex_sync_defs ex_task_defs set_guild_id_def create_one_def Let_def)
  have at: "all_tasks ?st = [ex_post_echo, ex_patch_ping]"
    by (simp add: all_tasks_def tasks_of_def make_task_def ex_post_echo_def ex_patch_ping_def)
  have w0: "\<lparr>w_guilds = w_guilds ex_world, w_log = []\<rparr> = ex_world"
    by (simp add: ex_world_def)
  have e0: "cmd_id ex_echo = None" by (simp add: ex_echo_def)
  note T = process_command_isolated[where request = ex_request and rt = "t_route ex_post_echo"
      and kwargs = "t_kwargs ex_post_echo" and to_int = int_of_json and name = "''echo''"
      and g = None and w = ex_world and t = ex_post_echo and ?ts1.0 = "[]"
      and ?ts2.0 = "[ex_patch_ping]" and application_info = "Inr 1" and a = 1
      and debug_guild = None and slash = "[ex_ping, ex_echo]" and s = "(?st, w_guilds ex_world)"]
  from T h
  have c: "process_command ex_request int_of_json ''echo'' None (t_route ex_post_echo)
        (t_kwargs ex_post_echo) ex_world =
        (None, ex_world\<lparr>w_log := w_log ex_world @ [LogException ''echo'',
            LogDebug (r_method (t_route ex_post_echo)) ''echo'' None]\<rparr>)"
    "fst (run_tasks ex_request int_of_json ([] @ ex_post_echo # [ex_patch_ping]) ex_world) =
          fst (run_tasks ex_request int_of_json [] ex_world) @ None #
          fst (run_tasks ex_request int_of_json [ex_patch_ping] (snd (run_tasks ex_request int_of_json [] ex_world)))"
    "w_guilds (snd (run_tasks ex_request int_of_json ([] @ ex_post_echo # [ex_patch_ping]) ex_world)) =
            w_guilds (snd (run_tasks ex_request int_of_json ([] @ [ex_patch_ping]) ex_world))"
    by blast+
  have c1: "process_command ex_request int_of_json ''echo'' None (t_route ex_post_echo)
        (t_kwargs ex_post_echo) ex_world =
        (None, ex_world\<lparr>w_log := [LogException ''echo'', LogDebug ''POST'' ''echo'' None]\<rparr>)"
    using c(1) by (simp add: ex_world_def ex_post_echo_def)
  have c2: "fst (run_tasks ex_request int_of_json [ex_post_echo, ex_patch_ping] ex_world) = [None, None]"
    using c(2) r by simp
  have c3: "w_guilds (snd (run_tasks ex_request int_of_json [ex_post_echo, ex_patch_ping] ex_world)) =
       w_guilds (snd (run_tasks ex_request int_of_json [ex_patch_ping] ex_world))"
    using c(3) by simp
  have c4: "lookup2 (w_guilds (snd (run_tasks ex_request int_of_json [ex_post_echo, ex_patch_ping] ex_world)))
        None ''echo'' = Some ex_echo"
     "lookup2 (w_guilds (snd (run_tasks ex_request int_of_json [ex_post_echo, ex_patch_ping] ex_world)))
        None ''ping'' = Some (set_id ex_ping (Some 41))"
    unfolding c3 r by (simp_all add: lookup2_def dict_get_def)
  have at': "all_tasks (fst (?st, w_guilds ex_world)) = [] @ ex_post_echo # [ex_patch_ping]"
    using at by simp
  from T sy at' h
  obtain outs w' where reg:
    "register_commands (Inr 1) ex_request int_of_json None [ex_ping, ex_echo] = Inr (outs, w')"
    "outs = fst (run_tasks ex_request int_of_json []
                   \<lparr>w_guilds = snd (?st, w_guilds ex_world), w_log = []\<rparr>) @ None #
            fst (run_tasks ex_request int_of_json [ex_patch_ping]
                   (snd (run_tasks ex_request int_of_json []
                           \<lparr>w_guilds = snd (?st, w_guilds ex_world), w_log = []\<rparr>)))"
    "w_guilds w' = w_guilds (snd (run_tasks ex_request int_of_json ([] @ [ex_patch_ping])
                                    \<lparr>w_guilds = snd (?st, w_guilds ex_world), w_log = []\<rparr>))"
    by blast
  have r0: "run_tasks ex_request int_of_json [] ex_world = ([], ex_world)" by simp
  from reg(2) have o: "outs = [None, None]" unfolding snd_conv w0 r0 r by simp
  from reg(3) have g: "w_guilds w' = w_guilds (snd (run_tasks ex_request int_of_json [ex_patch_ping] ex_world))"
    by (simp add: w0)
  have p: "\<exists>c'. lookup2 (w_guilds w') None ''ping'' = Some c' \<and> cmd_id c' = Some 41"
    unfolding g r by (simp add: lookup2_def dict_get_def set_id_def)
  have q: "lookup2 (w_guilds w') None ''echo'' = Some ex_echo"
    unfolding g r by (simp add: lookup2_def dict_get_def)
  from reg(1) o g p q
  have c5: "\<exists>w'. register_commands (Inr 1) ex_request int_of_json None [ex_ping, ex_echo] =
              Inr ([None, None], w')
          \<and> w_guilds w' = w_guilds (snd (run_tasks ex_request int_of_json [ex_patch_ping] ex_world))
          \<and> (\<exists>c'. lookup2 (w_guilds w') None ''ping'' = Some c' \<and> cmd_id c' = Some 41)
          \<and> lookup2 (w_guilds w') None ''echo'' = Some ex_echo"
    by blast
  have k1: "ex_request_ok (t_route ex_post_echo) ((t_kwargs ex_post_echo)\<lparr>kw_cmd := None\<rparr>) =
       Inr (JObj [(''id'', JStr ''42'')])"
    by (simp add: ex_request_ok_def ex_post_echo_def)
  have k2: "kw_cmd (t_kwargs ex_post_echo) = Some (None, ''echo'')"
    by (simp add: ex_post_echo_def)
  have k3: "subscript (JObj [(''id'', JStr ''42'')]) ''id'' = Inr (JStr ''42'')"
    by (simp add: subscript_def dict_get_def)
  have k4: "int_of_json (JStr ''42'') = Inr 42"
    by (simp add: int_of_json_def digit_of_def)
  have k5: "lookup2 (w_guilds ex_world) None ''echo'' = Some ex_echo"
    by (simp add: ex_world_def lookup2_def dict_get_def)
  from k5 have k5': "lookup2 (w_guilds ex_world) (fst (None :: int option, ''echo''))
                       (snd (None :: int option, ''echo'')) = Some ex_echo" by simp
  from process_command_isolated[where request = ex_request_ok and rt = "t_route ex_post_echo"
      and kwargs = "t_kwargs ex_post_echo" and to_int = int_of_json and name = "''echo''"
      and g = None and w = ex_world and data = "JObj [(''id'', JStr ''42'')]"
      and ref = "(None, ''echo'')" and v = "JStr ''42''" and i = 42 and c = ex_echo]
    k1 k2 k3 k4 k5'
  have k6: "fst (process_command ex_request_ok int_of_json ''echo'' None (t_route ex_post_echo)
             (t_kwargs ex_post_echo) ex_world) = None"
    and "\<exists>c'. lookup2 (w_guilds (snd (process_command ex_request_ok int_of_json ''echo'' None
                                         (t_route ex_post_echo) (t_kwargs ex_post_echo) ex_world)))
               (fst (None :: int option, ''echo'')) (snd (None :: int option, ''echo'')) = Some c'
          \<and> cmd_id c' = Some 42"
    by blast+
  then have k7: "\<exists>c'. lookup2 (w_guilds (snd (process_command ex_request_ok int_of_json ''echo'' None
                                         (t_route ex_post_echo) (t_kwargs ex_post_echo) ex_world)))
               None ''echo'' = Some c'
          \<and> cmd_id c' = Some 42"
    by simp
  show ?thesis using h c1 c2 c3 c4 e0 sy at c5 k1 k2 k3 k4 k5 k6 k7 by blast
qed

text \<open>
  The whole of \<^verbatim>\<open>register_commands\<close> on the example: \<^verbatim>\<open>ping\<close> is on the platform with an old
  description and \<^verbatim>\<open>echo\<close> is not there. The creation of \<^verbatim>\<open>echo\<close> is refused and logged,
  the update of \<^verbatim>\<open>ping\<close> still goes through, \<^verbatim>\<open>ping\<close> has the id 41 and \<^verbatim>\<open>echo\<close> has none.
\<close>

lemma register_commands_example:
  "register_commands (Inr 1) ex_request int_of_json None [ex_ping, ex_echo] =
     Inr ([None, None],
          \<lparr>w_guilds = [(None, [(''ping'', set_id ex_ping (Some 41)), (''echo'', ex_echo)])],
           w_log = [LogException ''echo'', LogDebug ''POST'' ''echo'' None,
                    LogDebug ''PATCH'' ''ping'' None]\<rparr>)"
  by (simp add: register_commands_def sync_scopes_def group_by_guild_def sync_guild_def
      get_route_def no_kwargs_def
      all_tasks_def tasks_of_def make_task_def ex_sync_defs ex_task_defs set_guild_id_def
      create_one_def Let_def)

subsection \<open>The context slot of Command.__init__\<close>

lemma init_param_ctx:
  "init_param name s p = Inr s' \<Longrightarrow> fst s' = (if is_ctx p then Some (p_name p) else fst s)"
  by (auto simp: init_param_def is_ctx_def Let_def split: annotation.splits sum.splits if_splits)

lemma init_loop_ctx:
  "for_each (init_param name) s ps = Inr s' \<Longrightarrow>
     fst s' = (if filter is_ctx ps = [] then fst s else Some (p_name (last (filter is_ctx ps))))"
proof (induction ps arbitrary: s)
  case Nil
  then show ?case by simp
next
  case (Cons p ps)
  then obtain s1 where s1: "init_param name s p = Inr s1"
    and rest: "for_each (init_param name) s1 ps = Inr s'"
    by (auto split: sum.splits)
  from init_param_ctx[OF s1] Cons.IH[OF rest] show ?case by auto
qed

lemma init_loop_no_ctx:
  "list_all (\<lambda>p. p_has_default p \<or> (\<exists>typ. p_annotation p = AnnOption typ)) ps \<Longrightarrow>
   filter is_ctx ps = [] \<Longrightarrow>
     \<exists>opts. for_each (init_param name) (a, os) ps = Inr (a, opts)"
proof (induction ps arbitrary: os)
  case Nil
  then show ?case by simp
next
  case (Cons p ps)
  from Cons.prems have p: "p_has_default p \<or> (\<exists>typ. p_annotation p = AnnOption typ)"
    "p_annotation p \<noteq> AnnContext"
    and rest: "list_all (\<lambda>p. p_has_default p \<or> (\<exists>typ. p_annotation p = AnnOption typ)) ps"
      "filter is_ctx ps = []"
    by (auto split: if_splits simp: is_ctx_def[of p])
  from p have "\<exists>os'. init_param name (a, os) p = Inr (a, os')"
    by (cases "p_annotation p") (auto simp: init_param_def Option_clone_eq Let_def)
  then obtain os' where "init_param name (a, os) p = Inr (a, os')" by blast
  with Cons.IH[OF rest, of os'] show ?case by simp
qed

text \<open>
  C6, amended. \<^verbatim>\<open>Command.__init__\<close> fails when no parameter of the callback is annotated
  with the context type, and when nothing else is wrong (there is a description, and every
  parameter has a default or an \<^verbatim>\<open>Option\<close> as annotation) it fails with the \<^verbatim>\<open>ValueError\<close>
  \<^verbatim>\<open>One argument must be type-hinted slash.Context\<close>; when it returns a command, at least
  one parameter is annotated with the context type, and the context slot \<^verbatim>\<open>_ctx_arg\<close> is
  the last of them. The check is made by the constructor.
\<close>

theorem Command_init_context_slot:
  "(filter is_ctx (co_params coro) = [] \<longrightarrow> (\<exists>e. Command_init coro kwargs = Inl e))
   \<and> (filter is_ctx (co_params coro) = []
        \<and> (case k_description kwargs of None \<Rightarrow> co_doc coro | Some d \<Rightarrow> d) = Some description
        \<and> description \<noteq> []
        \<and> list_all (\<lambda>p. p_has_default p \<or> (\<exists>typ. p_annotation p = AnnOption typ)) (co_params coro)
       \<longrightarrow> Command_init coro kwargs =
             Inl (ValueError ''One argument must be type-hinted slash.Context''))
   \<and> (\<forall>c. Command_init coro kwargs = Inr c \<longrightarrow>
          filter is_ctx (co_params coro) \<noteq> []
          \<and> cmd_ctx_arg c = p_name (last (filter is_ctx (co_params coro))))"
proof -
  have V: "Command_init coro kwargs = Inl (ValueError ''One argument must be type-hinted slash.Context'')"
    if none: "filter is_ctx (co_params coro) = []"
      and d: "(case k_description kwargs of None \<Rightarrow> co_doc coro | Some d \<Rightarrow> d) = Some description"
        "description \<noteq> []"
      and ok: "list_all (\<lambda>p. p_has_default p \<or> (\<exists>typ. p_annotation p = AnnOption typ)) (co_params coro)"
  proof -
    from init_loop_no_ctx[OF ok none,
        of "case k_name kwargs of None \<Rightarrow> co_name coro | Some n \<Rightarrow> n" None "[]"]
    obtain opts where "for_each (init_param (case k_name kwargs of None \<Rightarrow> co_name coro | Some n \<Rightarrow> n))
        (None, []) (co_params coro) = Inr (None, opts)" by blast
    with d show ?thesis by (simp add: Command_init_def Let_def)
  qed
  have A: "\<exists>e. Command_init coro kwargs = Inl e" if none: "filter is_ctx (co_params coro) = []"
  proof (cases "Command_init coro kwargs")
    case (Inl e)
    then show ?thesis by blast
  next
    case (Inr c)
    then obtain s where s: "for_each (init_param (case k_name kwargs of None \<Rightarrow> co_name coro | Some n \<Rightarrow> n))
        (None, []) (co_params coro) = Inr s" and "fst s \<noteq> None"
      by (auto simp: Command_init_def Let_def split: option.splits if_splits sum.splits)
    with init_loop_ctx[OF s] none show ?thesis by simp
  qed
  have B: "filter is_ctx (co_params coro) \<noteq> []
          \<and> cmd_ctx_arg c = p_name (last (filter is_ctx (co_params coro)))"
    if ok: "Command_init coro kwargs = Inr c" for c
  proof -
    from ok obtain s a where s: "for_each (init_param (case k_name kwargs of None \<Rightarrow> co_name coro | Some n \<Rightarrow> n))
        (None, []) (co_params coro) = Inr s" and a: "fst s = Some a" "cmd_ctx_arg c = a"
      by (auto simp: Command_init_def Let_def split: option.splits if_splits sum.splits)
    from init_loop_ctx[OF s] a show ?thesis by (auto split: if_splits)
  qed
  from A V B show ?thesis by blast
qed

text \<open>
  C6, as stated, fails: a callback with two parameters annotated with the context type is
  accepted, and the second one becomes the context slot.
\<close>

theorem Command_init_two_contexts_counterexample:
  "length (filter is_ctx (co_params ex_coro_two_ctx)) = 2
   \<and> Command_init ex_coro_two_ctx no_cmd_kwargs =
       Inr (Command None ''both'' ''Two contexts'' None None ''other'' [] ex_coro_two_ctx
              DefaultCheck None None)"
  by (simp add: Command_init_def ex_coro_two_ctx_def no_cmd_kwargs_def init_param_def is_ctx_def)

theorem Command_init_context_slot_witness:
  "filter is_ctx (co_params ex_coro_no_ctx) = []
   \<and> (case k_description no_cmd_kwargs of None \<Rightarrow> co_doc ex_coro_no_ctx | Some d \<Rightarrow> d)
        = Some ''Pay someone''
   \<and> ''Pay someone'' \<noteq> []
   \<and> list_all (\<lambda>p. p_has_default p \<or> (\<exists>typ. p_annotation p = AnnOption typ))
        (co_params ex_coro_no_ctx)
   \<and> Command_init ex_coro_no_ctx no_cmd_kwargs =
       Inl (ValueError ''One argument must be type-hinted slash.Context'')
   \<and> Command_init ex_coro_two_ctx no_cmd_kwargs =
       Inr (Command None ''both'' ''Two contexts'' None None ''other'' [] ex_coro_two_ctx
              DefaultCheck None None)
   \<and> filter is_ctx (co_params ex_coro_two_ctx) \<noteq> []
   \<and> cmd_ctx_arg (Command None ''both'' ''Two contexts'' None None ''other'' [] ex_coro_two_ctx
              DefaultCheck None None) = p_name (last (filter is_ctx (co_params ex_coro_two_ctx)))"
proof -
  have h1: "filter is_ctx (co_params ex_coro_no_ctx) = []"
    by (simp add: ex_coro_no_ctx_def is_ctx_def)
  have h2: "(case k_description no_cmd_kwargs of None \<Rightarrow> co_doc ex_coro_no_ctx | Some d \<Rightarrow> d)
        = Some ''Pay someone''"
    by (simp add: ex_coro_no_ctx_def no_cmd_kwargs_def)
  have h3: "''Pay someone'' \<noteq> []" by simp
  have h4: "list_all (\<lambda>p. p_has_default p \<or> (\<exists>typ. p_annotation p = AnnOption typ))
        (co_params ex_coro_no_ctx)"
    by (simp add: ex_coro_no_ctx_def)
  have h5: "Command_init ex_coro_two_ctx no_cmd_kwargs =
       Inr (Command None ''both'' ''Two contexts'' None None ''other'' [] ex_coro_two_ctx
              DefaultCheck None None)"
    by (simp add: Command_init_def ex_coro_two_ctx_def no_cmd_kwargs_def init_param_def)
  from Command_init_context_slot[of ex_coro_no_ctx no_cmd_kwargs "''Pay someone''"] h1 h2 h3 h4
  have c1: "Command_init ex_coro_no_ctx no_cmd_kwargs =
       Inl (ValueError ''One argument must be type-hinted slash.Context'')" by blast
  from Command_init_context_slot[of ex_coro_two_ctx no_cmd_kwargs] h5
  have c2: "filter is_ctx (co_params ex_coro_two_ctx) \<noteq> []
     \<and> cmd_ctx_arg (Command None ''both'' ''Two contexts'' None None ''other'' [] ex_coro_two_ctx
              DefaultCheck None None) = p_name (last (filter is_ctx (co_params ex_coro_two_ctx)))"
    by blast
  show ?thesis using h1 h2 h3 h4 h5 c1 c2 by blast
qed

subsection \<open>The tiers of _try_get\<close>

lemma fst_from_snapshot:
  "fst (from_snapshot d key tn rm r) = [] \<or> fst (from_snapshot d key tn rm r) = [TierSnapshot]"
  by (auto simp: from_snapshot_def split: option.splits)

lemma try_get_tiers_in_order:
  "fst (try_get rnf fing to_str d gm fm tn rm r fng fq) \<in>
     {[], [TierGet], [TierGet, TierFetch], [TierSnapshot], [TierGet, TierSnapshot],
      [TierGet, TierFetch, TierSnapshot]}"
proof -
  define fall where "fall = from_snapshot d (to_str (obj_id d)) tn rm r"
  define S where "S = {[], [TierGet], [TierGet, TierFetch], [TierSnapshot], [TierGet, TierSnapshot],
      [TierGet, TierFetch, TierSnapshot]}"
  have f: "fst fall = [] \<or> fst fall = [TierSnapshot]"
    unfolding fall_def by (rule fst_from_snapshot)
  then have a: "ts @ fst fall \<in> S" if "ts \<in> {[], [TierGet], [TierGet, TierFetch]}" for ts
    using that by (auto simp: S_def)
  define attempt where "attempt =
            (case gm of
               None \<Rightarrow> ([], Inl (TypeError ''NoneType object is not callable''))
             | Some get \<Rightarrow>
                 (case get (obj_id d) of
                    Inl e \<Rightarrow> (if caught e then ([TierGet] @ fst fall, snd fall) else ([TierGet], Inl e))
                  | Inr obj \<Rightarrow>
                      (if obj = None \<and> (case fng of None \<Rightarrow> fing | Some b \<Rightarrow> b) then
                         (case fm of
                            None \<Rightarrow> ([TierGet], Inl (TypeError ''NoneType object is not callable''))
                          | Some fetch \<Rightarrow>
                              (case fetch (obj_id d) of
                                 Inl e \<Rightarrow>
                                   (if caught e then ([TierGet, TierFetch] @ fst fall, snd fall)
                                    else ([TierGet, TierFetch], Inl e))
                               | Inr fetched \<Rightarrow> ([TierGet, TierFetch], Inr fetched)))
                       else if \<not> (case fng of None \<Rightarrow> fing | Some b \<Rightarrow> b) then ([TierGet] @ fst fall, snd fall)
                       else (case obj of
                               None \<Rightarrow> ([TierGet] @ fst fall, snd fall)
                             | Some cached \<Rightarrow> ([TierGet], Inr cached)))))"
  have att: "fst attempt \<in> S"
    unfolding attempt_def using a[of "[TierGet]"] a[of "[TierGet, TierFetch]"]
    by (simp add: S_def split: option.split sum.split)
  have "try_get rnf fing to_str d gm fm tn rm r fng fq =
      (if (case fq of None \<Rightarrow> \<not> rnf | Some b \<Rightarrow> b) then attempt
         else case r of
                None \<Rightarrow> attempt
              | Some r \<Rightarrow>
                  (case dict_get r (tn @ ''s'') of
                     None \<Rightarrow> ([], Inl (KeyError (tn @ ''s'')))
                   | Some fragment \<Rightarrow>
                       (if to_str (obj_id d) \<notin> set (dict_keys fragment) then attempt else ([] @ fst fall, snd fall))))"
    unfolding try_get_def Let_def attempt_def fall_def by simp
  moreover have "[] \<in> S" by (simp add: S_def)
  ultimately have "fst (try_get rnf fing to_str d gm fm tn rm r fng fq) \<in> S"
    using att a[of "[]"] by (simp split: option.split)
  then show ?thesis by (simp add: S_def)
qed

lemma try_get_hit_when_fetching:
  assumes "(case fng of None \<Rightarrow> fing | Some b \<Rightarrow> b)"
    and "(case fq of None \<Rightarrow> \<not> rnf | Some b \<Rightarrow> b) \<or> r = None"
    and "gm = Some get" and "get (obj_id d) = Inr (Some cached)"
  shows "try_get rnf fing to_str d gm fm tn rm r fng fq = ([TierGet], Inr cached)"
  using assms by (auto simp: try_get_def Let_def split: option.splits)

lemma try_get_hit_when_not_fetching:
  assumes "\<not> (case fng of None \<Rightarrow> fing | Some b \<Rightarrow> b)"
    and "(case fq of None \<Rightarrow> \<not> rnf | Some b \<Rightarrow> b) \<or> r = None"
    and "gm = Some get" and "get (obj_id d) = Inr (Some cached)"
  shows "try_get rnf fing to_str d gm fm tn rm r fng fq =
           (TierGet # fst (from_snapshot d (to_str (obj_id d)) tn rm r),
            snd (from_snapshot d (to_str (obj_id d)) tn rm r))"
  using assms by (auto simp: try_get_def Let_def split: option.splits)

lemma try_get_miss_snapshot:
  assumes "\<not> (case fng of None \<Rightarrow> fing | Some b \<Rightarrow> b)"
    and "gm = Some get" and "get (obj_id d) = Inr None"
    and "r = Some snap" and "dict_get snap (tn @ ''s'') = Some fragment"
    and "dict_get fragment (to_str (obj_id d)) = Some data" and "data \<noteq> JNull"
    and "rm = Some resolve"
  shows "snd (try_get rnf fing to_str d gm fm tn rm r fng fq) = resolve data
         \<and> TierFetch \<notin> set (fst (try_get rnf fing to_str d gm fm tn rm r fng fq))"
  using assms by (auto simp: try_get_def from_snapshot_def Let_def split: option.splits)

text \<open>
  C2 says that a cache hit is returned and that neither the fetch nor the snapshot is
  reached after it. The code does that only when fetching is permitted
  (\<open>try_get_hit_when_fetching\<close>). With \<^verbatim>\<open>fetch_if_not_get\<close> false, its default, the branch
  \<^verbatim>\<open>elif not fng: raise ValueError\<close> is taken whatever the cache answered
  (\<open>try_get_hit_when_not_fetching\<close>). Here \<^verbatim>\<open>Context.__init__\<close> resolves the guild 5 with
  the default flags and no snapshot; the cache has the guild, and the result is the bare
  \<^verbatim>\<open>discord.Object\<close>, not the cached guild.
\<close>

theorem try_get_cache_hit_not_returned:
  "try_get True False str_of_int (Object 5)
     (Some (\<lambda>i. Inr (Some (Entity ''Guild'' i)))) (Some (\<lambda>i. Inr (Entity ''Guild'' i)))
     ''guild'' None None None None = ([TierGet], Inr (Object 5))"
  by (simp add: try_get_def from_snapshot_def)

subsection \<open>The guard chain\<close>

lemma fst_collect_parents:
  "fst (collect_parents p ps cs) = ps @ map parent_check (ancestors p)"
  by (induction p ps cs rule: collect_parents.induct)
     (auto simp: parent_check_def split: option.splits)

lemma snd_collect_parents:
  "set (snd (collect_parents p ps cs)) =
     set cs \<union> {CogCheck (cog_id cg) | a cg. a \<in> set (ancestors p) \<and> cmd_cog a = Some cg \<and> cog_has_check cg}"
proof (induction p ps cs rule: collect_parents.induct)
  case (1 parents cogs)
  then show ?case by simp
next
  case (2 i n d g p c opts co ch cg sl parents cogs)
  show ?case
  proof (cases cg)
    case None
    with 2 show ?thesis by auto
  next
    case (Some the_cog)
    have self: "cmd_cog (Command i n d g p c opts co ch (Some the_cog) sl) = Some the_cog" by simp
    show ?thesis
    proof (cases "cog_has_check the_cog \<and> CogCheck (cog_id the_cog) \<notin> set cogs")
      case True
      with 2(2)[OF Some] Some self show ?thesis by (auto; blast)
    next
      case False
      with 2(2)[OF Some] Some self show ?thesis by (auto; blast)
    qed
  qed
qed

lemma distinct_collect_parents:
  "distinct cs \<Longrightarrow> distinct (snd (collect_parents p ps cs))"
  by (induction p ps cs rule: collect_parents.induct) (auto split: option.splits)

lemma guard_chain_eq:
  "guard_chain self checks =
     rev (map Plain checks) @ rev (snd (collect_parents (cmd_parent self) [] []))
       @ rev (map parent_check (ancestors (cmd_parent self))) @ [Plain (cmd_check self)]"
  by (simp add: guard_chain_def Let_def fst_collect_parents)

lemma run_checks_prefix:
  "\<exists>k\<le>length cs. fst (run_checks b h cs) = h @ map EvCheck (take k cs)"
proof (induction cs arbitrary: h)
  case Nil
  then show ?case by simp
next
  case (Cons c cs)
  show ?case
  proof (cases "call_check b h c")
    case RetFalse
    then have "fst (run_checks b h (c # cs)) = h @ map EvCheck (take 1 (c # cs))" by simp
    then show ?thesis by (metis One_nat_def Suc_leI length_Cons zero_less_Suc)
  next
    case RetOther
    from Cons[of "h @ [EvCheck c]"] obtain k where
      k: "k \<le> length cs" "fst (run_checks b (h @ [EvCheck c]) cs) = (h @ [EvCheck c]) @ map EvCheck (take k cs)"
      by blast
    with RetOther have "fst (run_checks b h (c # cs)) = h @ map EvCheck (take (Suc k) (c # cs))" by simp
    with k(1) show ?thesis by (metis Suc_le_mono length_Cons)
  next
    case (Raises e)
    then have "fst (run_checks b h (c # cs)) = h @ map EvCheck (take 1 (c # cs))" by simp
    then show ?thesis by (metis One_nat_def Suc_leI length_Cons zero_less_Suc)
  qed
qed

lemma run_checks_short_circuit:
  assumes "\<forall>i<length pre. call_check b (h @ map EvCheck (take i pre)) (pre ! i) = RetOther"
    and "call_check b (h @ map EvCheck pre) c = RetFalse"
  shows "run_checks b h (pre @ c # post) = (h @ map EvCheck (pre @ [c]), Inr False)"
  using assms
proof (induction pre arbitrary: h)
  case Nil
  then show ?case by simp
next
  case (Cons p pre)
  from Cons.prems(1) have p: "call_check b h p = RetOther" by fastforce
  have "\<forall>i<length pre. call_check b ((h @ [EvCheck p]) @ map EvCheck (take i pre)) (pre ! i) = RetOther"
  proof (intro allI impI)
    fix i assume "i < length pre"
    then have "Suc i < length (p # pre)" by simp
    from Cons.prems(1)[rule_format, OF this] show
      "call_check b ((h @ [EvCheck p]) @ map EvCheck (take i pre)) (pre ! i) = RetOther" by simp
  qed
  moreover have "call_check b ((h @ [EvCheck p]) @ map EvCheck pre) c = RetFalse"
    using Cons.prems(2) by simp
  ultimately have "run_checks b (h @ [EvCheck p]) (pre @ c # post) =
      ((h @ [EvCheck p]) @ map EvCheck (pre @ [c]), Inr False)" by (rule Cons.IH)
  with p show ?case by simp
qed

text \<open>
  C1, amended. The list that \<^verbatim>\<open>can_run\<close> evaluates is: the global checks of the client, the
  last registered first; then the \<^verbatim>\<open>cog_check\<close> of the cogs of the ancestors, each cog
  once (the list of them has no repetition, and holds exactly the \<^verbatim>\<open>cog_check\<close> of the cogs
  of the ancestors that have one); then the checks of the ancestor groups, the outermost
  group first; then the command's own check. The checks are evaluated in the order of that list, up to some
  point of it. When a check returns \<^verbatim>\<open>False\<close> after the checks before it have returned
  something else, \<^verbatim>\<open>invoke\<close> has run those checks only, no callback of a group and not
  the callback of the command, and raises \<^verbatim>\<open>CheckFailure\<close>.
\<close>

theorem guard_chain_order:
  "guard_chain self checks =
     rev (map Plain checks) @ rev (snd (collect_parents (cmd_parent self) [] []))
       @ rev (map parent_check (ancestors (cmd_parent self))) @ [Plain (cmd_check self)]
   \<and> set (snd (collect_parents (cmd_parent self) [] [])) =
       {CogCheck (cog_id cg) | a cg. a \<in> set (ancestors (cmd_parent self)) \<and> cmd_cog a = Some cg
                                      \<and> cog_has_check cg}
   \<and> distinct (snd (collect_parents (cmd_parent self) [] []))
   \<and> (\<exists>k\<le>length (guard_chain self checks).
         fst (can_run behaviour h self checks) = h @ map EvCheck (take k (guard_chain self checks)))
   \<and> (guard_chain self checks = pre @ c # post
        \<and> (\<forall>i<length pre. call_check behaviour (h @ map EvCheck (take i pre)) (pre ! i) = RetOther)
        \<and> call_check behaviour (h @ map EvCheck pre) c = RetFalse
       \<longrightarrow> invoke behaviour h checks self ctx =
             (h @ map EvCheck (pre @ [c]),
              Inl (CheckFailure (''The check functions for '' @ qualname self @ '' failed.''))))"
proof -
  have A: "set (snd (collect_parents (cmd_parent self) [] [])) =
       {CogCheck (cog_id cg) | a cg. a \<in> set (ancestors (cmd_parent self)) \<and> cmd_cog a = Some cg
                                      \<and> cog_has_check cg}"
    using snd_collect_parents[of "cmd_parent self" "[]" "[]"] by simp
  have B: "\<exists>k\<le>length (guard_chain self checks).
         fst (can_run behaviour h self checks) = h @ map EvCheck (take k (guard_chain self checks))"
    unfolding can_run_def by (rule run_checks_prefix)
  have C: "invoke behaviour h checks self ctx =
             (h @ map EvCheck (pre @ [c]),
              Inl (CheckFailure (''The check functions for '' @ qualname self @ '' failed.'')))"
    if "guard_chain self checks = pre @ c # post"
      and "\<forall>i<length pre. call_check behaviour (h @ map EvCheck (take i pre)) (pre ! i) = RetOther"
      and "call_check behaviour (h @ map EvCheck pre) c = RetFalse"
  proof -
    from run_checks_short_circuit[OF that(2) that(3), of post] that(1)
    have "can_run behaviour h self checks = (h @ map EvCheck (pre @ [c]), Inr False)"
      by (simp add: can_run_def)
    then show ?thesis by (simp add: invoke_def)
  qed
  have D: "distinct (snd (collect_parents (cmd_parent self) [] []))"
    by (rule distinct_collect_parents) simp
  from guard_chain_eq A B C D show ?thesis by blast
qed

text \<open>
  C1, as stated, fails: the global check is evaluated before the check of the ancestor
  group, so when the group's check returns \<^verbatim>\<open>False\<close> the global check has already run.
\<close>

theorem guard_chain_claimed_order_counterexample:
  "guard_chain ex_sub [CheckFn ''global_check''] =
     [Plain (CheckFn ''global_check''), Plain (CheckFn ''group_check''), Plain (CheckFn ''own_check'')]
   \<and> can_run ex_behaviour [] ex_sub [CheckFn ''global_check''] =
       ([EvCheck (Plain (CheckFn ''global_check'')), EvCheck (Plain (CheckFn ''group_check''))],
        Inr False)"
  by (simp add: guard_chain_def can_run_def ex_sub_def ex_group_def ex_behaviour_def)

theorem guard_chain_order_witness:
  "guard_chain ex_sub [CheckFn ''global_check''] =
     [Plain (CheckFn ''global_check'')] @ Plain (CheckFn ''group_check'') # [Plain (CheckFn ''own_check'')]
   \<and> call_check ex_behaviour [] (Plain (CheckFn ''global_check'')) = RetOther
   \<and> call_check ex_behaviour ([] @ map EvCheck [Plain (CheckFn ''global_check'')])
         (Plain (CheckFn ''group_check'')) = RetFalse
   \<and> invoke ex_behaviour [] [CheckFn ''global_check''] ex_sub ex_ctx =
       ([EvCheck (Plain (CheckFn ''global_check'')), EvCheck (Plain (CheckFn ''group_check''))],
        Inl (CheckFailure ''The check functions for grp sub failed.''))
   \<and> map cmd_cog (ancestors (cmd_parent ex_leaf)) = [Some ex_cog, Some ex_cog]
   \<and> snd (collect_parents (cmd_parent ex_leaf) [] []) = [CogCheck 3]
   \<and> guard_chain ex_leaf [CheckFn ''global_check''] =
       [Plain (CheckFn ''global_check''), CogCheck 3, Bound (CheckFn ''outer_check'') 3,
        Bound (CheckFn ''inner_check'') 3, Plain (CheckFn ''leaf_check'')]"
proof -
  have h1: "guard_chain ex_sub [CheckFn ''global_check''] =
     [Plain (CheckFn ''global_check'')] @ Plain (CheckFn ''group_check'') # [Plain (CheckFn ''own_check'')]"
    by (simp add: guard_chain_def ex_sub_def ex_group_def)
  have h2: "\<forall>i<length [Plain (CheckFn ''global_check'')].
         call_check ex_behaviour ([] @ map EvCheck (take i [Plain (CheckFn ''global_check'')]))
           ([Plain (CheckFn ''global_check'')] ! i) = RetOther"
    by (simp add: ex_behaviour_def)
  have h3: "call_check ex_behaviour ([] @ map EvCheck [Plain (CheckFn ''global_check'')])
         (Plain (CheckFn ''group_check'')) = RetFalse"
    by (simp add: ex_behaviour_def)
  have q: "qualname ex_sub = ''grp sub''" by (simp add: ex_sub_def ex_group_def)
  from guard_chain_order[of ex_sub "[CheckFn ''global_check'']" ex_behaviour "[]"
      "[Plain (CheckFn ''global_check'')]" "Plain (CheckFn ''group_check'')"
      "[Plain (CheckFn ''own_check'')]" ex_ctx] h1 h2 h3
  have "invoke ex_behaviour [] [CheckFn ''global_check''] ex_sub ex_ctx =
       ([] @ map EvCheck ([Plain (CheckFn ''global_check'')] @ [Plain (CheckFn ''group_check'')]),
        Inl (CheckFailure (''The check functions for '' @ qualname ex_sub @ '' failed.'')))"
    by blast
  then have h4: "invoke ex_behaviour [] [CheckFn ''global_check''] ex_sub ex_ctx =
       ([EvCheck (Plain (CheckFn ''global_check'')), EvCheck (Plain (CheckFn ''group_check''))],
        Inl (CheckFailure ''The check functions for grp sub failed.''))"
    by (simp add: q)
  have h2': "call_check ex_behaviour [] (Plain (CheckFn ''global_check'')) = RetOther"
    by (simp add: ex_behaviour_def)
  have h5: "map cmd_cog (ancestors (cmd_parent ex_leaf)) = [Some ex_cog, Some ex_cog]"
    by (simp add: ex_leaf_def ex_inner_def ex_outer_def)
  have h6: "snd (collect_parents (cmd_parent ex_leaf) [] []) = [CogCheck 3]"
    by (simp add: ex_leaf_def ex_inner_def ex_outer_def ex_cog_def)
  have h7: "guard_chain ex_leaf [CheckFn ''global_check''] =
       [Plain (CheckFn ''global_check''), CogCheck 3, Bound (CheckFn ''outer_check'') 3,
        Bound (CheckFn ''inner_check'') 3, Plain (CheckFn ''leaf_check'')]"
    by (simp add: guard_chain_def ex_leaf_def ex_inner_def ex_outer_def ex_cog_def)
  show ?thesis using h1 h2' h3 h4 h5 h6 h7 by blast
qed

subsection \<open>Binding option values\<close>

lemma bind_value_raw:
  "opttype \<noteq> USER \<Longrightarrow> opttype \<noteq> CHANNEL \<Longrightarrow> opttype \<noteq> ROLE \<Longrightarrow>
     bind_value cl guild resolved opttype v = Inr (Raw v)"
  by (simp add: bind_value_def)

lemma non_entity_types:
  "t = STRING \<or> t = INTEGER \<or> t = BOOLEAN \<Longrightarrow> t \<noteq> USER \<and> t \<noteq> CHANNEL \<and> t \<noteq> ROLE"
  by (auto simp: STRING_def INTEGER_def BOOLEAN_def USER_def CHANNEL_def ROLE_def)

lemma kwargs_loop_value_step:
  assumes "on_value node = Some v"
    and "find_option (cmd_options (ctx_command ctx)) (on_name node) = Some k"
    and "dict_get (cmd_options (ctx_command ctx)) k = Some opt"
    and "o_type opt = STRING \<or> o_type opt = INTEGER \<or> o_type opt = BOOLEAN"
  shows "kwargs_loop cl resolved ctx kwargs (node # rest) prev =
           kwargs_loop cl resolved ctx (dict_set kwargs k (Raw v)) rest
             (Some (k, case on_options node of None \<Rightarrow> [] | Some os \<Rightarrow> os))"
  using assms non_entity_types[OF assms(4)]
  by (cases node) (simp add: bind_value_raw)

lemma kwargs_loop_raw:
  assumes "list_all2 (\<lambda>node kv. on_value node = Some (snd kv)
              \<and> find_option (cmd_options (ctx_command ctx)) (on_name node) = Some (fst kv)
              \<and> (\<exists>opt. dict_get (cmd_options (ctx_command ctx)) (fst kv) = Some opt
                     \<and> (o_type opt = STRING \<or> o_type opt = INTEGER \<or> o_type opt = BOOLEAN)))
            opts kvs"
  shows "\<exists>prev'. kwargs_loop cl resolved ctx kwargs (opts @ rest) prev =
           kwargs_loop cl resolved ctx (foldl (\<lambda>kw kv. dict_set kw (fst kv) (Raw (snd kv))) kwargs kvs)
             rest prev' \<and> (opts = [] \<longrightarrow> prev' = prev) \<and> (opts \<noteq> [] \<longrightarrow> prev' \<noteq> None)"
  using assms
proof (induction opts kvs arbitrary: kwargs prev rule: list_all2_induct)
  case Nil
  then show ?case by simp
next
  case (Cons node opts kv kvs)
  then obtain opt where h: "on_value node = Some (snd kv)"
    "find_option (cmd_options (ctx_command ctx)) (on_name node) = Some (fst kv)"
    "dict_get (cmd_options (ctx_command ctx)) (fst kv) = Some opt"
    "o_type opt = STRING \<or> o_type opt = INTEGER \<or> o_type opt = BOOLEAN" by blast
  from Cons.IH[of "dict_set kwargs (fst kv) (Raw (snd kv))"
      "Some (fst kv, case on_options node of None \<Rightarrow> [] | Some os \<Rightarrow> os)"]
  obtain prev' where p: "kwargs_loop cl resolved ctx (dict_set kwargs (fst kv) (Raw (snd kv))) (opts @ rest)
         (Some (fst kv, case on_options node of None \<Rightarrow> [] | Some os \<Rightarrow> os)) =
        kwargs_loop cl resolved ctx
         (foldl (\<lambda>kw kv. dict_set kw (fst kv) (Raw (snd kv))) (dict_set kwargs (fst kv) (Raw (snd kv))) kvs)
         rest prev'" "prev' \<noteq> None"
    by (cases "opts = []") auto
  with kwargs_loop_value_step[OF h, of cl resolved kwargs "opts @ rest" prev]
  show ?case by auto
qed

lemma kwargs_from_options_all_raw:
  assumes "cmd_slash (ctx_command ctx) = None"
    and "list_all2 (\<lambda>node kv. on_value node = Some (snd kv)
              \<and> find_option (cmd_options (ctx_command ctx)) (on_name node) = Some (fst kv)
              \<and> (\<exists>opt. dict_get (cmd_options (ctx_command ctx)) (fst kv) = Some opt
                     \<and> (o_type opt = STRING \<or> o_type opt = INTEGER \<or> o_type opt = BOOLEAN)))
            options kvs"
  shows "kwargs_from_options cl ctx options resolved =
           Inr (ctx\<lparr>ctx_cog := cmd_cog (ctx_command ctx),
                    ctx_options := dict_set (foldl (\<lambda>kw kv. dict_set kw (fst kv) (Raw (snd kv))) [] kvs)
                                     (cmd_ctx_arg (ctx_command ctx)) Self\<rparr>)"
proof -
  let ?ctx = "ctx\<lparr>ctx_cog := cmd_cog (ctx_command ctx)\<rparr>"
  have c: "ctx_command ?ctx = ctx_command ctx" by simp
  from kwargs_loop_raw[of ?ctx options kvs cl resolved "[]" "[]" None] assms(2)
  obtain prev' where "kwargs_loop cl resolved ?ctx [] options None =
      kwargs_loop cl resolved ?ctx (foldl (\<lambda>kw kv. dict_set kw (fst kv) (Raw (snd kv))) [] kvs) [] prev'"
    by auto
  then show ?thesis using assms(1) by (simp add: kwargs_from_options_def)
qed

lemma kwargs_loop_unknown_step:
  assumes "on_value node = Some v"
    and "find_option (cmd_options (ctx_command ctx)) (on_name node) = None"
  shows "kwargs_loop cl resolved ctx kwargs (node # rest) prev =
           Inl (CommandInvokeError (''No such option: '' @ py_repr (on_name node)))"
  using assms by (cases node) simp

text \<open>
  C8. An entry that carries a value for a declared option of type \<^verbatim>\<open>STRING\<close>, \<^verbatim>\<open>INTEGER\<close> or
  \<^verbatim>\<open>BOOLEAN\<close> is bound to the raw value of the event, unchanged: the resolver is not
  called, and whatever was bound before and whatever follows, the loop goes on with the
  raw value under the parameter name of the option. When the command is a plain
  \<^verbatim>\<open>Command\<close> and every entry of the event is such an entry, binding succeeds and
  \<^verbatim>\<open>ctx.options\<close> holds these raw values (a later entry for the same option replacing an
  earlier one) and the context under the context slot.
\<close>

theorem kwargs_from_options_raw:
  "(on_value node = Some v
      \<and> find_option (cmd_options (ctx_command ctx)) (on_name node) = Some k
      \<and> dict_get (cmd_options (ctx_command ctx)) k = Some opt
      \<and> (o_type opt = STRING \<or> o_type opt = INTEGER \<or> o_type opt = BOOLEAN)
    \<longrightarrow> bind_value cl (ctx_guild ctx) resolved (o_type opt) v = Inr (Raw v)
        \<and> kwargs_loop cl resolved ctx kwargs (node # rest) prev =
            kwargs_loop cl resolved ctx (dict_set kwargs k (Raw v)) rest
              (Some (k, case on_options node of None \<Rightarrow> [] | Some os \<Rightarrow> os)))
   \<and> (cmd_slash (ctx_command ctx) = None
       \<and> list_all2 (\<lambda>node kv. on_value node = Some (snd kv)
              \<and> find_option (cmd_options (ctx_command ctx)) (on_name node) = Some (fst kv)
              \<and> (\<exists>opt. dict_get (cmd_options (ctx_command ctx)) (fst kv) = Some opt
                     \<and> (o_type opt = STRING \<or> o_type opt = INTEGER \<or> o_type opt = BOOLEAN)))
            options kvs
    \<longrightarrow> kwargs_from_options cl ctx options resolved =
          Inr (ctx\<lparr>ctx_cog := cmd_cog (ctx_command ctx),
                   ctx_options := dict_set (foldl (\<lambda>kw kv. dict_set kw (fst kv) (Raw (snd kv))) [] kvs)
                                    (cmd_ctx_arg (ctx_command ctx)) Self\<rparr>))"
proof -
  have A: "bind_value cl (ctx_guild ctx) resolved (o_type opt) v = Inr (Raw v)"
    if "o_type opt = STRING \<or> o_type opt = INTEGER \<or> o_type opt = BOOLEAN"
    using non_entity_types[OF that] by (simp add: bind_value_raw)
  show ?thesis
    using A kwargs_loop_value_step[of node v ctx k opt cl resolved kwargs rest prev]
      kwargs_from_options_all_raw[of ctx options kvs cl resolved]
    by blast
qed

lemma kwargs_from_options_unknown:
  assumes "list_all2 (\<lambda>node kv. on_value node = Some (snd kv)
              \<and> find_option (cmd_options (ctx_command ctx)) (on_name node) = Some (fst kv)
              \<and> (\<exists>opt. dict_get (cmd_options (ctx_command ctx)) (fst kv) = Some opt
                     \<and> (o_type opt = STRING \<or> o_type opt = INTEGER \<or> o_type opt = BOOLEAN)))
            before kvs"
    and "on_value node = Some v"
    and "find_option (cmd_options (ctx_command ctx)) (on_name node) = None"
  shows "kwargs_from_options cl ctx (before @ node # rest) resolved =
           Inl (CommandInvokeError (''No such option: '' @ py_repr (on_name node)))"
proof -
  let ?ctx = "ctx\<lparr>ctx_cog := cmd_cog (ctx_command ctx)\<rparr>"
  from kwargs_loop_raw[of ?ctx before kvs cl resolved "[]" "node # rest" None] assms(1)
  obtain prev' where "kwargs_loop cl resolved ?ctx [] (before @ node # rest) None =
      kwargs_loop cl resolved ?ctx (foldl (\<lambda>kw kv. dict_set kw (fst kv) (Raw (snd kv))) [] kvs)
        (node # rest) prev'"
    by auto
  moreover have "kwargs_loop cl resolved ?ctx kw (node # rest) p =
      Inl (CommandInvokeError (''No such option: '' @ py_repr (on_name node)))" for kw p
    using assms(2,3) by (cases node) simp
  ultimately show ?thesis by (simp add: kwargs_from_options_def)
qed

lemma bind_exn_fails: "(\<And>x. \<exists>e. f x = Inl e) \<Longrightarrow> \<exists>e. bind_exn m f = Inl e"
  by (cases m) (simp_all add: bind_exn_def)

lemma Context_init_kwargs_fail:
  assumes "\<And>ctx. ctx_command ctx = cmd \<Longrightarrow>
             \<exists>e. kwargs_from_options cl ctx (case ev_options ev of None \<Rightarrow> [] | Some os \<Rightarrow> os)
                    (case ev_resolved ev of None \<Rightarrow> default_resolved | Some r \<Rightarrow> r) = Inl e"
  shows "\<exists>e. Context_init cl cmd ev = Inl e"
  unfolding Context_init_def
  apply (rule bind_exn_fails)
  apply (rule bind_exn_fails)
  apply (rule bind_exn_fails)
  apply (rule bind_exn_fails)
  subgoal for i guild channel author
    using assms[of "\<lparr>ctx_id = i, ctx_command = cmd, ctx_guild = guild, ctx_channel = channel,
                  ctx_author = author, ctx_token = ev_token ev, ctx_cog = None, ctx_options = [],
                  ctx_me = Object (client_user_id cl)\<rparr>"]
    by (auto simp: bind_exn_def)
  done

text \<open>
  C10. An entry that carries a value and whose name is the \<^verbatim>\<open>name\<close> of no declared option of
  the command makes the loop of \<^verbatim>\<open>_kwargs_from_options\<close> raise \<^verbatim>\<open>CommandInvokeError\<close> with
  the message \<^verbatim>\<open>No such option:\<close> and the name, whenever the loop comes to it; it does when
  the entries before it are values of declared non-entity options. The name is compared with the declared names only, so the entry
  is refused also when it equals a parameter name. \<^verbatim>\<open>on_interaction_create\<close> then ends
  with an exception and has run nothing of the application: no check, no callback.
\<close>

theorem unknown_option_raises:
  assumes "list_all2 (\<lambda>node kv. on_value node = Some (snd kv)
              \<and> find_option (cmd_options cmd) (on_name node) = Some (fst kv)
              \<and> (\<exists>opt. dict_get (cmd_options cmd) (fst kv) = Some opt
                     \<and> (o_type opt = STRING \<or> o_type opt = INTEGER \<or> o_type opt = BOOLEAN)))
            before kvs"
    and "on_value node = Some v"
    and "find_option (cmd_options cmd) (on_name node) = None"
  shows "(ctx_command ctx = cmd \<longrightarrow>
            kwargs_loop cl resolved ctx kwargs (node # rest) prev =
              Inl (CommandInvokeError (''No such option: '' @ py_repr (on_name node)))
            \<and> kwargs_from_options cl ctx (before @ node # rest) resolved =
              Inl (CommandInvokeError (''No such option: '' @ py_repr (on_name node))))
         \<and> (find_command cl ev = Inr cmd \<and> ev_options ev = Some (before @ node # rest) \<longrightarrow>
              (\<exists>err. on_interaction_create cl ev = ([], RaisedOut err)))"
proof -
  have S: "kwargs_loop cl resolved ctx kwargs (node # rest) prev =
              Inl (CommandInvokeError (''No such option: '' @ py_repr (on_name node)))"
    if "ctx_command ctx = cmd"
    using kwargs_loop_unknown_step[of node v ctx cl resolved kwargs rest prev] assms(2,3) that
    by simp
  have A: "kwargs_from_options cl c (before @ node # rest) r =
              Inl (CommandInvokeError (''No such option: '' @ py_repr (on_name node)))"
    if "ctx_command c = cmd" for c r
    using kwargs_from_options_unknown[of c before kvs node v cl rest r] assms that by simp
  have B: "\<exists>err. on_interaction_create cl ev = ([], RaisedOut err)"
    if f: "find_command cl ev = Inr cmd" and o: "ev_options ev = Some (before @ node # rest)"
  proof -
    have "\<exists>e. Context_init cl cmd ev = Inl e"
      by (rule Context_init_kwargs_fail) (simp add: o A)
    then show ?thesis using f by (auto simp: on_interaction_create_def)
  qed
  from S A B show ?thesis by blast
qed

lemmas ex_dispatch_defs = on_interaction_create_def find_command_def Context_init_def
  kwargs_from_options_def bind_exn_def ex_client_def ex_event_def ex_pay_def ex_amount_def
  int_of_json_def digit_of_def get_truthy_def mk_Object_def mk_member_def mk_user_def
  ex_member_def subscript_def
  try_get_def from_snapshot_def get_member_def fetch_member_def guild_call_def dict_get_def
  default_resolved_def bind_value_def invoke_def can_run_def guard_chain_def invoke_parents_def
  py_repr_def INTEGER_def USER_def CHANNEL_def ROLE_def STRING_def BOOLEAN_def

theorem kwargs_from_options_raw_witness:
  "cmd_slash (ctx_command ex_pay_ctx) = None
   \<and> list_all2 (\<lambda>node kv. on_value node = Some (snd kv)
              \<and> find_option (cmd_options (ctx_command ex_pay_ctx)) (on_name node) = Some (fst kv)
              \<and> (\<exists>opt. dict_get (cmd_options (ctx_command ex_pay_ctx)) (fst kv) = Some opt
                     \<and> (o_type opt = STRING \<or> o_type opt = INTEGER \<or> o_type opt = BOOLEAN)))
        [OptNode ''amount'' (Some (JInt 5)) None] [(''amount'', JInt 5)]
   \<and> kwargs_from_options ex_client ex_pay_ctx [OptNode ''amount'' (Some (JInt 5)) None]
        default_resolved =
        Inr (ex_pay_ctx\<lparr>ctx_options := [(''amount'', Raw (JInt 5)), (''ctx'', Self)]\<rparr>)
   \<and> Context_init ex_client ex_pay (ex_event [OptNode ''amount'' (Some (JInt 5)) None]) =
        Inr (ex_pay_ctx\<lparr>ctx_options := [(''amount'', Raw (JInt 5)), (''ctx'', Self)]\<rparr>)
   \<and> on_interaction_create ex_client (ex_event [OptNode ''amount'' (Some (JInt 5)) None]) =
        ([EvCheck (Plain DefaultCheck),
          EvBody (cmd_coro ex_pay) None [(''amount'', Raw (JInt 5)), (''ctx'', Self)]],
         Completed)"
proof -
  have h1: "cmd_slash (ctx_command ex_pay_ctx) = None"
    by (simp add: ex_pay_ctx_def ex_pay_def)
  have h2: "list_all2 (\<lambda>node kv. on_value node = Some (snd kv)
              \<and> find_option (cmd_options (ctx_command ex_pay_ctx)) (on_name node) = Some (fst kv)
              \<and> (\<exists>opt. dict_get (cmd_options (ctx_command ex_pay_ctx)) (fst kv) = Some opt
                     \<and> (o_type opt = STRING \<or> o_type opt = INTEGER \<or> o_type opt = BOOLEAN)))
        [OptNode ''amount'' (Some (JInt 5)) None] [(''amount'', JInt 5)]"
    by (simp add: ex_pay_ctx_def ex_pay_def ex_amount_def dict_get_def)
  from kwargs_from_options_raw[of _ _ ex_pay_ctx _ _ ex_client default_resolved _ _ _
      "[OptNode ''amount'' (Some (JInt 5)) None]" "[(''amount'', JInt 5)]"] h1 h2
  have h3: "kwargs_from_options ex_client ex_pay_ctx [OptNode ''amount'' (Some (JInt 5)) None]
        default_resolved =
        Inr (ex_pay_ctx\<lparr>ctx_options := [(''amount'', Raw (JInt 5)), (''ctx'', Self)]\<rparr>)"
    by (simp add: ex_pay_ctx_def ex_pay_def)
  have h4: "on_interaction_create ex_client (ex_event [OptNode ''amount'' (Some (JInt 5)) None]) =
        ([EvCheck (Plain DefaultCheck),
          EvBody (cmd_coro ex_pay) None [(''amount'', Raw (JInt 5)), (''ctx'', Self)]],
         Completed)"
    by (simp add: ex_dispatch_defs)
  have h5: "Context_init ex_client ex_pay (ex_event [OptNode ''amount'' (Some (JInt 5)) None]) =
        Inr (ex_pay_ctx\<lparr>ctx_options := [(''amount'', Raw (JInt 5)), (''ctx'', Self)]\<rparr>)"
    by (simp add: ex_dispatch_defs ex_pay_ctx_def)
  show ?thesis using h1 h2 h3 h4 h5 by blast
qed

text \<open>
  The same event from a member whose payload has only the user's \<^verbatim>\<open>id\<close> and the \<^verbatim>\<open>roles\<close>:
  the constructor of the member raises \<^verbatim>\<open>KeyError\<close> in \<^verbatim>\<open>Context.__init__\<close>, and the
  exception leaves \<^verbatim>\<open>on_interaction_create\<close> with nothing of the application run.
\<close>

lemma on_interaction_create_member_without_username:
  "on_interaction_create ex_client
     ((ex_event [OptNode ''amount'' (Some (JInt 5)) None])
        \<lparr>ev_member := Some (JObj [(''user'', JObj [(''id'', JStr ''7'')]), (''roles'', JList [])])\<rparr>)
   = ([], RaisedOut (KeyError ''username''))"
  by (simp add: ex_dispatch_defs)

theorem unknown_option_raises_witness:
  "list_all2 (\<lambda>node kv. on_value node = Some (snd kv)
              \<and> find_option (cmd_options ex_pay) (on_name node) = Some (fst kv)
              \<and> (\<exists>opt. dict_get (cmd_options ex_pay) (fst kv) = Some opt
                     \<and> (o_type opt = STRING \<or> o_type opt = INTEGER \<or> o_type opt = BOOLEAN)))
        [OptNode ''amount'' (Some (JInt 5)) None] [(''amount'', JInt 5)]
   \<and> on_value (OptNode ''bogus'' (Some (JInt 1)) None) = Some (JInt 1)
   \<and> find_option (cmd_options ex_pay) (on_name (OptNode ''bogus'' (Some (JInt 1)) None)) = None
   \<and> ctx_command ex_pay_ctx = ex_pay
   \<and> find_command ex_client
        (ex_event [OptNode ''amount'' (Some (JInt 5)) None, OptNode ''bogus'' (Some (JInt 1)) None])
        = Inr ex_pay
   \<and> kwargs_from_options ex_client ex_pay_ctx
        [OptNode ''amount'' (Some (JInt 5)) None, OptNode ''bogus'' (Some (JInt 1)) None]
        default_resolved = Inl (CommandInvokeError (''No such option: '' @ py_repr ''bogus''))
   \<and> (\<exists>err. on_interaction_create ex_client
          (ex_event [OptNode ''amount'' (Some (JInt 5)) None, OptNode ''bogus'' (Some (JInt 1)) None])
          = ([], RaisedOut err))"
proof -
  let ?ev = "ex_event [OptNode ''amount'' (Some (JInt 5)) None, OptNode ''bogus'' (Some (JInt 1)) None]"
  have h1: "list_all2 (\<lambda>node kv. on_value node = Some (snd kv)
              \<and> find_option (cmd_options ex_pay) (on_name node) = Some (fst kv)
              \<and> (\<exists>opt. dict_get (cmd_options ex_pay) (fst kv) = Some opt
                     \<and> (o_type opt = STRING \<or> o_type opt = INTEGER \<or> o_type opt = BOOLEAN)))
        [OptNode ''amount'' (Some (JInt 5)) None] [(''amount'', JInt 5)]"
    by (simp add: ex_pay_def ex_amount_def dict_get_def)
  have h2: "on_value (OptNode ''bogus'' (Some (JInt 1)) None) = Some (JInt 1)" by simp
  have h3: "find_option (cmd_options ex_pay) (on_name (OptNode ''bogus'' (Some (JInt 1)) None)) = None"
    by (simp add: ex_pay_def ex_amount_def)
  have h4: "ctx_command ex_pay_ctx = ex_pay" by (simp add: ex_pay_ctx_def)
  have h5: "find_command ex_client ?ev = Inr ex_pay"
    by (simp add: find_command_def ex_client_def ex_event_def bind_exn_def int_of_json_def
        digit_of_def ex_pay_def)
  have h6: "ev_options ?ev = Some ([OptNode ''amount'' (Some (JInt 5)) None]
              @ OptNode ''bogus'' (Some (JInt 1)) None # [])"
    by (simp add: ex_event_def)
  from unknown_option_raises[OF h1 h2 h3, of ex_pay_ctx ex_client default_resolved "[]" "[]" None ?ev]
    h4 h5 h6
  have c: "kwargs_from_options ex_client ex_pay_ctx
        ([OptNode ''amount'' (Some (JInt 5)) None] @ OptNode ''bogus'' (Some (JInt 1)) None # [])
        default_resolved = Inl (CommandInvokeError (''No such option: '' @ py_repr
           (on_name (OptNode ''bogus'' (Some (JInt 1)) None))))"
    "\<exists>err. on_interaction_create ex_client ?ev = ([], RaisedOut err)"
    by blast+
  from c(1) have c1: "kwargs_from_options ex_client ex_pay_ctx
        [OptNode ''amount'' (Some (JInt 5)) None, OptNode ''bogus'' (Some (JInt 1)) None]
        default_resolved = Inl (CommandInvokeError (''No such option: '' @ py_repr ''bogus''))"
    by simp
  show ?thesis using h1 h2 h3 h4 h5 c1 c(2) by blast
qed

end
